theory Spec2Isabelle
  imports Complex_Main "HOL-Library.Word"
begin

unbundle bit_operations_syntax

section \<open>Machine types and enumerations of the LoRaWAN MAC layer\<close>

text \<open>
  The model follows \<^verbatim>\<open>lr1mac/src/lr1_stack_mac_layer.c\<close>. C unsigned integers are
  words of their width, so \<open>+\<close>, \<open>-\<close> and \<open>*\<close> wrap as they do in C. The header that
  declares \<^verbatim>\<open>lr1_stack_mac_t\<close> and the enumerations is not part of the sources at hand:
  field widths are taken from the way the C file uses the fields (casts, masks, the
  local variables they are copied to), and the numeric codes of the LoRaWAN message
  types are those of the LoRaWAN 1.0.x MHDR.
\<close>

type_synonym u8 = "8 word"
type_synonym u16 = "16 word"
type_synonym u32 = "32 word"

text \<open>\<^verbatim>\<open>status_lorawan_t\<close>; the C code adds statuses up in an \<^verbatim>\<open>int\<close>.\<close>

definition OKLORAWAN :: int where
  "OKLORAWAN = 0"

definition ERRORLORAWAN :: int where
  "ERRORLORAWAN = - 1"

text \<open>\<^verbatim>\<open>static const uint16_t MAX_FCNT_GAP = 16384UL;\<close>\<close>

definition MAX_FCNT_GAP :: u16 where
  "MAX_FCNT_GAP = 16384"

text \<open>
  Sizes fixed by the frame layout: the frame header up to and including FPort is
  \<^verbatim>\<open>FHDROFFSET\<close> bytes when there are no FOpts (MHDR, DevAddr, FCtrl, FCnt, FPort), the
  MIC is 4 bytes, and MAC commands travel on port 0.
\<close>

definition FHDROFFSET :: nat where
  "FHDROFFSET = 9"

definition MICSIZE :: nat where
  "MICSIZE = 4"

definition PORTNWK :: u8 where
  "PORTNWK = 0"

text \<open>Message types of the MHDR (bits 7..5).\<close>

definition JOIN_REQUEST :: u8 where
  "JOIN_REQUEST = 0"

definition JOIN_ACCEPT :: u8 where
  "JOIN_ACCEPT = 1"

definition UNCONF_DATA_UP :: u8 where
  "UNCONF_DATA_UP = 2"

definition UNCONF_DATA_DOWN :: u8 where
  "UNCONF_DATA_DOWN = 3"

definition CONF_DATA_UP :: u8 where
  "CONF_DATA_UP = 4"

definition CONF_DATA_DOWN :: u8 where
  "CONF_DATA_DOWN = 5"

definition REJOIN_REQUEST :: u8 where
  "REJOIN_REQUEST = 6"

definition LORAWANR1 :: u8 where
  "LORAWANR1 = 0"

definition UP_LINK :: u8 where
  "UP_LINK = 0"

datatype join_status_t = NOT_JOINED | JOINED

datatype modulation_type_t = LORA | FSK

text \<open>The order of the bandwidths is that of the table \<^verbatim>\<open>name_bw\<close> they index.\<close>

datatype lr1mac_bandwidth_t =
  BW007 | BW010 | BW015 | BW020 | BW031 | BW041 | BW062 |
  BW125 | BW200 | BW250 | BW400 | BW500 | BW800 | BW1600

datatype lr1mac_radio_state_t =
  RADIOSTATE_IDLE | RADIOSTATE_TXON | RADIOSTATE_TXFINISHED | RADIOSTATE_RX1FINISHED

datatype type_of_ans_to_send_t =
  NOFRAME_TOSEND | NWKFRAME_TOSEND | USERACK_TOSEND | USRFRAME_TORETRANSMIT

datatype rx_packet_type_t =
  NO_MORE_VALID_RX_PACKET | JOIN_ACCEPT_PACKET | NWKRXPACKET | USERRX_FOPTSPACKET

datatype user_rx_packet_type_t = NO_LORA_RXPACKET_AVAILABLE | LORA_RX_PACKET_AVAILABLE

datatype rx_win_type_t = RX1 | RX2

datatype status_channel_t = OKCHANNEL | ERROR_CHANNEL_CNTL | ERROR_CHANNEL_MASK

section \<open>The radio planner as seen from the MAC layer\<close>

text \<open>
  Modelled from the spec: the radio planner is not part of the sources. Its
  \<^verbatim>\<open>enqueue\<close> "returns OK or BUSY when the slot is not free"; a task has a type, a
  state (ASAP or scheduled), a start time and a duration.
\<close>

datatype rp_hook_status_t = RP_HOOK_STATUS_OK | RP_HOOK_STATUS_BUSY

datatype rp_task_types_t =
  RP_TASK_TYPE_TX_LORA | RP_TASK_TYPE_TX_FSK | RP_TASK_TYPE_RX_LORA | RP_TASK_TYPE_RX_FSK

datatype rp_task_states_t = RP_TASK_STATE_ASAP | RP_TASK_STATE_SCHEDULE

record rp_task_t =
  hook_id :: u8
  task_type :: rp_task_types_t
  task_state :: rp_task_states_t
  start_time_ms :: u32
  duration_time_ms :: u32

text \<open>
  The fields of \<^verbatim>\<open>rp_radio_params_t\<close> that the MAC layer computes from its own state.
  The remaining fields are constants of the radio driver (CRC, IQ inversion, sync
  words, whitening, preamble) or depend on the radio chip chosen at compile time
  (the receive timeout) and are left out.
\<close>

datatype ral_pkt_type_t = RAL_PKT_TYPE_NONE | RAL_PKT_TYPE_LORA | RAL_PKT_TYPE_GFSK

record rp_radio_params_t =
  pkt_type :: ral_pkt_type_t
  freq_in_hz :: u32
  sf :: u8
  bw :: lr1mac_bandwidth_t
  br_in_bps :: u32
  pld_len_in_bytes :: u8
  pwr_in_dbm :: u8
  symb_nb_timeout :: u16

datatype lr1mac_issue = MCU_HANDLE_LR1MAC_ISSUE | UNDEFINED_IN_C

section \<open>The MAC object\<close>

text \<open>
  \<^verbatim>\<open>lr1_stack_mac_t\<close>. The type parameter \<open>'r\<close> is the private data of the regional
  abstraction layer behind the pointer \<^verbatim>\<open>real\<close>, and \<open>'p\<close> is the radio planner behind
  the pointer \<^verbatim>\<open>rp\<close>. Byte arrays are lists. The two ADR counters and their limits
  are printed with \<^verbatim>\<open>%d\<close> in the C file and are C \<^verbatim>\<open>int\<close>s; they are bounded by
  \<^verbatim>\<open>NO_RX_PACKET_CNT\<close> and are modelled as integers.
\<close>

record ('r, 'p) lr1_stack_mac_t =
  real :: 'r
  rp :: 'p
  tx_data_rate :: u8
  tx_data_rate_adr :: u8
  tx_power :: u8
  tx_power_offset :: u8
  nb_trans :: u8
  nb_trans_cpt :: u8
  rx2_data_rate :: u8
  rx2_frequency :: u32
  rx1_dr_offset :: u8
  rx1_delay_s :: u8
  max_eirp_dbm :: u8
  uplink_dwell_time :: u8
  downlink_dwell_time :: u8
  max_duty_cycle_index :: u8
  fcnt_up :: u32
  fcnt_dwn :: u32
  dev_addr :: u32
  nwk_skey :: "u8 list"
  app_skey :: "u8 list"
  app_key :: "u8 list"
  dev_eui :: "u8 list"
  app_eui :: "u8 list"
  tx_fport :: u8
  tx_mtype :: u8
  tx_major_bits :: u8
  tx_fctrl :: u8
  tx_ack_bit :: u8
  app_payload_size :: u8
  tx_payload_size :: u8
  tx_payload :: "u8 list"
  tx_fopts_length :: u8
  tx_fopts_data :: "u8 list"
  tx_fopts_lengthsticky :: u8
  tx_fopts_datasticky :: "u8 list"
  tx_fopts_current_length :: u8
  tx_fopts_current_data :: "u8 list"
  rx_fport :: u8
  rx_mtype :: u8
  rx_major :: u8
  rx_fctrl :: u8
  rx_ack_bit :: u8
  rx_fopts_length :: u8
  rx_fopts :: "u8 list"
  rx_payload_size :: u8
  rx_payload :: "u8 list"
  rx_payload_empty :: u8
  tx_duty_cycle_time_off_ms :: u32
  tx_duty_cycle_timestamp_ms :: u32
  dev_nonce :: u16
  nwk_payload :: "u8 list"
  nwk_payload_size :: u8
  nwk_payload_index :: u8
  nwk_ans :: "u8 list"
  nwk_ans_size :: u8
  adr_ack_cnt :: int
  adr_ack_cnt_confirmed_frame :: int
  adr_ack_limit :: int
  adr_ack_delay :: int
  adr_ack_req :: u8
  adr_enable :: u8
  next_time_to_join_seconds :: u32
  retry_join_cpt :: u32
  first_join_timestamp :: u32
  tx_sf :: u8
  tx_modulation_type :: modulation_type_t
  tx_bw :: lr1mac_bandwidth_t
  tx_frequency :: u32
  rx1_sf :: u8
  rx1_modulation_type :: modulation_type_t
  rx1_bw :: lr1mac_bandwidth_t
  rx1_frequency :: u32
  rx2_sf :: u8
  rx2_modulation_type :: modulation_type_t
  rx2_bw :: lr1mac_bandwidth_t
  rx_window_symb :: u16
  rx_timeout_ms :: u32
  rx_offset_ms :: u32
  isr_radio_timestamp :: u32
  join_status :: join_status_t
  type_of_ans_to_send :: type_of_ans_to_send_t
  radio_process_state :: lr1mac_radio_state_t
  rtc_target_timer_ms :: u32
  send_at_time :: bool
  available_app_packet :: user_rx_packet_type_t

type_synonym ('r, 'p) mac = "('r, 'p) lr1_stack_mac_t"

section \<open>Collaborators outside the MAC layer\<close>

text \<open>
  The regional abstraction layer (\<^verbatim>\<open>smtc_real_*\<close>), the cryptographic primitives, the
  radio planner, the board support package and a few constants are used by the MAC
  layer but defined elsewhere. They are parameters of the model, gathered in one
  record whose fields carry the C names. A function that takes \<^verbatim>\<open>lr1_mac\<close> in C takes
  the MAC object here and returns the new object when it may write to it.
\<close>

record ('r, 'p) env =
  smtc_real_adr_ack_limit_get :: "('r, 'p) mac \<Rightarrow> int"
  smtc_real_adr_ack_delay_get :: "('r, 'p) mac \<Rightarrow> int"
  smtc_real_next_dr_get :: "('r, 'p) mac \<Rightarrow> ('r, 'p) mac"
  smtc_real_dr_decrement :: "('r, 'p) mac \<Rightarrow> ('r, 'p) mac"
  smtc_real_min_dr_channel_get :: "('r, 'p) mac \<Rightarrow> u8"
  smtc_real_get_join_sf5_toa_in_ms :: "('r, 'p) mac \<Rightarrow> u32"
  smtc_real_is_valid_size :: "('r, 'p) mac \<Rightarrow> u8 \<Rightarrow> u8 \<Rightarrow> int"
  smtc_real_max_payload_size_get :: "('r, 'p) mac \<Rightarrow> u8 \<Rightarrow> u8"
  smtc_real_rx_config_set :: "('r, 'p) mac \<Rightarrow> rx_win_type_t \<Rightarrow> ('r, 'p) mac"
  smtc_real_memory_save :: "('r, 'p) mac \<Rightarrow> ('r, 'p) mac"
  smtc_real_channel_mask_build ::
    "('r, 'p) mac \<Rightarrow> u8 \<Rightarrow> u16 \<Rightarrow> status_channel_t \<times> ('r, 'p) mac"
  smtc_real_is_acceptable_dr :: "('r, 'p) mac \<Rightarrow> u8 \<Rightarrow> int"
  smtc_real_is_valid_tx_power :: "('r, 'p) mac \<Rightarrow> u8 \<Rightarrow> int"
  smtc_real_channel_mask_set :: "('r, 'p) mac \<Rightarrow> ('r, 'p) mac"
  smtc_real_power_set :: "('r, 'p) mac \<Rightarrow> u8 \<Rightarrow> ('r, 'p) mac"
  smtc_real_is_valid_rx1_dr_offset :: "('r, 'p) mac \<Rightarrow> u8 \<Rightarrow> int"
  smtc_real_is_valid_dr :: "('r, 'p) mac \<Rightarrow> u8 \<Rightarrow> int"
  smtc_real_decode_freq_from_buf :: "('r, 'p) mac \<Rightarrow> u8 list \<Rightarrow> u32"
  smtc_real_is_valid_rx_frequency :: "('r, 'p) mac \<Rightarrow> u32 \<Rightarrow> int"
  smtc_real_is_valid_channel_index :: "('r, 'p) mac \<Rightarrow> u8 \<Rightarrow> int"
  smtc_real_is_valid_tx_frequency :: "('r, 'p) mac \<Rightarrow> u32 \<Rightarrow> int"
  smtc_real_tx_frequency_channel_set :: "('r, 'p) mac \<Rightarrow> u32 \<Rightarrow> u8 \<Rightarrow> ('r, 'p) mac"
  smtc_real_rx1_frequency_channel_set :: "('r, 'p) mac \<Rightarrow> u32 \<Rightarrow> u8 \<Rightarrow> ('r, 'p) mac"
  smtc_real_min_dr_channel_set :: "('r, 'p) mac \<Rightarrow> u8 \<Rightarrow> u8 \<Rightarrow> ('r, 'p) mac"
  smtc_real_max_dr_channel_set :: "('r, 'p) mac \<Rightarrow> u8 \<Rightarrow> u8 \<Rightarrow> ('r, 'p) mac"
  smtc_real_channel_enabled_set :: "('r, 'p) mac \<Rightarrow> bool \<Rightarrow> u8 \<Rightarrow> ('r, 'p) mac"
  smtc_real_tx_frequency_channel_get :: "('r, 'p) mac \<Rightarrow> u8 \<Rightarrow> u32"
  smtc_real_max_eirp_dbm_from_idx :: "u8 \<Rightarrow> u8"
  smtc_real_default_max_eirp_get :: "('r, 'p) mac \<Rightarrow> u8"
  lora_crypto_payload_encrypt :: "u8 list \<Rightarrow> u8 list \<Rightarrow> u32 \<Rightarrow> u8 \<Rightarrow> u32 \<Rightarrow> u8 list"
  lora_crypto_add_mic :: "u8 list \<Rightarrow> u8 \<Rightarrow> u8 list \<Rightarrow> u32 \<Rightarrow> u8 \<Rightarrow> u32 \<Rightarrow> u8 list"
  payload_decrypt :: "u8 list \<Rightarrow> u8 list \<Rightarrow> u32 \<Rightarrow> u8 \<Rightarrow> u32 \<Rightarrow> u8 list"
  check_mic :: "u8 list \<Rightarrow> u8 list \<Rightarrow> u32 \<Rightarrow> u32 \<Rightarrow> u32 \<Rightarrow> int"
  join_decrypt :: "u8 list \<Rightarrow> u8 list \<Rightarrow> u8 list"
  check_join_mic :: "u8 list \<Rightarrow> u8 list \<Rightarrow> u32 \<Rightarrow> int"
  join_compute_mic :: "u8 list \<Rightarrow> u8 list \<Rightarrow> u32"
  rp_hook_get_id :: "'p \<Rightarrow> rp_hook_status_t \<times> u8"
  rp_task_enqueue ::
    "'p \<Rightarrow> rp_task_t \<Rightarrow> u8 list \<Rightarrow> u8 \<Rightarrow> rp_radio_params_t \<Rightarrow> rp_hook_status_t \<times> 'p"
  rp_snr_pkt_in_db :: "'p \<Rightarrow> u8 \<Rightarrow> u8"
  bsp_mcu_get_battery_level :: u8
  lr1mac_cmd_mac_ans_size :: "u8 \<Rightarrow> u8"
  ADR_LIMIT_CONF_UP :: int
  NO_RX_PACKET_CNT :: int
  MIN_LORAWAN_PAYLOAD_SIZE :: u8
  BSP_CRYSTAL_ERROR :: u32
  BSP_BOARD_DELAY_RX_SETTING_MS :: u8
  undefined_shift_left :: "u32 \<Rightarrow> int \<Rightarrow> u32"
  sticky_write_past_end :: "('r, 'p) mac \<Rightarrow> nat \<Rightarrow> u8 \<Rightarrow> ('r, 'p) mac"
  sticky_read_past_end :: "('r, 'p) mac \<Rightarrow> nat \<Rightarrow> u8"

text \<open>
  The last three fields stand for what the target does where C leaves the behaviour
  undefined and a received frame can bring the code there: the value of \<open>x << n\<close> for a
  count \<open>n\<close> that is negative or at least 32, and the effect of a write to, and the
  value of a read from, index \<open>i\<close> past the end of the array
  \<^verbatim>\<open>tx_fopts_datasticky\<close>, which the answers to the sticky commands of one downlink
  can overrun.
\<close>

text \<open>
  The platform hook \<^verbatim>\<open>bsp_mcu_handle_lr1mac_issue( )\<close> reports a fatal condition and
  does not come back to the MAC layer: a function that reaches it yields
  \<open>Inl MCU_HANDLE_LR1MAC_ISSUE\<close>. In the computation of the receive window,
  \<open>Inl UNDEFINED_IN_C\<close> marks an operation for which C defines no result.
\<close>

type_synonym ('r, 'p) outcome = "lr1mac_issue + ('r, 'p) mac"

section \<open>Byte buffers\<close>

text \<open>
  Reading index \<open>i\<close> of a C array, and \<^verbatim>\<open>memcpy( dst + doff, src + soff, n )\<close>. Inside
  the arrays they are what C does. An access past the end of an array has no defined
  behaviour in C; in the model such a read gives 0 and such a write is dropped, except
  for the array \<^verbatim>\<open>tx_fopts_datasticky\<close>, treated below.
\<close>

definition rd :: "u8 list \<Rightarrow> nat \<Rightarrow> u8" where
  "rd b i = (if i < length b then b ! i else 0)"

definition memcpy :: "u8 list \<Rightarrow> nat \<Rightarrow> u8 list \<Rightarrow> nat \<Rightarrow> nat \<Rightarrow> u8 list" where
  "memcpy dst doff src soff n = fold (\<lambda>i d. d[doff + i := rd src (soff + i)]) [0..<n] dst"

definition slice :: "u8 list \<Rightarrow> nat \<Rightarrow> nat \<Rightarrow> u8 list" where
  "slice b off n = map (\<lambda>i. rd b (off + i)) [0..<n]"

text \<open>
  Writing and reading \<^verbatim>\<open>tx_fopts_datasticky[i]\<close>: inside the array what C does, past
  its end what the platform parameters say. \<open>sticky_bytes e m n\<close> are the \<open>n\<close> bytes
  a \<^verbatim>\<open>memcpy\<close> from the start of the array reads.
\<close>

definition sticky_write :: "('r, 'p) env \<Rightarrow> ('r, 'p) mac \<Rightarrow> nat \<Rightarrow> u8 \<Rightarrow> ('r, 'p) mac" where
  "sticky_write e lr1_mac i v =
     (if i < length (tx_fopts_datasticky lr1_mac)
      then lr1_mac\<lparr>tx_fopts_datasticky := (tx_fopts_datasticky lr1_mac)[i := v]\<rparr>
      else sticky_write_past_end e lr1_mac i v)"

definition sticky_read :: "('r, 'p) env \<Rightarrow> ('r, 'p) mac \<Rightarrow> nat \<Rightarrow> u8" where
  "sticky_read e lr1_mac i =
     (if i < length (tx_fopts_datasticky lr1_mac) then tx_fopts_datasticky lr1_mac ! i
      else sticky_read_past_end e lr1_mac i)"

definition sticky_bytes :: "('r, 'p) env \<Rightarrow> ('r, 'p) mac \<Rightarrow> nat \<Rightarrow> u8 list" where
  "sticky_bytes e lr1_mac n = map (sticky_read e lr1_mac) [0..<n]"

section \<open>Initialisation\<close>

text \<open>
  \<^verbatim>\<open>lr1_stack_mac_session_init\<close> and \<^verbatim>\<open>lr1_stack_mac_init\<close> (built without
  \<^verbatim>\<open>PERF_TEST_ENABLED\<close>); \<open>rtc_now\<close> is the value of \<^verbatim>\<open>bsp_rtc_get_time_ms( )\<close>.
  The flag \<^verbatim>\<open>otaa_device\<close> copied from the keys is not used by the functions
  modelled here and has no field.
\<close>

definition lr1_stack_mac_session_init ::
  "('r, 'p) env \<Rightarrow> u32 \<Rightarrow> ('r, 'p) mac \<Rightarrow> ('r, 'p) mac" where
  "lr1_stack_mac_session_init e rtc_now lr1_mac =
     (let m = lr1_mac\<lparr>fcnt_dwn := NOT 0, fcnt_up := 0, retry_join_cpt := 0, adr_ack_cnt := 0,
                 adr_ack_cnt_confirmed_frame := 0, tx_fopts_current_length := 0,
                 tx_fopts_length := 0, tx_fopts_lengthsticky := 0, nwk_ans_size := 0,
                 nwk_payload_size := 0, nwk_payload_index := 0\<rparr>;
          m = m\<lparr>max_eirp_dbm := smtc_real_default_max_eirp_get e m\<rparr>
      in m\<lparr>uplink_dwell_time := 1, downlink_dwell_time := 1, max_duty_cycle_index := 0,
           tx_duty_cycle_time_off_ms := 0, tx_duty_cycle_timestamp_ms := rtc_now\<rparr>)"

definition lr1_stack_mac_init ::
  "('r, 'p) env \<Rightarrow> u32 \<Rightarrow> 'r \<Rightarrow> ('r, 'p) mac \<Rightarrow> ('r, 'p) mac" where
  "lr1_stack_mac_init e rtc_now real_ptr lr1_mac =
     lr1_stack_mac_session_init e rtc_now
       (lr1_mac\<lparr>tx_major_bits := LORAWANR1, radio_process_state := RADIOSTATE_IDLE,
               next_time_to_join_seconds := 0, join_status := NOT_JOINED,
               tx_modulation_type := LORA, rx1_modulation_type := LORA,
               rx2_modulation_type := LORA, type_of_ans_to_send := NOFRAME_TOSEND,
               nb_trans := 1, available_app_packet := NO_LORA_RXPACKET_AVAILABLE,
               tx_power_offset := 0, real := real_ptr\<rparr>)"

section \<open>Building and encrypting an uplink frame\<close>

definition mac_header_set :: "('r, 'p) mac \<Rightarrow> ('r, 'p) mac" where
  "mac_header_set lr1_mac =
     lr1_mac\<lparr>tx_payload := (tx_payload lr1_mac)
       [0 := push_bit 5 (tx_mtype lr1_mac AND 0x7) + (tx_major_bits lr1_mac AND 0x3)]\<rparr>"

definition frame_header_set :: "('r, 'p) mac \<Rightarrow> ('r, 'p) mac" where
  "frame_header_set lr1_mac =
     (let p = tx_payload lr1_mac;
          p = p[1 := ucast (dev_addr lr1_mac AND 0x000000FF)];
          p = p[2 := ucast (drop_bit 8 (dev_addr lr1_mac AND 0x0000FF00))];
          p = p[3 := ucast (drop_bit 16 (dev_addr lr1_mac AND 0x00FF0000))];
          p = p[4 := ucast (drop_bit 24 (dev_addr lr1_mac AND 0xFF000000))];
          p = p[5 := tx_fctrl lr1_mac];
          p = p[6 := ucast (fcnt_up lr1_mac AND 0x000000FF)];
          p = p[7 := ucast (drop_bit 8 (fcnt_up lr1_mac AND 0x0000FF00))];
          p = memcpy p 8 (tx_fopts_current_data lr1_mac) 0 (unat (tx_fopts_current_length lr1_mac));
          p = p[8 + unat (tx_fopts_current_length lr1_mac) := tx_fport lr1_mac]
      in lr1_mac\<lparr>tx_payload := p\<rparr>)"

definition lr1_stack_mac_tx_frame_build :: "('r, 'p) mac \<Rightarrow> ('r, 'p) mac" where
  "lr1_stack_mac_tx_frame_build lr1_mac =
     (let m = lr1_mac\<lparr>tx_fctrl :=
                push_bit 7 (adr_enable lr1_mac) + push_bit 6 (adr_ack_req lr1_mac) +
                push_bit 5 (tx_ack_bit lr1_mac) + (tx_fopts_current_length lr1_mac AND 0x0F)\<rparr>;
          m = m\<lparr>tx_ack_bit := 0, rx_ack_bit := 0\<rparr>;
          m = mac_header_set m;
          m = frame_header_set m
      in m\<lparr>tx_payload_size :=
            app_payload_size m + of_nat FHDROFFSET + tx_fopts_current_length m\<rparr>)"

definition lr1_stack_mac_tx_frame_encrypt :: "('r, 'p) env \<Rightarrow> ('r, 'p) mac \<Rightarrow> ('r, 'p) mac" where
  "lr1_stack_mac_tx_frame_encrypt e lr1_mac =
     (let off = FHDROFFSET + unat (tx_fopts_current_length lr1_mac);
          n = unat (app_payload_size lr1_mac);
          enc = lora_crypto_payload_encrypt e (slice (tx_payload lr1_mac) off n)
                  (if tx_fport lr1_mac = PORTNWK then nwk_skey lr1_mac else app_skey lr1_mac)
                  (dev_addr lr1_mac) UP_LINK (fcnt_up lr1_mac);
          m = lr1_mac\<lparr>tx_payload := memcpy (tx_payload lr1_mac) off enc 0 n\<rparr>;
          m = m\<lparr>tx_payload := lora_crypto_add_mic e (tx_payload m) (tx_payload_size m)
                  (nwk_skey m) (dev_addr m) UP_LINK (fcnt_up m)\<rparr>
      in m\<lparr>tx_payload_size := tx_payload_size m + 4\<rparr>)"

section \<open>Handing the uplink to the radio planner\<close>

text \<open>
  \<^verbatim>\<open>lr1_stack_mac_tx_radio_start\<close>. The branch for an unsupported modulation cannot be
  taken with the two modulations of \<^typ>\<open>modulation_type_t\<close>. The local
  \<^verbatim>\<open>radio_params\<close> starts zeroed.
\<close>

definition tx_radio_params :: "('r, 'p) mac \<Rightarrow> rp_radio_params_t" where
  "tx_radio_params lr1_mac =
     (case tx_modulation_type lr1_mac of
        LORA \<Rightarrow>
          \<lparr>pkt_type = RAL_PKT_TYPE_LORA, freq_in_hz = tx_frequency lr1_mac,
           sf = tx_sf lr1_mac, bw = tx_bw lr1_mac, br_in_bps = 0,
           pld_len_in_bytes = tx_payload_size lr1_mac,
           pwr_in_dbm = tx_power lr1_mac + tx_power_offset lr1_mac, symb_nb_timeout = 0\<rparr>
      | FSK \<Rightarrow>
          \<lparr>pkt_type = RAL_PKT_TYPE_GFSK, freq_in_hz = tx_frequency lr1_mac,
           sf = 0, bw = BW007, br_in_bps = ucast (tx_sf lr1_mac) * 1000,
           pld_len_in_bytes = tx_payload_size lr1_mac,
           pwr_in_dbm = tx_power lr1_mac + tx_power_offset lr1_mac, symb_nb_timeout = 0\<rparr>)"

definition tx_rp_task :: "u8 \<Rightarrow> ('r, 'p) mac \<Rightarrow> rp_task_t" where
  "tx_rp_task my_hook_id lr1_mac =
     \<lparr>hook_id = my_hook_id,
      task_type = (if tx_modulation_type lr1_mac = LORA then RP_TASK_TYPE_TX_LORA
                   else RP_TASK_TYPE_TX_FSK),
      task_state = (if send_at_time lr1_mac then RP_TASK_STATE_SCHEDULE
                    else RP_TASK_STATE_ASAP),
      start_time_ms = rtc_target_timer_ms lr1_mac,
      duration_time_ms = 2000\<rparr>"

definition lr1_stack_mac_tx_radio_start ::
  "('r, 'p) env \<Rightarrow> ('r, 'p) mac \<Rightarrow> ('r, 'p) outcome" where
  "lr1_stack_mac_tx_radio_start e lr1_mac =
     (let radio_params = tx_radio_params lr1_mac
      in case rp_hook_get_id e (rp lr1_mac) of (hook_status, my_hook_id) \<Rightarrow>
         if hook_status \<noteq> RP_HOOK_STATUS_OK then Inl MCU_HANDLE_LR1MAC_ISSUE
         else
           let rp_task = tx_rp_task my_hook_id lr1_mac;
               m = lr1_mac\<lparr>send_at_time := False\<rparr>
           in case rp_task_enqueue e (rp m) rp_task (tx_payload m) (tx_payload_size m) radio_params
              of (enqueue_status, rp') \<Rightarrow>
                let m = m\<lparr>rp := rp'\<rparr>
                in if enqueue_status = RP_HOOK_STATUS_OK then
                     (let m = m\<lparr>radio_process_state := RADIOSTATE_TXON\<rparr>
                      in if tx_mtype m = CONF_DATA_UP then
                           Inr (m\<lparr>adr_ack_cnt_confirmed_frame := adr_ack_cnt_confirmed_frame m + 1\<rparr>)
                         else Inr (m\<lparr>adr_ack_cnt := adr_ack_cnt m + 1\<rparr>))
                   else Inr m)"

section \<open>The per-uplink update\<close>

text \<open>
  \<^verbatim>\<open>lr1_stack_mac_cmd_ans_cut\<close>: the two pointers are offsets into \<^verbatim>\<open>nwk_ans\<close>. The
  loop advances by the answer size of the command it reads from a table which is a
  parameter; with a zero entry it does not advance, so it is a partial function and
  \<open>None\<close> stands for a loop that never ends.
\<close>

partial_function (option) cmd_ans_cut_loop ::
  "(u8 \<Rightarrow> u8) \<Rightarrow> u8 list \<Rightarrow> nat \<Rightarrow> nat \<Rightarrow> nat \<Rightarrow> nat \<Rightarrow> nat option" where
  "cmd_ans_cut_loop ans_size nwk_ans_buf p_tmp p nwk_ans_size_in max_allowed_size =
     (if p_tmp < min nwk_ans_size_in max_allowed_size then
        (let p_tmp' = p_tmp + unat (ans_size (rd nwk_ans_buf p_tmp))
         in if p_tmp' \<le> max_allowed_size
            then cmd_ans_cut_loop ans_size nwk_ans_buf p_tmp' p_tmp' nwk_ans_size_in max_allowed_size
            else Some p)
      else Some p)"

declare cmd_ans_cut_loop.simps [code]

definition lr1_stack_mac_cmd_ans_cut ::
  "(u8 \<Rightarrow> u8) \<Rightarrow> u8 list \<Rightarrow> u8 \<Rightarrow> u8 \<Rightarrow> u8 option" where
  "lr1_stack_mac_cmd_ans_cut ans_size nwk_ans_buf nwk_ans_size_in max_allowed_size =
     map_option of_nat
       (cmd_ans_cut_loop ans_size nwk_ans_buf 0 0 (unat nwk_ans_size_in) (unat max_allowed_size))"

text \<open>The blocks of \<^verbatim>\<open>lr1_stack_mac_update\<close>, in the order of the C function.\<close>

definition update_join_duty_cycle :: "('r, 'p) env \<Rightarrow> u32 \<Rightarrow> ('r, 'p) mac \<Rightarrow> ('r, 'p) mac" where
  "update_join_duty_cycle e current_time_s lr1_mac =
     (let m = lr1_mac\<lparr>retry_join_cpt := retry_join_cpt lr1_mac + 1\<rparr>;
          toa = (if 5 \<le> unat (tx_sf m) \<and> unat (tx_sf m) < 37
                 then push_bit (unat (tx_sf m) - 5) (smtc_real_get_join_sf5_toa_in_ms e m)
                 else undefined_shift_left e (smtc_real_get_join_sf5_toa_in_ms e m)
                        (int (unat (tx_sf m)) - 5))
      in if current_time_s < first_join_timestamp m + 3600 then
           m\<lparr>next_time_to_join_seconds := current_time_s + toa div 10\<rparr>
         else if current_time_s < first_join_timestamp m + 36000 + 3600 then
           m\<lparr>next_time_to_join_seconds := current_time_s + toa\<rparr>
         else
           m\<lparr>next_time_to_join_seconds := current_time_s + toa * 10\<rparr>)"

definition update_adr_ack_req :: "('r, 'p) mac \<Rightarrow> ('r, 'p) mac" where
  "update_adr_ack_req lr1_mac =
     (let m = (if adr_ack_cnt lr1_mac \<ge> adr_ack_limit lr1_mac \<and>
                  adr_ack_cnt lr1_mac \<le> adr_ack_limit lr1_mac + adr_ack_delay lr1_mac
               then lr1_mac\<lparr>adr_ack_req := 1\<rparr> else lr1_mac)
      in if adr_ack_cnt m < adr_ack_limit m \<or>
            adr_ack_cnt m > adr_ack_limit m + adr_ack_delay m
         then m\<lparr>adr_ack_req := 0\<rparr> else m)"

definition update_adr_fallback :: "('r, 'p) env \<Rightarrow> ('r, 'p) mac \<Rightarrow> ('r, 'p) mac" where
  "update_adr_fallback e lr1_mac =
     (if adr_ack_cnt lr1_mac \<ge> adr_ack_limit lr1_mac + adr_ack_delay lr1_mac then
        (let m = smtc_real_dr_decrement e lr1_mac
         in if tx_data_rate_adr m \<noteq> smtc_real_min_dr_channel_get e m
            then m\<lparr>adr_ack_cnt := adr_ack_limit m\<rparr> else m)
      else lr1_mac)"

definition update_conf_fallback :: "('r, 'p) env \<Rightarrow> ('r, 'p) mac \<Rightarrow> ('r, 'p) mac" where
  "update_conf_fallback e lr1_mac =
     (if adr_ack_cnt_confirmed_frame lr1_mac \<ge> ADR_LIMIT_CONF_UP e then
        smtc_real_dr_decrement e (lr1_mac\<lparr>adr_ack_cnt_confirmed_frame := 0\<rparr>)
      else lr1_mac)"

definition update_nb_trans :: "('r, 'p) mac \<Rightarrow> ('r, 'p) mac" where
  "update_nb_trans lr1_mac =
     (if nb_trans_cpt lr1_mac \<le> 1 then
        lr1_mac\<lparr>fcnt_up := fcnt_up lr1_mac + 1, nb_trans_cpt := 1\<rparr>
      else
        lr1_mac\<lparr>type_of_ans_to_send := USRFRAME_TORETRANSMIT,
                nb_trans_cpt := nb_trans_cpt lr1_mac - 1\<rparr>)"

definition update_fopts :: "('r, 'p) env \<Rightarrow> ('r, 'p) mac \<Rightarrow> ('r, 'p) mac" where
  "update_fopts e lr1_mac =
     (let m =
        (if unat (tx_fopts_length lr1_mac) + unat (tx_fopts_lengthsticky lr1_mac) > 15 then
           lr1_mac\<lparr>nwk_ans_size := tx_fopts_lengthsticky lr1_mac + tx_fopts_length lr1_mac,
                   nwk_ans :=
                     memcpy
                       (memcpy (nwk_ans lr1_mac) 0
                          (sticky_bytes e lr1_mac (unat (tx_fopts_lengthsticky lr1_mac))) 0
                          (unat (tx_fopts_lengthsticky lr1_mac)))
                       (unat (tx_fopts_lengthsticky lr1_mac)) (tx_fopts_data lr1_mac) 0
                       (unat (tx_fopts_length lr1_mac)),
                   type_of_ans_to_send := NWKFRAME_TOSEND\<rparr>
         else
           lr1_mac\<lparr>tx_fopts_current_length :=
                     tx_fopts_lengthsticky lr1_mac + tx_fopts_length lr1_mac,
                   tx_fopts_current_data :=
                     memcpy
                       (memcpy (tx_fopts_current_data lr1_mac) 0
                          (sticky_bytes e lr1_mac (unat (tx_fopts_lengthsticky lr1_mac))) 0
                          (unat (tx_fopts_lengthsticky lr1_mac)))
                       (unat (tx_fopts_lengthsticky lr1_mac)) (tx_fopts_data lr1_mac) 0
                       (unat (tx_fopts_length lr1_mac))\<rparr>)
      in m\<lparr>tx_fopts_length := 0\<rparr>)"

definition update_nwk_frame :: "('r, 'p) env \<Rightarrow> ('r, 'p) mac \<Rightarrow> ('r, 'p) mac option" where
  "update_nwk_frame e lr1_mac =
     (case (if smtc_real_is_valid_size e lr1_mac (tx_data_rate lr1_mac) (nwk_ans_size lr1_mac)
               \<noteq> OKLORAWAN
            then lr1_stack_mac_cmd_ans_cut (lr1mac_cmd_mac_ans_size e) (nwk_ans lr1_mac)
                   (nwk_ans_size lr1_mac)
                   (smtc_real_max_payload_size_get e lr1_mac (tx_data_rate lr1_mac))
            else Some (nwk_ans_size lr1_mac))
      of None \<Rightarrow> None
       | Some n \<Rightarrow>
           (let m = lr1_mac\<lparr>nwk_ans_size := n\<rparr>;
                m = m\<lparr>tx_payload := memcpy (tx_payload m) FHDROFFSET (nwk_ans m) 0 (unat n)\<rparr>;
                m = m\<lparr>app_payload_size := nwk_ans_size m, tx_fport := PORTNWK,
                       tx_mtype := UNCONF_DATA_UP\<rparr>;
                m = lr1_stack_mac_tx_frame_build m
            in Some (lr1_stack_mac_tx_frame_encrypt e m)))"

definition update_answer :: "('r, 'p) env \<Rightarrow> ('r, 'p) mac \<Rightarrow> ('r, 'p) mac option" where
  "update_answer e lr1_mac =
     (case type_of_ans_to_send lr1_mac of
        NOFRAME_TOSEND \<Rightarrow> Some lr1_mac
      | NWKFRAME_TOSEND \<Rightarrow> update_nwk_frame e lr1_mac
      | USERACK_TOSEND \<Rightarrow> Some lr1_mac
      | USRFRAME_TORETRANSMIT \<Rightarrow> Some lr1_mac)"

text \<open>
  \<^verbatim>\<open>lr1_stack_mac_update\<close>; \<open>current_time_s\<close> is the value of \<^verbatim>\<open>bsp_rtc_get_time_s( )\<close>.
  The result is \<open>None\<close> when the function does not return, \<open>Some (Inl _)\<close> when
  it hands over to the platform's fatal-error hook.
\<close>

definition lr1_stack_mac_update ::
  "('r, 'p) env \<Rightarrow> u32 \<Rightarrow> ('r, 'p) mac \<Rightarrow> ('r, 'p) outcome option" where
  "lr1_stack_mac_update e current_time_s lr1_mac =
     (let m = lr1_mac\<lparr>adr_ack_limit := smtc_real_adr_ack_limit_get e lr1_mac\<rparr>;
          m = m\<lparr>adr_ack_delay := smtc_real_adr_ack_delay_get e m\<rparr>;
          m = m\<lparr>type_of_ans_to_send := NOFRAME_TOSEND\<rparr>;
          m = (if join_status m = NOT_JOINED then update_join_duty_cycle e current_time_s m
               else smtc_real_next_dr_get e m);
          m = update_adr_ack_req m;
          m = update_adr_fallback e m;
          m = update_conf_fallback e m
      in if adr_ack_cnt m + adr_ack_cnt_confirmed_frame m \<ge> NO_RX_PACKET_CNT e then
           Some (Inl MCU_HANDLE_LR1MAC_ISSUE)
         else map_option Inr (update_answer e (update_fopts e (update_nb_trans m))))"

text \<open>
  The frame counter check and the duty-cycle gate follow.
\<close>

section \<open>Downlink frame counter windowing\<close>

text \<open>
  \<^verbatim>\<open>fcnt_dwn_accept( uint16_t fcnt_dwn_tmp, uint32_t* fcnt_lorawan )\<close>: the result is
  the returned status and the value left in \<^verbatim>\<open>*fcnt_lorawan\<close>. The two 16-bit
  operands of the comparison and of the subtraction are promoted to \<^verbatim>\<open>int\<close> in C,
  hence \<open>uint\<close>.
\<close>

definition fcnt_dwn_accept :: "u16 \<Rightarrow> u32 \<Rightarrow> int \<times> u32" where
  "fcnt_dwn_accept fcnt_dwn_tmp fcnt_lorawan =
     (let fcnt_dwn_lsb = (ucast (fcnt_lorawan AND 0x0000FFFF) :: u16);
          fcnt_dwn_msb = fcnt_lorawan AND 0xFFFF0000
      in if uint fcnt_dwn_tmp > uint fcnt_dwn_lsb \<or> fcnt_lorawan = 0xFFFFFFFF then
           (if fcnt_lorawan = 0xFFFFFFFF then (OKLORAWAN, ucast fcnt_dwn_tmp)
            else (OKLORAWAN, fcnt_dwn_msb + ucast fcnt_dwn_tmp))
         else if uint fcnt_dwn_lsb - uint fcnt_dwn_tmp > uint MAX_FCNT_GAP then
           (OKLORAWAN, fcnt_dwn_msb + push_bit 16 1 + ucast fcnt_dwn_tmp)
         else (ERRORLORAWAN, fcnt_lorawan))"

section \<open>Duty-cycle gate\<close>

text \<open>
  \<^verbatim>\<open>lr1_stack_network_next_free_duty_cycle_ms_get\<close> reads two fields of the MAC object
  and the millisecond clock \<^verbatim>\<open>bsp_rtc_get_time_ms( )\<close>, here the argument \<open>rtc_now\<close>.
  The function returns an \<^verbatim>\<open>int32_t\<close>: the 32-bit difference read as two's complement.
\<close>

definition lr1_stack_network_next_free_duty_cycle_ms_get ::
  "u32 \<Rightarrow> ('r, 'p) mac \<Rightarrow> int" where
  "lr1_stack_network_next_free_duty_cycle_ms_get rtc_now lr1_mac =
     (if tx_duty_cycle_time_off_ms lr1_mac > 0 then
        (let delta_t =
               (if rtc_now \<ge> tx_duty_cycle_timestamp_ms lr1_mac
                then rtc_now - tx_duty_cycle_timestamp_ms lr1_mac
                else (0xFFFFFFFF - tx_duty_cycle_timestamp_ms lr1_mac) + rtc_now)
         in if delta_t > tx_duty_cycle_time_off_ms lr1_mac then 0
            else sint (tx_duty_cycle_time_off_ms lr1_mac - delta_t))
      else 0)"

section \<open>MAC commands\<close>

text \<open>
  Command identifiers and the sizes of requests and answers, identifier included, as
  LoRaWAN 1.0.x fixes them.
\<close>

definition LINK_CHECK_ANS :: u8 where
  "LINK_CHECK_ANS = 0x02"

definition LINK_ADR_REQ :: u8 where
  "LINK_ADR_REQ = 0x03"

definition DUTY_CYCLE_REQ :: u8 where
  "DUTY_CYCLE_REQ = 0x04"

definition RXPARRAM_SETUP_REQ :: u8 where
  "RXPARRAM_SETUP_REQ = 0x05"

definition DEV_STATUS_REQ :: u8 where
  "DEV_STATUS_REQ = 0x06"

definition NEW_CHANNEL_REQ :: u8 where
  "NEW_CHANNEL_REQ = 0x07"

definition RXTIMING_SETUP_REQ :: u8 where
  "RXTIMING_SETUP_REQ = 0x08"

definition TXPARAM_SETUP_REQ :: u8 where
  "TXPARAM_SETUP_REQ = 0x09"

definition DL_CHANNEL_REQ :: u8 where
  "DL_CHANNEL_REQ = 0x0A"

definition LINK_ADR_ANS :: u8 where
  "LINK_ADR_ANS = 0x03"

definition DUTY_CYCLE_ANS :: u8 where
  "DUTY_CYCLE_ANS = 0x04"

definition RXPARRAM_SETUP_ANS :: u8 where
  "RXPARRAM_SETUP_ANS = 0x05"

definition DEV_STATUS_ANS :: u8 where
  "DEV_STATUS_ANS = 0x06"

definition NEW_CHANNEL_ANS :: u8 where
  "NEW_CHANNEL_ANS = 0x07"

definition RXTIMING_SETUP_ANS :: u8 where
  "RXTIMING_SETUP_ANS = 0x08"

definition TXPARAM_SETUP_ANS :: u8 where
  "TXPARAM_SETUP_ANS = 0x09"

definition DL_CHANNEL_ANS :: u8 where
  "DL_CHANNEL_ANS = 0x0A"

definition LINK_CHECK_ANS_SIZE :: nat where
  "LINK_CHECK_ANS_SIZE = 3"

definition LINK_ADR_REQ_SIZE :: nat where
  "LINK_ADR_REQ_SIZE = 5"

definition LINK_ADR_ANS_SIZE :: nat where
  "LINK_ADR_ANS_SIZE = 2"

definition DUTY_CYCLE_REQ_SIZE :: nat where
  "DUTY_CYCLE_REQ_SIZE = 2"

definition DUTY_CYCLE_ANS_SIZE :: nat where
  "DUTY_CYCLE_ANS_SIZE = 1"

definition RXPARRAM_SETUP_REQ_SIZE :: nat where
  "RXPARRAM_SETUP_REQ_SIZE = 5"

definition RXPARRAM_SETUP_ANS_SIZE :: nat where
  "RXPARRAM_SETUP_ANS_SIZE = 2"

definition DEV_STATUS_REQ_SIZE :: nat where
  "DEV_STATUS_REQ_SIZE = 1"

definition DEV_STATUS_ANS_SIZE :: nat where
  "DEV_STATUS_ANS_SIZE = 3"

definition NEW_CHANNEL_REQ_SIZE :: nat where
  "NEW_CHANNEL_REQ_SIZE = 6"

definition NEW_CHANNEL_ANS_SIZE :: nat where
  "NEW_CHANNEL_ANS_SIZE = 2"

definition RXTIMING_SETUP_REQ_SIZE :: nat where
  "RXTIMING_SETUP_REQ_SIZE = 2"

definition RXTIMING_SETUP_ANS_SIZE :: nat where
  "RXTIMING_SETUP_ANS_SIZE = 1"

definition TXPARAM_SETUP_REQ_SIZE :: nat where
  "TXPARAM_SETUP_REQ_SIZE = 2"

definition TXPARAM_SETUP_ANS_SIZE :: nat where
  "TXPARAM_SETUP_ANS_SIZE = 1"

definition DL_CHANNEL_REQ_SIZE :: nat where
  "DL_CHANNEL_REQ_SIZE = 5"

definition DL_CHANNEL_ANS_SIZE :: nat where
  "DL_CHANNEL_ANS_SIZE = 2"

text \<open>
  The byte of the command stream at \<^verbatim>\<open>nwk_payload_index + k\<close>; the index sum is an
  \<^verbatim>\<open>int\<close> in C and does not wrap.
\<close>

definition nwk_byte :: "('r, 'p) mac \<Rightarrow> nat \<Rightarrow> u8" where
  "nwk_byte lr1_mac k = rd (nwk_payload lr1_mac) (unat (nwk_payload_index lr1_mac) + k)"

definition link_check_parser :: "('r, 'p) mac \<Rightarrow> ('r, 'p) mac" where
  "link_check_parser lr1_mac =
     lr1_mac\<lparr>nwk_payload_index := nwk_payload_index lr1_mac + of_nat LINK_CHECK_ANS_SIZE\<rparr>"

text \<open>
  \<^verbatim>\<open>link_adr_parser\<close>. The first loop builds the channel mask block by block and
  keeps the status of the last block; an unknown \<^verbatim>\<open>ChMaskCntl\<close> in any block clears
  bit 0 of the answer.
\<close>

definition link_adr_mask_block ::
  "('r, 'p) env \<Rightarrow> nat \<Rightarrow> status_channel_t \<times> u8 \<times> ('r, 'p) mac
     \<Rightarrow> status_channel_t \<times> u8 \<times> ('r, 'p) mac" where
  "link_adr_mask_block e i acc =
     (case acc of (statusChannel, status_ans, m) \<Rightarrow>
        let channel_mask_temp =
              (ucast (nwk_byte m (i * LINK_ADR_REQ_SIZE + 2)) :: u16) +
              push_bit 8 (ucast (nwk_byte m (i * LINK_ADR_REQ_SIZE + 3)));
            ChMAstCntlTemp = drop_bit 4 (nwk_byte m (i * LINK_ADR_REQ_SIZE + 4) AND 0x70)
        in case smtc_real_channel_mask_build e m ChMAstCntlTemp channel_mask_temp of
             (st, m') \<Rightarrow>
               (st, if st = ERROR_CHANNEL_CNTL then status_ans AND 0x6 else status_ans, m'))"

definition link_adr_parser :: "('r, 'p) env \<Rightarrow> ('r, 'p) mac \<Rightarrow> u8 \<Rightarrow> ('r, 'p) mac" where
  "link_adr_parser e lr1_mac nb_link_adr_req =
     (let nb = unat nb_link_adr_req
      in case fold (link_adr_mask_block e) [0..<nb] (OKCHANNEL, 0x7, lr1_mac) of
        (statusChannel, status_ans, m) \<Rightarrow>
          let status_ans = (if statusChannel = ERROR_CHANNEL_MASK then status_ans AND 0x6
                            else status_ans);
              dr_tmp = drop_bit 4 (nwk_byte m ((nb - 1) * LINK_ADR_REQ_SIZE + 1) AND 0xF0);
              status_ans = (if smtc_real_is_acceptable_dr e m dr_tmp = ERRORLORAWAN
                            then status_ans AND 0x5 else status_ans);
              tx_power_tmp = nwk_byte m ((nb - 1) * LINK_ADR_REQ_SIZE + 1) AND 0x0F;
              status_ans = (if smtc_real_is_valid_tx_power e m tx_power_tmp = ERRORLORAWAN
                            then status_ans AND 0x3 else status_ans);
              nb_trans_tmp = nwk_byte m ((nb - 1) * LINK_ADR_REQ_SIZE + 4) AND 0x0F;
              m = (if status_ans = 0x7 then
                     (let m1 = smtc_real_channel_mask_set e m;
                          m2 = smtc_real_power_set e m1 tx_power_tmp
                      in m2\<lparr>nb_trans := nb_trans_tmp, tx_data_rate_adr := dr_tmp\<rparr>)
                   else m);
              m = m\<lparr>tx_fopts_data :=
                     fold (\<lambda>i d. d[unat (tx_fopts_length m) + i * LINK_ADR_ANS_SIZE := LINK_ADR_ANS,
                                    unat (tx_fopts_length m) + i * LINK_ADR_ANS_SIZE + 1 := status_ans])
                       [0..<nb] (tx_fopts_data m)\<rparr>
          in m\<lparr>nwk_payload_index := nwk_payload_index m + of_nat (nb * LINK_ADR_REQ_SIZE),
               tx_fopts_length := tx_fopts_length m + of_nat (nb * LINK_ADR_ANS_SIZE)\<rparr>)"

definition rx_param_setup_parser :: "('r, 'p) env \<Rightarrow> ('r, 'p) mac \<Rightarrow> ('r, 'p) mac" where
  "rx_param_setup_parser e lr1_mac =
     (let status_ans = (0x7 :: u8);
          rx1_dr_offset_temp = drop_bit 4 (nwk_byte lr1_mac 1 AND 0x70);
          status_ans =
            (if smtc_real_is_valid_rx1_dr_offset e lr1_mac rx1_dr_offset_temp = ERRORLORAWAN
             then status_ans AND 0x6 else status_ans);
          rx2_dr_temp = nwk_byte lr1_mac 1 AND 0x0F;
          status_ans = (if smtc_real_is_valid_dr e lr1_mac rx2_dr_temp = ERRORLORAWAN
                        then status_ans AND 0x5 else status_ans);
          rx2_frequency_temp =
            smtc_real_decode_freq_from_buf e lr1_mac
              (slice (nwk_payload lr1_mac) (unat (nwk_payload_index lr1_mac) + 2) 3);
          status_ans =
            (if smtc_real_is_valid_rx_frequency e lr1_mac rx2_frequency_temp = ERRORLORAWAN
             then status_ans AND 0x3 else status_ans);
          m = (if status_ans = 0x7 then
                 lr1_mac\<lparr>rx1_dr_offset := rx1_dr_offset_temp, rx2_data_rate := rx2_dr_temp,
                         rx2_frequency := rx2_frequency_temp\<rparr>
               else lr1_mac);
          m = sticky_write e m (unat (tx_fopts_lengthsticky m)) RXPARRAM_SETUP_ANS;
          m = sticky_write e m (unat (tx_fopts_lengthsticky m) + 1) status_ans
      in m\<lparr>tx_fopts_lengthsticky := tx_fopts_lengthsticky m + of_nat RXPARRAM_SETUP_ANS_SIZE,
           nwk_payload_index := nwk_payload_index m + of_nat RXPARRAM_SETUP_REQ_SIZE\<rparr>)"

definition duty_cycle_parser :: "('r, 'p) mac \<Rightarrow> ('r, 'p) mac" where
  "duty_cycle_parser lr1_mac =
     (let m = lr1_mac\<lparr>max_duty_cycle_index := nwk_byte lr1_mac 1 AND 0x0F\<rparr>;
          m = m\<lparr>tx_fopts_data := (tx_fopts_data m)[unat (tx_fopts_length m) := DUTY_CYCLE_ANS]\<rparr>
      in m\<lparr>tx_fopts_length := tx_fopts_length m + of_nat DUTY_CYCLE_ANS_SIZE,
           nwk_payload_index := nwk_payload_index m + of_nat DUTY_CYCLE_REQ_SIZE\<rparr>)"

definition dev_status_parser :: "('r, 'p) env \<Rightarrow> ('r, 'p) mac \<Rightarrow> ('r, 'p) mac" where
  "dev_status_parser e lr1_mac =
     (let my_hook_id = snd (rp_hook_get_id e (rp lr1_mac));
          m = lr1_mac\<lparr>tx_fopts_data := (tx_fopts_data lr1_mac)
                [unat (tx_fopts_length lr1_mac) := DEV_STATUS_ANS,
                 unat (tx_fopts_length lr1_mac) + 1 := bsp_mcu_get_battery_level e,
                 unat (tx_fopts_length lr1_mac) + 2 :=
                   rp_snr_pkt_in_db e (rp lr1_mac) my_hook_id AND 0x3F]\<rparr>
      in m\<lparr>tx_fopts_length := tx_fopts_length m + of_nat DEV_STATUS_ANS_SIZE,
           nwk_payload_index := nwk_payload_index m + of_nat DEV_STATUS_REQ_SIZE\<rparr>)"

definition new_channel_parser :: "('r, 'p) env \<Rightarrow> ('r, 'p) mac \<Rightarrow> ('r, 'p) mac" where
  "new_channel_parser e lr1_mac =
     (let status_ans = (0x3 :: u8);
          channel_index_temp = nwk_byte lr1_mac 1;
          status_ans =
            (if smtc_real_is_valid_channel_index e lr1_mac channel_index_temp = ERRORLORAWAN
             then status_ans AND 0x0 else status_ans);
          frequency_temp =
            smtc_real_decode_freq_from_buf e lr1_mac
              (slice (nwk_payload lr1_mac) (unat (nwk_payload_index lr1_mac) + 2) 3);
          status_ans =
            (if smtc_real_is_valid_tx_frequency e lr1_mac frequency_temp = ERRORLORAWAN
             then status_ans AND 0x2 else status_ans);
          dr_range_min_temp = nwk_byte lr1_mac 5 AND 0xF;
          status_ans = (if smtc_real_is_valid_dr e lr1_mac dr_range_min_temp = ERRORLORAWAN
                        then status_ans AND 0x1 else status_ans);
          dr_range_max_temp = drop_bit 4 (nwk_byte lr1_mac 5 AND 0xF0);
          status_ans = (if smtc_real_is_valid_dr e lr1_mac dr_range_max_temp = ERRORLORAWAN
                        then status_ans AND 0x1 else status_ans);
          status_ans = (if dr_range_max_temp < dr_range_min_temp
                        then status_ans AND 0x1 else status_ans);
          m = (if status_ans = 0x3 then
                 (let m1 = smtc_real_tx_frequency_channel_set e lr1_mac frequency_temp
                             channel_index_temp;
                      m2 = smtc_real_rx1_frequency_channel_set e m1 frequency_temp
                             channel_index_temp;
                      m3 = smtc_real_min_dr_channel_set e m2 dr_range_min_temp channel_index_temp;
                      m4 = smtc_real_max_dr_channel_set e m3 dr_range_max_temp channel_index_temp
                  in smtc_real_channel_enabled_set e m4 (frequency_temp \<noteq> 0) channel_index_temp)
               else lr1_mac);
          m = m\<lparr>tx_fopts_data := (tx_fopts_data m)
                 [unat (tx_fopts_length m) := NEW_CHANNEL_ANS,
                  unat (tx_fopts_length m) + 1 := status_ans]\<rparr>
      in m\<lparr>tx_fopts_length := tx_fopts_length m + of_nat NEW_CHANNEL_ANS_SIZE,
           nwk_payload_index := nwk_payload_index m + of_nat NEW_CHANNEL_REQ_SIZE\<rparr>)"

definition rx_timing_setup_parser :: "('r, 'p) env \<Rightarrow> ('r, 'p) mac \<Rightarrow> ('r, 'p) mac" where
  "rx_timing_setup_parser e lr1_mac =
     (let m = lr1_mac\<lparr>rx1_delay_s := nwk_byte lr1_mac 1 AND 0xF\<rparr>;
          m = (if rx1_delay_s m = 0 then m\<lparr>rx1_delay_s := 1\<rparr> else m);
          m = sticky_write e m (unat (tx_fopts_lengthsticky m)) RXTIMING_SETUP_ANS
      in m\<lparr>tx_fopts_lengthsticky := tx_fopts_lengthsticky m + of_nat RXTIMING_SETUP_ANS_SIZE,
           nwk_payload_index := nwk_payload_index m + of_nat RXTIMING_SETUP_REQ_SIZE\<rparr>)"

definition tx_param_setup_parser :: "('r, 'p) env \<Rightarrow> ('r, 'p) mac \<Rightarrow> ('r, 'p) mac" where
  "tx_param_setup_parser e lr1_mac =
     (let m = lr1_mac\<lparr>max_eirp_dbm :=
                  smtc_real_max_eirp_dbm_from_idx e (nwk_byte lr1_mac 1 AND 0x0F),
                uplink_dwell_time := drop_bit 4 (nwk_byte lr1_mac 1 AND 0x10),
                downlink_dwell_time := drop_bit 5 (nwk_byte lr1_mac 1 AND 0x20)\<rparr>;
          m = sticky_write e m (unat (tx_fopts_lengthsticky m)) TXPARAM_SETUP_ANS
      in m\<lparr>tx_fopts_lengthsticky := tx_fopts_lengthsticky m + of_nat TXPARAM_SETUP_ANS_SIZE,
           nwk_payload_index := nwk_payload_index m + of_nat TXPARAM_SETUP_REQ_SIZE\<rparr>)"

definition dl_channel_parser :: "('r, 'p) env \<Rightarrow> ('r, 'p) mac \<Rightarrow> ('r, 'p) mac" where
  "dl_channel_parser e lr1_mac =
     (let status_ans = (0x3 :: u8);
          channel_index_temp = nwk_byte lr1_mac 1;
          status_ans =
            (if smtc_real_tx_frequency_channel_get e lr1_mac channel_index_temp = 0
             then status_ans AND 0x1 else status_ans);
          frequency_temp =
            smtc_real_decode_freq_from_buf e lr1_mac
              (slice (nwk_payload lr1_mac) (unat (nwk_payload_index lr1_mac) + 2) 3);
          status_ans =
            (if smtc_real_is_valid_rx_frequency e lr1_mac frequency_temp = ERRORLORAWAN
             then status_ans AND 0x2 else status_ans);
          m = (if status_ans = 0x3
               then smtc_real_rx1_frequency_channel_set e lr1_mac frequency_temp channel_index_temp
               else lr1_mac);
          m = sticky_write e m (unat (tx_fopts_lengthsticky m)) DL_CHANNEL_ANS;
          m = sticky_write e m (unat (tx_fopts_lengthsticky m) + 1) status_ans
      in m\<lparr>tx_fopts_lengthsticky := tx_fopts_lengthsticky m + of_nat DL_CHANNEL_ANS_SIZE,
           nwk_payload_index := nwk_payload_index m + of_nat DL_CHANNEL_REQ_SIZE\<rparr>)"

text \<open>
  Counting the consecutive \<^verbatim>\<open>LinkADRReq\<close> blocks: the inner \<^verbatim>\<open>while\<close> of
  \<^verbatim>\<open>lr1_stack_mac_cmd_parse\<close>. It stops at the end of the stream at the latest.
\<close>

function count_link_adr_req :: "u8 list \<Rightarrow> nat \<Rightarrow> nat \<Rightarrow> nat \<Rightarrow> nat" where
  "count_link_adr_req payload idx payload_size nb =
     (if rd payload (idx + nb * LINK_ADR_REQ_SIZE) = LINK_ADR_REQ \<and>
         idx + nb * LINK_ADR_REQ_SIZE < payload_size
      then count_link_adr_req payload idx payload_size (nb + 1) else nb)"
  by pat_completeness auto
termination
  by (relation "measure (\<lambda>(payload, idx, payload_size, nb). payload_size - (idx + nb * LINK_ADR_REQ_SIZE))")
     (auto simp: LINK_ADR_REQ_SIZE_def)

text \<open>
  One turn of the \<^verbatim>\<open>while\<close> loop of \<^verbatim>\<open>lr1_stack_mac_cmd_parse\<close> past its guard and
  its length check: the \<^verbatim>\<open>switch\<close> on the command identifier.
\<close>

definition cmd_parse_switch :: "('r, 'p) env \<Rightarrow> ('r, 'p) mac \<Rightarrow> ('r, 'p) mac" where
  "cmd_parse_switch e lr1_mac =
     (let cmd_identifier = nwk_byte lr1_mac 0
      in if cmd_identifier = LINK_CHECK_ANS then link_check_parser lr1_mac
         else if cmd_identifier = LINK_ADR_REQ then
           link_adr_parser e lr1_mac
             (of_nat (count_link_adr_req (nwk_payload lr1_mac) (unat (nwk_payload_index lr1_mac))
                        (unat (nwk_payload_size lr1_mac)) 0))
         else if cmd_identifier = DUTY_CYCLE_REQ then duty_cycle_parser lr1_mac
         else if cmd_identifier = RXPARRAM_SETUP_REQ then rx_param_setup_parser e lr1_mac
         else if cmd_identifier = DEV_STATUS_REQ then dev_status_parser e lr1_mac
         else if cmd_identifier = NEW_CHANNEL_REQ then new_channel_parser e lr1_mac
         else if cmd_identifier = RXTIMING_SETUP_REQ then rx_timing_setup_parser e lr1_mac
         else if cmd_identifier = TXPARAM_SETUP_REQ then tx_param_setup_parser e lr1_mac
         else if cmd_identifier = DL_CHANNEL_REQ then dl_channel_parser e lr1_mac
         else lr1_mac\<lparr>nwk_payload_size := 0\<rparr>)"

text \<open>
  The loop itself. The index is a byte and may wrap, so the loop is a partial function:
  \<open>None\<close> stands for a loop that never ends.
\<close>

partial_function (option) cmd_parse_loop ::
  "('r, 'p) env \<Rightarrow> ('r, 'p) mac \<Rightarrow> (int \<times> ('r, 'p) mac) option" where
  "cmd_parse_loop e lr1_mac =
     (if nwk_payload_size lr1_mac > nwk_payload_index lr1_mac then
        (if tx_fopts_length lr1_mac > 200 then Some (ERRORLORAWAN, lr1_mac)
         else cmd_parse_loop e (cmd_parse_switch e lr1_mac))
      else Some (OKLORAWAN, lr1_mac))"

declare cmd_parse_loop.simps [code]

definition lr1_stack_mac_cmd_parse ::
  "('r, 'p) env \<Rightarrow> ('r, 'p) mac \<Rightarrow> (int \<times> ('r, 'p) mac) option" where
  "lr1_stack_mac_cmd_parse e lr1_mac =
     cmd_parse_loop e
       (lr1_mac\<lparr>nwk_payload_index := 0, nwk_ans_size := 0, tx_fopts_length := 0,
               tx_fopts_lengthsticky := 0\<rparr>)"

text \<open>
  The states the loop passes through at command boundaries: \<open>cmd_parse_visits e m t\<close>
  holds when the loop started in \<open>m\<close> comes to test its guard in \<open>t\<close>.
\<close>

inductive cmd_parse_visits :: "('r, 'p) env \<Rightarrow> ('r, 'p) mac \<Rightarrow> ('r, 'p) mac \<Rightarrow> bool"
  for e :: "('r, 'p) env" where
  visits_here: "cmd_parse_visits e m m"
| visits_next:
    "nwk_payload_size m > nwk_payload_index m \<Longrightarrow> \<not> tx_fopts_length m > 200 \<Longrightarrow>
     cmd_parse_visits e (cmd_parse_switch e m) t \<Longrightarrow> cmd_parse_visits e m t"

definition recognized_cid :: "u8 \<Rightarrow> bool" where
  "recognized_cid c \<longleftrightarrow>
     c \<in> {LINK_CHECK_ANS, LINK_ADR_REQ, DUTY_CYCLE_REQ, RXPARRAM_SETUP_REQ, DEV_STATUS_REQ,
          NEW_CHANNEL_REQ, RXTIMING_SETUP_REQ, TXPARAM_SETUP_REQ, DL_CHANNEL_REQ}"

section \<open>Decoding a received frame\<close>

text \<open>
  Four bytes of a buffer read as a 32-bit value, as \<^verbatim>\<open>memcpy\<close> into a \<^verbatim>\<open>uint32_t\<close>
  does on the little-endian target (the board support package under
  \<^verbatim>\<open>smtc_bsp/arm/stm32\<close>).
\<close>

definition le32_at :: "u8 list \<Rightarrow> nat \<Rightarrow> u32" where
  "le32_at b i =
     ucast (rd b i) + push_bit 8 (ucast (rd b (i + 1))) + push_bit 16 (ucast (rd b (i + 2))) +
     push_bit 24 (ucast (rd b (i + 3)))"

definition rx_payload_size_check :: "('r, 'p) env \<Rightarrow> ('r, 'p) mac \<Rightarrow> int" where
  "rx_payload_size_check e lr1_mac =
     (if rx_payload_size lr1_mac < MIN_LORAWAN_PAYLOAD_SIZE e then ERRORLORAWAN else OKLORAWAN)"

definition rx_mhdr_extract :: "('r, 'p) mac \<Rightarrow> int \<times> ('r, 'p) mac" where
  "rx_mhdr_extract lr1_mac =
     (let m = lr1_mac\<lparr>rx_mtype := drop_bit 5 (rd (rx_payload lr1_mac) 0),
                      rx_major := rd (rx_payload lr1_mac) 0 AND 0x3\<rparr>;
          status = (if rx_mtype m = JOIN_REQUEST \<or> rx_mtype m = UNCONF_DATA_UP \<or>
                       rx_mtype m = CONF_DATA_UP \<or> rx_mtype m = REJOIN_REQUEST
                    then ERRORLORAWAN else OKLORAWAN)
      in (status, m\<lparr>tx_ack_bit := (if rx_mtype m = CONF_DATA_DOWN then 1 else 0)\<rparr>))"

definition rx_fhdr_extract :: "('r, 'p) mac \<Rightarrow> u32 \<Rightarrow> int \<times> u16 \<times> ('r, 'p) mac" where
  "rx_fhdr_extract lr1_mac dev_addr_arg =
     (let dev_addr_tmp = le32_at (rx_payload lr1_mac) 1;
          status = (if dev_addr_tmp = dev_addr_arg then OKLORAWAN else ERRORLORAWAN);
          m = lr1_mac\<lparr>rx_fctrl := rd (rx_payload lr1_mac) 5\<rparr>;
          fcnt_dwn_tmp = (ucast (rd (rx_payload m) 6) :: u16) + push_bit 8 (ucast (rd (rx_payload m) 7));
          m = m\<lparr>rx_fopts_length := rx_fctrl m AND 0x0F\<rparr>;
          m = m\<lparr>rx_fopts := memcpy (rx_fopts m) 0 (rx_payload m) 8 (unat (rx_fopts_length m))\<rparr>;
          m = (if unat (rx_payload_size m) > 8 + MICSIZE + unat (rx_fopts_length m)
               then m\<lparr>rx_fport := rd (rx_payload m) (8 + unat (rx_fopts_length m)),
                       rx_payload_empty := 0\<rparr>
               else m\<lparr>rx_payload_empty := 1\<rparr>)
      in (status, fcnt_dwn_tmp, m))"

text \<open>
  The part of \<^verbatim>\<open>lr1_stack_mac_rx_frame_decode\<close> that runs once a data frame has passed
  the MIC check.
\<close>

definition rx_valid_frame :: "('r, 'p) env \<Rightarrow> ('r, 'p) mac \<Rightarrow> rx_packet_type_t \<times> ('r, 'p) mac" where
  "rx_valid_frame e lr1_mac =
     (let m = lr1_mac\<lparr>adr_ack_cnt := 0, adr_ack_cnt_confirmed_frame := 0,
                      tx_fopts_lengthsticky := 0\<rparr>;
          m = (if \<not> (rx_fctrl m AND 0x20 \<noteq> 0x20 \<and> tx_mtype m = CONF_DATA_UP)
               then m\<lparr>nb_trans_cpt := 1\<rparr> else m);
          m = (if rx_fctrl m AND 0x20 = 0x20 \<and> tx_mtype m = CONF_DATA_UP
               then m\<lparr>rx_ack_bit := 1\<rparr> else m)
      in if rx_payload_empty m = 0 then
           (let m = m\<lparr>rx_payload_size :=
                        rx_payload_size m - of_nat FHDROFFSET - rx_fopts_length m\<rparr>
            in if rx_fport m = 0 then
                 (if rx_fopts_length m = 0 then
                    (let m = m\<lparr>nwk_payload :=
                                 memcpy (nwk_payload m) 0
                                   (payload_decrypt e
                                      (slice (rx_payload m) FHDROFFSET (unat (rx_payload_size m)))
                                      (nwk_skey m) (dev_addr m) 1 (fcnt_dwn m))
                                   0 (unat (rx_payload_size m))\<rparr>
                     in (NWKRXPACKET, m\<lparr>nwk_payload_size := rx_payload_size m\<rparr>))
                  else (NO_MORE_VALID_RX_PACKET, m))
               else
                 (let m = m\<lparr>rx_payload :=
                              memcpy (rx_payload m) 0
                                (payload_decrypt e
                                   (slice (rx_payload m) (FHDROFFSET + unat (rx_fopts_length m))
                                      (unat (rx_payload_size m)))
                                   (app_skey m) (dev_addr m) 1 (fcnt_dwn m))
                                0 (unat (rx_payload_size m))\<rparr>;
                      r = (if rx_fopts_length m \<noteq> 0 then
                             (USERRX_FOPTSPACKET,
                              m\<lparr>nwk_payload := memcpy (nwk_payload m) 0 (rx_fopts m) 0
                                                  (unat (rx_fopts_length m)),
                                nwk_payload_size := rx_fopts_length m\<rparr>)
                           else (NO_MORE_VALID_RX_PACKET, m))
                  in (fst r, (snd r)\<lparr>available_app_packet := LORA_RX_PACKET_AVAILABLE\<rparr>)))
         else
           (if rx_fopts_length m \<noteq> 0 then
              (USERRX_FOPTSPACKET,
               m\<lparr>nwk_payload := memcpy (nwk_payload m) 0 (rx_fopts m) 0 (unat (rx_fopts_length m)),
                 nwk_payload_size := rx_fopts_length m\<rparr>)
            else (NO_MORE_VALID_RX_PACKET, m)))"

text \<open>
  \<^verbatim>\<open>lr1_stack_mac_rx_frame_decode\<close>. The statuses are summed in an \<^verbatim>\<open>int\<close>, except
  for the one of \<^verbatim>\<open>fcnt_dwn_accept\<close>, which is assigned. That function is called
  with the address of the field \<^verbatim>\<open>fcnt_dwn\<close> of the MAC object and writes through it.
\<close>

definition lr1_stack_mac_rx_frame_decode ::
  "('r, 'p) env \<Rightarrow> ('r, 'p) mac \<Rightarrow> rx_packet_type_t \<times> ('r, 'p) mac" where
  "lr1_stack_mac_rx_frame_decode e lr1_mac =
     (let status = OKLORAWAN + rx_payload_size_check e lr1_mac;
          (st, m) = rx_mhdr_extract lr1_mac;
          status = status + st
      in if rx_mtype m = JOIN_ACCEPT then
           (let n = unat (rx_payload_size m) - 1;
                m = m\<lparr>rx_payload :=
                       memcpy (rx_payload m) 1
                         (join_decrypt e (slice (rx_payload m) 1 n) (app_key m)) 0 n\<rparr>;
                m = m\<lparr>rx_payload_size := rx_payload_size m - of_nat MICSIZE\<rparr>;
                mic_in = le32_at (rx_payload m) (unat (rx_payload_size m));
                status = status +
                  check_join_mic e (slice (rx_payload m) 0 (unat (rx_payload_size m)))
                    (app_key m) mic_in
            in if status = OKLORAWAN then (JOIN_ACCEPT_PACKET, m)
               else (NO_MORE_VALID_RX_PACKET, m))
         else
           (let (st, fcnt_dwn_tmp, m) = rx_fhdr_extract m (dev_addr m);
                status = status + st;
                (status, m) =
                  (if status = OKLORAWAN then
                     (let (st, fcnt) = fcnt_dwn_accept fcnt_dwn_tmp (fcnt_dwn m)
                      in (st, m\<lparr>fcnt_dwn := fcnt\<rparr>))
                   else (status, m));
                (status, m) =
                  (if status = OKLORAWAN then
                     (let m = m\<lparr>rx_payload_size := rx_payload_size m - of_nat MICSIZE\<rparr>;
                          mic_in = le32_at (rx_payload m) (unat (rx_payload_size m))
                      in (status +
                            check_mic e (slice (rx_payload m) 0 (unat (rx_payload_size m)))
                              (nwk_skey m) (dev_addr m) (fcnt_dwn m) mic_in,
                          m))
                   else (status, m))
            in if status = OKLORAWAN then rx_valid_frame e m
               else (NO_MORE_VALID_RX_PACKET, m)))"

section \<open>Join request\<close>

text \<open>
  \<^verbatim>\<open>lr1_stack_mac_join_request_build\<close>. The four bytes of the MIC are copied from a
  \<^verbatim>\<open>uint32_t\<close> and so are in the byte order of the target, little-endian.
\<close>

definition le32_bytes :: "u32 \<Rightarrow> u8 list" where
  "le32_bytes w = [ucast w, ucast (drop_bit 8 w), ucast (drop_bit 16 w), ucast (drop_bit 24 w)]"

text \<open>The \<^verbatim>\<open>for\<close> loop that copies the two identifiers, last byte first.\<close>

definition join_eui_copy :: "u8 list \<Rightarrow> u8 list \<Rightarrow> u8 list \<Rightarrow> u8 list" where
  "join_eui_copy p app dev =
     fold (\<lambda>i p. p[1 + i := rd app (7 - i), 9 + i := rd dev (7 - i)]) [0..<8] p"

definition join_request_frame :: "('r, 'p) env \<Rightarrow> ('r, 'p) mac \<Rightarrow> ('r, 'p) mac" where
  "join_request_frame e lr1_mac =
     (let m = lr1_mac\<lparr>dev_nonce := dev_nonce lr1_mac + 1\<rparr>;
          m = m\<lparr>tx_mtype := JOIN_REQUEST, nb_trans_cpt := 1, nb_trans := 1\<rparr>;
          m = mac_header_set m;
          m = m\<lparr>tx_payload := join_eui_copy (tx_payload m) (app_eui m) (dev_eui m)\<rparr>;
          m = m\<lparr>tx_payload := (tx_payload m)
                 [17 := ucast (dev_nonce m AND 0x00FF),
                  18 := ucast (drop_bit 8 (dev_nonce m AND 0xFF00))]\<rparr>;
          m = m\<lparr>tx_payload_size := 19\<rparr>;
          mic = join_compute_mic e (slice (tx_payload m) 0 (unat (tx_payload_size m))) (app_key m);
          m = m\<lparr>tx_payload := memcpy (tx_payload m) (unat (tx_payload_size m)) (le32_bytes mic) 0 4\<rparr>
      in m\<lparr>tx_payload_size := tx_payload_size m + 4\<rparr>)"

definition lr1_stack_mac_join_request_build :: "('r, 'p) env \<Rightarrow> ('r, 'p) mac \<Rightarrow> ('r, 'p) mac" where
  "lr1_stack_mac_join_request_build e lr1_mac =
     smtc_real_memory_save e (join_request_frame e lr1_mac)"

section \<open>Double precision arithmetic\<close>

text \<open>
  The symbol time and the window offset are computed in C \<^verbatim>\<open>double\<close>s. A double is
  modelled by the rational number it denotes. Every arithmetic operation yields the
  exact result rounded to the nearest number with a 53-bit significand, ties to the
  even significand, as IEEE 754 binary64 arithmetic does; the magnitudes that occur
  here are far inside the range of normal numbers. \<open>ilog2 n\<close> is the position of
  the leading bit of \<open>n\<close>, and \<open>binexp x\<close> is the exponent \<open>e\<close> with
  \<open>2^e \<le> |x| < 2^(e+1)\<close>. The model takes each operation of the C expression to
  be rounded on its own (no extended precision, no fused multiply-add).
\<close>

function ilog2 :: "int \<Rightarrow> int" where
  "ilog2 n = (if n \<le> 1 then 0 else 1 + ilog2 (n div 2))"
  by auto
termination
  by (relation "measure nat") auto

declare ilog2.simps [simp del]

definition binexp :: "rat \<Rightarrow> int" where
  "binexp x =
     (case quotient_of \<bar>x\<bar> of (a, b) \<Rightarrow>
        let e0 = ilog2 a - ilog2 b
        in if 2 powi e0 \<le> \<bar>x\<bar> then e0 else e0 - 1)"

definition round_even :: "rat \<Rightarrow> int" where
  "round_even q =
     (let f = \<lfloor>q\<rfloor>; d = q - of_int f
      in if d < 1 / 2 then f else if d > 1 / 2 then f + 1 else if even f then f else f + 1)"

definition double_round :: "rat \<Rightarrow> rat" where
  "double_round x =
     (if x = 0 then 0
      else let ulp = 2 powi (binexp x - 52) in of_int (round_even (x / ulp)) * ulp)"

definition double_mul :: "rat \<Rightarrow> rat \<Rightarrow> rat" where
  "double_mul a b = double_round (a * b)"

definition double_div :: "rat \<Rightarrow> rat \<Rightarrow> rat" where
  "double_div a b = double_round (a / b)"

definition double_sub :: "rat \<Rightarrow> rat \<Rightarrow> rat" where
  "double_sub a b = double_round (a - b)"

section \<open>Receive windows\<close>

text \<open>
  \<^verbatim>\<open>compute_rx_window_parameters\<close>. The bandwidth in kHz is taken from the \<^verbatim>\<open>switch\<close>,
  whose default is 125. The integer expression for the window width is evaluated in
  \<^verbatim>\<open>uint32_t\<close> (one operand, \<^verbatim>\<open>rx_error_ms\<close>, has that type) and cast to
  \<^verbatim>\<open>uint16_t\<close>. C defines no result for \<^verbatim>\<open>1 << sf\<close> from \<open>sf\<close> = 31 on, for the
  division \<^verbatim>\<open>8.0 / sf\<close> by zero, and for the conversion of a double outside the
  range of the integer type it is converted to.
\<close>

definition bw_temp_of :: "lr1mac_bandwidth_t \<Rightarrow> int" where
  "bw_temp_of b =
     (case b of BW125 \<Rightarrow> 125 | BW250 \<Rightarrow> 250 | BW500 \<Rightarrow> 500 | BW800 \<Rightarrow> 800
              | BW1600 \<Rightarrow> 1600 | _ \<Rightarrow> 125)"

definition MAX_u32 :: "u32 \<Rightarrow> u32 \<Rightarrow> u32" where
  "MAX_u32 a b = (if a > b then a else b)"

definition rx_error_ms_of :: "u32 \<Rightarrow> u32 \<Rightarrow> u32" where
  "rx_error_ms_of clock_accuracy rx_delay_ms = (clock_accuracy * rx_delay_ms) div 1000"

definition rx_window_symb_of :: "u8 \<Rightarrow> lr1mac_bandwidth_t \<Rightarrow> u32 \<Rightarrow> modulation_type_t \<Rightarrow> u16" where
  "rx_window_symb_of sf_arg bw_arg rx_error_ms rx_modulation_type =
     (let min_rx_symbols = (6 :: u32)
      in case rx_modulation_type of
           LORA \<Rightarrow>
             ucast (MAX_u32
               ((2 * min_rx_symbols - 8) +
                  drop_bit (unat sf_arg) (2 * rx_error_ms * word_of_int (bw_temp_of bw_arg)) + 1)
               min_rx_symbols)
         | FSK \<Rightarrow>
             ucast (MAX_u32
               ((2 * min_rx_symbols - 8) + drop_bit 3 (2 * rx_error_ms * ucast sf_arg) + 1)
               min_rx_symbols))"

definition tsymbol_of :: "u8 \<Rightarrow> lr1mac_bandwidth_t \<Rightarrow> modulation_type_t \<Rightarrow> rat" where
  "tsymbol_of sf_arg bw_arg rx_modulation_type =
     (case rx_modulation_type of
        LORA \<Rightarrow> double_div (of_nat (2 ^ unat sf_arg)) (of_int (bw_temp_of bw_arg))
      | FSK \<Rightarrow> double_div 8 (of_nat (unat sf_arg)))"

definition rx_offset_double :: "rat \<Rightarrow> u16 \<Rightarrow> u8 \<Rightarrow> rat" where
  "rx_offset_double tsymbol rx_window_symb_arg board_delay_ms =
     of_int \<lceil>double_sub
               (double_sub (double_mul 4 tsymbol)
                  (double_div (double_mul (of_nat (unat rx_window_symb_arg)) tsymbol) 2))
               (of_nat (unat board_delay_ms))\<rceil> * (- 1)"

definition rx_timeout_double :: "rat \<Rightarrow> u16 \<Rightarrow> rat" where
  "rx_timeout_double tsymbol rx_window_symb_arg =
     of_int \<lceil>double_mul (of_nat (unat rx_window_symb_arg)) tsymbol\<rceil>"

definition compute_rx_window_parameters ::
  "('r, 'p) mac \<Rightarrow> u8 \<Rightarrow> lr1mac_bandwidth_t \<Rightarrow> u32 \<Rightarrow> u32 \<Rightarrow> u8 \<Rightarrow> modulation_type_t
     \<Rightarrow> ('r, 'p) outcome" where
  "compute_rx_window_parameters lr1_mac sf_arg bw_arg clock_accuracy rx_delay_ms board_delay_ms
       rx_modulation_type =
     (if (rx_modulation_type = LORA \<and> unat sf_arg > 30) \<or>
         (rx_modulation_type = FSK \<and> sf_arg = 0)
      then Inl UNDEFINED_IN_C
      else
        let rx_error_ms = rx_error_ms_of clock_accuracy rx_delay_ms;
            tsymbol = tsymbol_of sf_arg bw_arg rx_modulation_type;
            rx_window_symb_loc = rx_window_symb_of sf_arg bw_arg rx_error_ms rx_modulation_type;
            offset = rx_offset_double tsymbol rx_window_symb_loc board_delay_ms;
            timeout = rx_timeout_double tsymbol rx_window_symb_loc
        in if - (2 ^ 31) \<le> offset \<and> offset < 2 ^ 31 \<and> 0 \<le> timeout \<and> timeout < 2 ^ 32 then
             Inr (lr1_mac\<lparr>rx_offset_ms := word_of_int \<lfloor>offset\<rfloor>,
                          rx_window_symb := rx_window_symb_loc,
                          rx_timeout_ms := word_of_int \<lfloor>timeout\<rfloor>\<rparr>)
           else Inl UNDEFINED_IN_C)"

text \<open>
  \<^verbatim>\<open>lr1_stack_mac_rx_radio_start\<close>. The window type is one of the two of
  \<^typ>\<open>rx_win_type_t\<close> and the modulation one of the two of \<^typ>\<open>modulation_type_t\<close>,
  so the branches that report an unknown window or modulation cannot be taken.
\<close>

definition rx_radio_params :: "('r, 'p) mac \<Rightarrow> rx_win_type_t \<Rightarrow> rp_radio_params_t" where
  "rx_radio_params lr1_mac type =
     (case (case type of RX1 \<Rightarrow> rx1_modulation_type lr1_mac
                       | RX2 \<Rightarrow> rx2_modulation_type lr1_mac) of
        LORA \<Rightarrow>
          \<lparr>pkt_type = RAL_PKT_TYPE_LORA,
           freq_in_hz = (case type of RX1 \<Rightarrow> rx1_frequency lr1_mac | RX2 \<Rightarrow> rx2_frequency lr1_mac),
           sf = (case type of RX1 \<Rightarrow> rx1_sf lr1_mac | RX2 \<Rightarrow> rx2_sf lr1_mac),
           bw = (case type of RX1 \<Rightarrow> rx1_bw lr1_mac | RX2 \<Rightarrow> rx2_bw lr1_mac),
           br_in_bps = 0, pld_len_in_bytes = 255, pwr_in_dbm = 0,
           symb_nb_timeout = rx_window_symb lr1_mac\<rparr>
      | FSK \<Rightarrow>
          \<lparr>pkt_type = RAL_PKT_TYPE_GFSK,
           freq_in_hz = (case type of RX1 \<Rightarrow> rx1_frequency lr1_mac | RX2 \<Rightarrow> rx2_frequency lr1_mac),
           sf = 0, bw = BW007,
           br_in_bps = (case type of RX1 \<Rightarrow> ucast (rx1_sf lr1_mac) * 1000
                                   | RX2 \<Rightarrow> ucast (rx2_sf lr1_mac) * 1000),
           pld_len_in_bytes = 255, pwr_in_dbm = 0, symb_nb_timeout = 0\<rparr>)"

definition rx_rp_task :: "u8 \<Rightarrow> ('r, 'p) mac \<Rightarrow> rx_win_type_t \<Rightarrow> u32 \<Rightarrow> rp_task_t" where
  "rx_rp_task my_hook_id lr1_mac type time_to_start =
     \<lparr>hook_id = my_hook_id,
      task_type = (if pkt_type (rx_radio_params lr1_mac type) = RAL_PKT_TYPE_LORA
                   then RP_TASK_TYPE_RX_LORA else RP_TASK_TYPE_RX_FSK),
      task_state = RP_TASK_STATE_SCHEDULE,
      start_time_ms = time_to_start,
      duration_time_ms = rx_timeout_ms lr1_mac\<rparr>"

definition lr1_stack_mac_rx_radio_start ::
  "('r, 'p) env \<Rightarrow> ('r, 'p) mac \<Rightarrow> rx_win_type_t \<Rightarrow> u32 \<Rightarrow> ('r, 'p) outcome" where
  "lr1_stack_mac_rx_radio_start e lr1_mac type time_to_start =
     (let radio_params = rx_radio_params lr1_mac type
      in case rp_hook_get_id e (rp lr1_mac) of (hook_status, my_hook_id) \<Rightarrow>
         if hook_status \<noteq> RP_HOOK_STATUS_OK then Inl MCU_HANDLE_LR1MAC_ISSUE
         else
           let rp_task = rx_rp_task my_hook_id lr1_mac type time_to_start
           in case rp_task_enqueue e (rp lr1_mac) rp_task (rx_payload lr1_mac) 255 radio_params
              of (enqueue_status, rp') \<Rightarrow> Inr (lr1_mac\<lparr>rp := rp'\<rparr>))"

text \<open>
  \<^verbatim>\<open>lr1_stack_mac_rx_timer_configure\<close> reads the clock twice: \<open>tcurrent_ms\<close> is the
  value of \<^verbatim>\<open>bsp_rtc_get_time_ms( )\<close> on entry, \<open>tstart_ms\<close> the value read when the
  start time of the task is computed. \<^verbatim>\<open>rx_offset_ms\<close> is held as its 32-bit
  pattern and read as a signed number where the code does so; the subtraction
  \<^verbatim>\<open>talarm_ms - rx_offset_ms\<close> is unsigned and its result is cast to \<^verbatim>\<open>int32_t\<close>.
\<close>

definition rx_delay_ms :: "('r, 'p) mac \<Rightarrow> rx_win_type_t \<Rightarrow> u32" where
  "rx_delay_ms lr1_mac type =
     (case type of RX1 \<Rightarrow> ucast (rx1_delay_s lr1_mac) * 1000
                 | RX2 \<Rightarrow> ucast (rx1_delay_s lr1_mac) * 1000 + 1000)"

definition lr1_stack_mac_rx_timer_configure ::
  "('r, 'p) env \<Rightarrow> u32 \<Rightarrow> u32 \<Rightarrow> ('r, 'p) mac \<Rightarrow> rx_win_type_t \<Rightarrow> ('r, 'p) outcome" where
  "lr1_stack_mac_rx_timer_configure e tcurrent_ms tstart_ms lr1_mac type =
     (let m = smtc_real_rx_config_set e lr1_mac type;
          sf_loc = (case type of RX1 \<Rightarrow> rx1_sf m | RX2 \<Rightarrow> rx2_sf m);
          bw_loc = (case type of RX1 \<Rightarrow> rx1_bw m | RX2 \<Rightarrow> rx2_bw m);
          delay_ms = rx_delay_ms m type;
          mod_type = (case type of RX1 \<Rightarrow> rx1_modulation_type m | RX2 \<Rightarrow> rx2_modulation_type m)
      in case compute_rx_window_parameters m sf_loc bw_loc (BSP_CRYSTAL_ERROR e) delay_ms
                (BSP_BOARD_DELAY_RX_SETTING_MS e) mod_type of
           Inl i \<Rightarrow> Inl i
         | Inr m \<Rightarrow>
             let talarm_ms = delay_ms + isr_radio_timestamp m - tcurrent_ms
             in if sint (talarm_ms - rx_offset_ms m) < 0 then
                  Inr (m\<lparr>radio_process_state :=
                          (case type of RX1 \<Rightarrow> RADIOSTATE_RX1FINISHED | RX2 \<Rightarrow> RADIOSTATE_IDLE)\<rparr>)
                else
                  let m = smtc_real_rx_config_set e m type
                  in lr1_stack_mac_rx_radio_start e m type (tstart_ms + talarm_ms - rx_offset_ms m))"

section \<open>A reference platform for the scenarios\<close>

text \<open>
  Modelled from the spec: \<^verbatim>\<open>smtc_real_dr_decrement\<close> is not part of the sources; the
  specification says of it "decrement DR (down to min)".
\<close>

definition spec_dr_decrement :: "u8 \<Rightarrow> ('r, 'p) mac \<Rightarrow> ('r, 'p) mac" where
  "spec_dr_decrement min_dr lr1_mac =
     (if tx_data_rate_adr lr1_mac > min_dr
      then lr1_mac\<lparr>tx_data_rate_adr := tx_data_rate_adr lr1_mac - 1\<rparr> else lr1_mac)"

text \<open>
  Modelled from the spec: a planner with one slot for the MAC hook, whose enqueue
  "returns OK or BUSY when the slot is not free".
\<close>

definition slot_enqueue ::
  "rp_task_t option \<Rightarrow> rp_task_t \<Rightarrow> u8 list \<Rightarrow> u8 \<Rightarrow> rp_radio_params_t
     \<Rightarrow> rp_hook_status_t \<times> rp_task_t option" where
  "slot_enqueue slot task payload payload_size radio_params =
     (case slot of None \<Rightarrow> (RP_HOOK_STATUS_OK, Some task)
                 | Some t \<Rightarrow> (RP_HOOK_STATUS_BUSY, Some t))"

text \<open>
  A concrete platform on which the scenarios are run: \<^verbatim>\<open>ADR_ACK_LIMIT\<close> = 64,
  \<^verbatim>\<open>ADR_ACK_DELAY\<close> = 32, minimum data rate 0, every regional check succeeds. The
  cryptographic functions are stand-ins with the right shape: the MIC of a data frame
  is a sum over the address and the frame counter, the MIC of a join request is the
  number of bytes it is computed over. Where C leaves the behaviour undefined, this
  platform takes a shift count modulo 32, drops a write past the end of
  \<^verbatim>\<open>tx_fopts_datasticky\<close> and reads 0 there.
\<close>

definition scenario_env :: "(unit, rp_task_t option) env" where
  "scenario_env =
     \<lparr>smtc_real_adr_ack_limit_get = (\<lambda>m. 64),
      smtc_real_adr_ack_delay_get = (\<lambda>m. 32),
      smtc_real_next_dr_get = (\<lambda>m. m\<lparr>tx_data_rate := tx_data_rate_adr m\<rparr>),
      smtc_real_dr_decrement = spec_dr_decrement 0,
      smtc_real_min_dr_channel_get = (\<lambda>m. 0),
      smtc_real_get_join_sf5_toa_in_ms = (\<lambda>m. 21),
      smtc_real_is_valid_size = (\<lambda>m dr n. if n \<le> 51 then OKLORAWAN else ERRORLORAWAN),
      smtc_real_max_payload_size_get = (\<lambda>m dr. 51),
      smtc_real_rx_config_set = (\<lambda>m ty. m),
      smtc_real_memory_save = (\<lambda>m. m),
      smtc_real_channel_mask_build = (\<lambda>m cntl mask. (OKCHANNEL, m)),
      smtc_real_is_acceptable_dr = (\<lambda>m dr. OKLORAWAN),
      smtc_real_is_valid_tx_power = (\<lambda>m pw. OKLORAWAN),
      smtc_real_channel_mask_set = (\<lambda>m. m),
      smtc_real_power_set = (\<lambda>m pw. m\<lparr>tx_power := pw\<rparr>),
      smtc_real_is_valid_rx1_dr_offset = (\<lambda>m off. OKLORAWAN),
      smtc_real_is_valid_dr = (\<lambda>m dr. OKLORAWAN),
      smtc_real_decode_freq_from_buf =
        (\<lambda>m b. (ucast (rd b 0) + push_bit 8 (ucast (rd b 1)) + push_bit 16 (ucast (rd b 2))) * 100),
      smtc_real_is_valid_rx_frequency = (\<lambda>m f. OKLORAWAN),
      smtc_real_is_valid_channel_index = (\<lambda>m i. OKLORAWAN),
      smtc_real_is_valid_tx_frequency = (\<lambda>m f. OKLORAWAN),
      smtc_real_tx_frequency_channel_set = (\<lambda>m f i. m),
      smtc_real_rx1_frequency_channel_set = (\<lambda>m f i. m),
      smtc_real_min_dr_channel_set = (\<lambda>m dr i. m),
      smtc_real_max_dr_channel_set = (\<lambda>m dr i. m),
      smtc_real_channel_enabled_set = (\<lambda>m en i. m),
      smtc_real_tx_frequency_channel_get = (\<lambda>m i. 868100000),
      smtc_real_max_eirp_dbm_from_idx = (\<lambda>i. 16),
      smtc_real_default_max_eirp_get = (\<lambda>m. 16),
      lora_crypto_payload_encrypt = (\<lambda>buf key addr dir fcnt. map (\<lambda>b. b XOR 0x5A) buf),
      lora_crypto_add_mic =
        (\<lambda>buf n key addr dir fcnt. memcpy buf (unat n) [0xDE, 0xAD, 0xBE, 0xEF] 0 4),
      payload_decrypt = (\<lambda>buf key addr dir fcnt. map (\<lambda>b. b XOR 0x5A) buf),
      check_mic =
        (\<lambda>buf key addr fcnt mic. if mic = addr + fcnt then OKLORAWAN else ERRORLORAWAN),
      join_decrypt = (\<lambda>buf key. buf),
      check_join_mic = (\<lambda>buf key mic. if mic = of_nat (length buf) then OKLORAWAN else ERRORLORAWAN),
      join_compute_mic = (\<lambda>buf key. of_nat (length buf)),
      rp_hook_get_id = (\<lambda>p. (RP_HOOK_STATUS_OK, 0)),
      rp_task_enqueue = slot_enqueue,
      rp_snr_pkt_in_db = (\<lambda>p h. 9),
      bsp_mcu_get_battery_level = 254,
      lr1mac_cmd_mac_ans_size = (\<lambda>cid. if cid = 6 then 3 else if cid \<in> {3, 5, 7, 10} then 2 else 1),
      ADR_LIMIT_CONF_UP = 4,
      NO_RX_PACKET_CNT = 2400,
      MIN_LORAWAN_PAYLOAD_SIZE = 12,
      BSP_CRYSTAL_ERROR = 10,
      BSP_BOARD_DELAY_RX_SETTING_MS = 7,
      undefined_shift_left = (\<lambda>x n. push_bit (nat (n mod 32)) x),
      sticky_write_past_end = (\<lambda>m i v. m),
      sticky_read_past_end = (\<lambda>m i. 0)\<rparr>"

text \<open>The MAC object as static storage holds it before initialisation: all zero.\<close>

definition zeroed_mac :: "'r \<Rightarrow> 'p \<Rightarrow> ('r, 'p) mac" where
  "zeroed_mac r p =
     \<lparr>real = r, rp = p, tx_data_rate = 0, tx_data_rate_adr = 0, tx_power = 0,
      tx_power_offset = 0, nb_trans = 0, nb_trans_cpt = 0, rx2_data_rate = 0,
      rx2_frequency = 0, rx1_dr_offset = 0, rx1_delay_s = 0, max_eirp_dbm = 0,
      uplink_dwell_time = 0, downlink_dwell_time = 0, max_duty_cycle_index = 0,
      fcnt_up = 0, fcnt_dwn = 0, dev_addr = 0,
      nwk_skey = replicate 16 0, app_skey = replicate 16 0, app_key = replicate 16 0,
      dev_eui = replicate 8 0, app_eui = replicate 8 0,
      tx_fport = 0, tx_mtype = 0, tx_major_bits = 0, tx_fctrl = 0, tx_ack_bit = 0,
      app_payload_size = 0, tx_payload_size = 0, tx_payload = replicate 255 0,
      tx_fopts_length = 0, tx_fopts_data = replicate 255 0,
      tx_fopts_lengthsticky = 0, tx_fopts_datasticky = replicate 15 0,
      tx_fopts_current_length = 0, tx_fopts_current_data = replicate 15 0,
      rx_fport = 0, rx_mtype = 0, rx_major = 0, rx_fctrl = 0, rx_ack_bit = 0,
      rx_fopts_length = 0, rx_fopts = replicate 16 0, rx_payload_size = 0,
      rx_payload = replicate 255 0, rx_payload_empty = 0,
      tx_duty_cycle_time_off_ms = 0, tx_duty_cycle_timestamp_ms = 0, dev_nonce = 0,
      nwk_payload = replicate 255 0, nwk_payload_size = 0, nwk_payload_index = 0,
      nwk_ans = replicate 255 0, nwk_ans_size = 0,
      adr_ack_cnt = 0, adr_ack_cnt_confirmed_frame = 0, adr_ack_limit = 0,
      adr_ack_delay = 0, adr_ack_req = 0, adr_enable = 0,
      next_time_to_join_seconds = 0, retry_join_cpt = 0, first_join_timestamp = 0,
      tx_sf = 0, tx_modulation_type = LORA, tx_bw = BW007, tx_frequency = 0,
      rx1_sf = 0, rx1_modulation_type = LORA, rx1_bw = BW007, rx1_frequency = 0,
      rx2_sf = 0, rx2_modulation_type = LORA, rx2_bw = BW007,
      rx_window_symb = 0, rx_timeout_ms = 0, rx_offset_ms = 0, isr_radio_timestamp = 0,
      join_status = NOT_JOINED, type_of_ans_to_send = NOFRAME_TOSEND,
      radio_process_state = RADIOSTATE_IDLE, rtc_target_timer_ms = 0,
      send_at_time = False, available_app_packet = NO_LORA_RXPACKET_AVAILABLE\<rparr>"

definition scenario_mac :: "(unit, rp_task_t option) mac" where
  "scenario_mac = lr1_stack_mac_init scenario_env 0 () (zeroed_mac () None)"

text \<open>Reading one field, or a tuple of fields, off the object a function returns.\<close>

definition outcome_of :: "(('r, 'p) mac \<Rightarrow> 'a) \<Rightarrow> ('r, 'p) outcome option \<Rightarrow> 'a option" where
  "outcome_of f r = (case r of Some (Inr m) \<Rightarrow> Some (f m) | _ \<Rightarrow> None)"

definition adr_view :: "('r, 'p) mac \<Rightarrow> u8 \<times> int" where
  "adr_view m = (tx_data_rate_adr m, adr_ack_cnt m)"

text \<open>
  One uplink that no downlink answers: the frame is handed to the planner, the planner
  runs the transmission and both receive windows to their end, which frees its slot
  again, and the MAC object is updated. \<open>uplinks n\<close> is \<open>n\<close> such uplinks in a row.
\<close>

definition uplink_without_downlink ::
  "('r, 'p) env \<Rightarrow> u32 \<Rightarrow> ('r, 'p) mac \<Rightarrow> ('r, 'p) outcome option" where
  "uplink_without_downlink e current_time_s m =
     (case lr1_stack_mac_tx_radio_start e m of
        Inl i \<Rightarrow> Some (Inl i)
      | Inr m1 \<Rightarrow> lr1_stack_mac_update e current_time_s (m1\<lparr>rp := rp m\<rparr>))"

fun uplinks :: "('r, 'p) env \<Rightarrow> u32 \<Rightarrow> nat \<Rightarrow> ('r, 'p) mac \<Rightarrow> ('r, 'p) outcome option" where
  "uplinks e current_time_s 0 m = Some (Inr m)"
| "uplinks e current_time_s (Suc n) m =
     (case uplink_without_downlink e current_time_s m of
        Some (Inr m') \<Rightarrow> uplinks e current_time_s n m'
      | r \<Rightarrow> r)"

text \<open>A joined device sending unconfirmed uplinks at data rate \<open>dr\<close>.\<close>

definition joined_mac :: "u8 \<Rightarrow> (unit, rp_task_t option) mac" where
  "joined_mac dr =
     scenario_mac\<lparr>join_status := JOINED, tx_data_rate_adr := dr, tx_data_rate := dr,
                  tx_mtype := UNCONF_DATA_UP, nb_trans_cpt := 1\<rparr>"

text \<open>The data rate and \<^verbatim>\<open>adr_ack_cnt\<close> over one unanswered uplink on this platform.\<close>

definition adr_step :: "u8 \<times> int \<Rightarrow> u8 \<times> int" where
  "adr_step x =
     (case x of (dr, c) \<Rightarrow>
        if c + 1 \<ge> 96 then
          (let dr' = (if dr > 0 then dr - 1 else dr)
           in (dr', if dr' \<noteq> 0 then 64 else c + 1))
        else (dr, c + 1))"

text \<open>
  What the ADR fallback needs of the regional layer, whose functions are parameters:
  the minimum data rate is \<open>dmin\<close>, \<^verbatim>\<open>smtc_real_dr_decrement\<close> does what the
  specification says of it, and \<^verbatim>\<open>smtc_real_next_dr_get\<close> leaves the ADR state and the
  pending MAC answers alone.
\<close>

definition real_adr_contract :: "('r, 'p) env \<Rightarrow> u8 \<Rightarrow> bool" where
  "real_adr_contract e dmin \<longleftrightarrow>
     (\<forall>m. smtc_real_min_dr_channel_get e m = dmin) \<and>
     (\<forall>m. smtc_real_dr_decrement e m = spec_dr_decrement dmin m) \<and>
     (\<forall>m. adr_ack_cnt (smtc_real_next_dr_get e m) = adr_ack_cnt m \<and>
          adr_ack_cnt_confirmed_frame (smtc_real_next_dr_get e m) = adr_ack_cnt_confirmed_frame m \<and>
          adr_ack_limit (smtc_real_next_dr_get e m) = adr_ack_limit m \<and>
          adr_ack_delay (smtc_real_next_dr_get e m) = adr_ack_delay m \<and>
          tx_data_rate_adr (smtc_real_next_dr_get e m) = tx_data_rate_adr m \<and>
          type_of_ans_to_send (smtc_real_next_dr_get e m) = type_of_ans_to_send m \<and>
          tx_fopts_length (smtc_real_next_dr_get e m) = tx_fopts_length m \<and>
          tx_fopts_lengthsticky (smtc_real_next_dr_get e m) = tx_fopts_lengthsticky m)"

text \<open>The part of the MAC state that the ADR scenario depends on.\<close>

definition adr_inv :: "(unit, rp_task_t option) mac \<Rightarrow> u8 \<times> int \<Rightarrow> bool" where
  "adr_inv m x \<longleftrightarrow>
     adr_view m = x \<and> adr_ack_cnt_confirmed_frame m = 0 \<and> join_status m = JOINED \<and>
     tx_mtype m \<noteq> CONF_DATA_UP \<and> tx_fopts_length m = 0 \<and> tx_fopts_lengthsticky m = 0 \<and>
     rp m = None"

text \<open>
  A downlink command stream for the scenarios: a \<^verbatim>\<open>DevStatusReq\<close>, a byte that is no
  command identifier, and another \<^verbatim>\<open>DevStatusReq\<close>.
\<close>

definition unknown_cid_mac :: "(unit, rp_task_t option) mac" where
  "unknown_cid_mac =
     (joined_mac 5)\<lparr>nwk_payload := [0x06, 0xFF, 0x06] @ replicate 252 0, nwk_payload_size := 3\<rparr>"

text \<open>
  Receiving a command stream and answering it: the stream is placed in
  \<^verbatim>\<open>nwk_payload\<close> (as \<^verbatim>\<open>lr1_stack_mac_rx_frame_decode\<close> does), parsed, and the MAC
  object is updated for the next uplink.
\<close>

definition with_stream :: "('r, 'p) mac \<Rightarrow> u8 list \<Rightarrow> ('r, 'p) mac" where
  "with_stream m bytes =
     m\<lparr>nwk_payload := bytes @ replicate (255 - length bytes) 0,
       nwk_payload_size := of_nat (length bytes)\<rparr>"

definition parse_then_update ::
  "('r, 'p) env \<Rightarrow> u32 \<Rightarrow> ('r, 'p) mac \<Rightarrow> ('r, 'p) outcome option" where
  "parse_then_update e current_time_s m =
     (case lr1_stack_mac_cmd_parse e m of
        None \<Rightarrow> None
      | Some (status, m1) \<Rightarrow> lr1_stack_mac_update e current_time_s m1)"

definition and_then ::
  "('r, 'p) outcome option \<Rightarrow> (('r, 'p) mac \<Rightarrow> ('r, 'p) outcome option) \<Rightarrow> ('r, 'p) outcome option" where
  "and_then r f = (case r of Some (Inr m) \<Rightarrow> f m | _ \<Rightarrow> r)"

text \<open>
  Two downlinks in a row: the first asks for the device status (a 3-byte answer, sent
  in the FOpts of the next uplink), the second carries eight \<^verbatim>\<open>LinkADRReq\<close> blocks
  (16 bytes of answers).
\<close>

definition link_adr_req_block :: "u8 list" where
  "link_adr_req_block = [0x03, 0x50, 0xFF, 0x00, 0x01]"

definition after_dev_status_req :: "(unit, rp_task_t option) outcome option" where
  "after_dev_status_req = parse_then_update scenario_env 0 (with_stream (joined_mac 5) [0x06])"

definition parse_eight_link_adr_req ::
  "(unit, rp_task_t option) mac \<Rightarrow> (unit, rp_task_t option) outcome option" where
  "parse_eight_link_adr_req m =
     parse_then_update scenario_env 0
       (with_stream m (concat (replicate 8 link_adr_req_block)))"

definition after_eight_link_adr_req :: "(unit, rp_task_t option) outcome option" where
  "after_eight_link_adr_req = and_then after_dev_status_req parse_eight_link_adr_req"

text \<open>What the frame left in \<^verbatim>\<open>tx_payload\<close> says about itself.\<close>

definition frame_view ::
  "('r, 'p) mac \<Rightarrow> type_of_ans_to_send_t \<times> u8 \<times> u8 \<times> u8 \<times> u8" where
  "frame_view m =
     (type_of_ans_to_send m, tx_fport m, nwk_ans_size m,
      rd (tx_payload m) 5 AND 0x0F, tx_fopts_current_length m)"

text \<open>
  A session with device address \<open>0x26011BDA\<close> whose last accepted downlink had the
  frame counter \<open>0xA0\<close>, and two unconfirmed data downlinks with the 16-bit counter
  \<open>0x00A1\<close>, port 1 and one payload byte: one with the MIC the platform's stand-in
  \<^verbatim>\<open>check_mic\<close> accepts (address plus counter), one with a MIC of zeros.
\<close>

definition with_rx_frame :: "('r, 'p) mac \<Rightarrow> u8 list \<Rightarrow> ('r, 'p) mac" where
  "with_rx_frame m bytes =
     m\<lparr>rx_payload := bytes @ replicate (255 - length bytes) 0,
       rx_payload_size := of_nat (length bytes)\<rparr>"

definition session_mac :: "(unit, rp_task_t option) mac" where
  "session_mac = (joined_mac 5)\<lparr>dev_addr := 0x26011BDA, fcnt_dwn := 0x000000A0, adr_ack_cnt := 7\<rparr>"

definition genuine_frame :: "u8 list" where
  "genuine_frame =
     [0x60, 0xDA, 0x1B, 0x01, 0x26, 0x00, 0xA1, 0x00, 0x01, 0x42, 0x7B, 0x1C, 0x01, 0x26]"

definition forged_frame :: "u8 list" where
  "forged_frame =
     [0x60, 0xDA, 0x1B, 0x01, 0x26, 0x00, 0xA1, 0x00, 0x01, 0x42, 0x00, 0x00, 0x00, 0x00]"

definition rx_view :: "rx_packet_type_t \<times> ('r, 'p) mac \<Rightarrow> user_rx_packet_type_t \<times> u32 \<times> int" where
  "rx_view r = (available_app_packet (snd r), fcnt_dwn (snd r), adr_ack_cnt (snd r))"

text \<open>A device with its identifiers provisioned, about to join.\<close>

definition provisioned_mac :: "(unit, rp_task_t option) mac" where
  "provisioned_mac =
     scenario_mac\<lparr>app_eui := [0x70, 0xB3, 0xD5, 0x7E, 0xD0, 0x00, 0x12, 0x34],
                  dev_eui := [0x00, 0x16, 0xC0, 0x01, 0xF0, 0x00, 0xAB, 0xCD],
                  dev_nonce := 0x01FF\<rparr>"

text \<open>
  A command stream of 67 \<^verbatim>\<open>DevStatusReq\<close> followed by a byte that is no command
  identifier: the 67 answers take 201 bytes.
\<close>

definition many_status_reqs_mac :: "(unit, rp_task_t option) mac" where
  "many_status_reqs_mac = with_stream (joined_mac 5) (replicate 67 0x06 @ [0xFF])"

text \<open>
  The uplink has ended at \<open>t0\<close> = 5000 ms and the first receive window is to be
  prepared: RX1 delay 1 s, SF7 at 125 kHz, on a platform with a crystal error of 10
  per thousand and a board delay of 7 ms.
\<close>

definition rx1_window_mac :: "(unit, rp_task_t option) mac" where
  "rx1_window_mac =
     scenario_mac\<lparr>radio_process_state := RADIOSTATE_TXFINISHED, isr_radio_timestamp := 5000,
                  rx1_delay_s := 1, rx1_sf := 7, rx1_bw := BW125, rx1_modulation_type := LORA,
                  rx1_frequency := 868100000\<rparr>"

definition window_view :: "('r, 'p) outcome \<Rightarrow> (lr1mac_radio_state_t \<times> int \<times> 'p) option" where
  "window_view r =
     (case r of Inr m \<Rightarrow> Some (radio_process_state m, sint (rx_offset_ms m), rp m)
              | Inl i \<Rightarrow> None)"

definition rx1_window_computed :: "(unit, rp_task_t option) mac" where
  "rx1_window_computed = rx1_window_mac\<lparr>rx_offset_ms := 15, rx_window_symb := 24, rx_timeout_ms := 25\<rparr>"

text \<open>The window width and the signed offset that the computation leaves.\<close>

definition rx_window_view :: "('r, 'p) outcome \<Rightarrow> (nat \<times> int) option" where
  "rx_window_view r =
     (case r of Inr m \<Rightarrow> Some (unat (rx_window_symb m), sint (rx_offset_ms m))
              | Inl i \<Rightarrow> None)"

section \<open>Properties\<close>

subsection \<open>Frame counter windowing\<close>

lemma fcnt_lsb_uint: "uint (ucast (s AND 0x0000FFFF :: u32) :: u16) = uint s mod 65536"
proof -
  have "(s AND 0x0000FFFF) = s mod 65536"
    by (simp add: take_bit_eq_mask mask_eq_exp_minus_1
        flip: take_bit_eq_mod[where n=16, simplified])
  then show ?thesis
    by (simp add: unsigned_ucast_eq take_bit_eq_mod uint_mod)
qed

text \<open>
  C1. For every stored 32-bit counter \<open>s\<close> and received 16-bit counter \<open>r\<close>,
  \<^verbatim>\<open>fcnt_dwn_accept\<close> accepts \<open>r\<close> itself when \<open>s\<close> is the sentinel \<open>0xFFFFFFFF\<close>;
  otherwise, when \<open>r\<close> exceeds the low half of \<open>s\<close>, it accepts the high half of \<open>s\<close>
  plus \<open>r\<close>; otherwise, when the low half of \<open>s\<close> exceeds \<open>r\<close> by more than 16384,
  it accepts the high half of \<open>s\<close> plus \<open>2^16\<close> plus \<open>r\<close> (32-bit arithmetic);
  otherwise it reports an error and leaves \<open>s\<close> as it was. In particular the stored
  value \<open>0x0000FFFE\<close> and the received value \<open>0x0001\<close> give \<open>0x00010001\<close>.
\<close>

theorem fcnt_dwn_accept_cases:
  "fcnt_dwn_accept r s =
     (if s = 0xFFFFFFFF then (OKLORAWAN, ucast r)
      else if uint r > uint s mod 2 ^ 16 then (OKLORAWAN, (s AND 0xFFFF0000) + ucast r)
      else if uint s mod 2 ^ 16 - uint r > 16384
        then (OKLORAWAN, (s AND 0xFFFF0000) + 2 ^ 16 + ucast r)
      else (ERRORLORAWAN, s))
   \<and> fcnt_dwn_accept 0x0001 0x0000FFFE = (OKLORAWAN, 0x00010001)"
  by (simp add: fcnt_dwn_accept_def Let_def fcnt_lsb_uint MAX_FCNT_GAP_def)

theorem fcnt_dwn_accept_cases_witness:
  "fcnt_dwn_accept 0x009F 0x000000A0 = (ERRORLORAWAN, 0x000000A0)
   \<and> fcnt_dwn_accept 0x0005 0xFFFFFFFF = (OKLORAWAN, 0x00000005)
   \<and> fcnt_dwn_accept 0x00A1 0x000000A0 = (OKLORAWAN, 0x000000A1)
   \<and> fcnt_dwn_accept 0x0001 0x0000FFFE = (OKLORAWAN, 0x00010001)"
  using fcnt_dwn_accept_cases [of "0x009F" "0x000000A0"]
    fcnt_dwn_accept_cases [of "0x0005" "0xFFFFFFFF"]
    fcnt_dwn_accept_cases [of "0x00A1" "0x000000A0"]
  by simp

subsection \<open>Duty-cycle gate\<close>

text \<open>
  C7. The time left is claimed to be \<open>max(0, time_off - (now - timestamp))\<close> with the
  elapsed time taken modulo \<open>2^32\<close>. With an off-time of 100 ms stamped at
  \<open>0xFFFFFFF0\<close> and the clock wrapped to 5, 21 ms have elapsed and 79 ms are left;
  the function returns 80, because past the wrap it computes
  \<open>0xFFFFFFFF - timestamp + now\<close>, one less than the elapsed time.
\<close>

theorem duty_cycle_wrap_off_by_one:
  "lr1_stack_network_next_free_duty_cycle_ms_get 5
     (scenario_mac\<lparr>tx_duty_cycle_time_off_ms := 100,
                    tx_duty_cycle_timestamp_ms := 0xFFFFFFF0\<rparr>) = 80
   \<and> max 0 (uint (100 :: u32) - uint (5 - 0xFFFFFFF0 :: u32)) = 79"
  by (simp add: lr1_stack_network_next_free_duty_cycle_ms_get_def)

subsection \<open>Starting the transmission\<close>

text \<open>
  C9. When the MAC hook is registered with the planner,
  \<^verbatim>\<open>lr1_stack_mac_tx_radio_start\<close> returns, and exactly when the planner accepts the
  task the radio state becomes \<^verbatim>\<open>RADIOSTATE_TXON\<close> and one ADR counter is incremented:
  \<^verbatim>\<open>adr_ack_cnt_confirmed_frame\<close> for a confirmed uplink, \<^verbatim>\<open>adr_ack_cnt\<close> otherwise.
  When the planner refuses the task, both counters and the radio state are unchanged.
\<close>

theorem tx_radio_start_counters:
  assumes "rp_hook_get_id e (rp m) = (RP_HOOK_STATUS_OK, h)"
  shows "\<exists>m'. lr1_stack_mac_tx_radio_start e m = Inr m' \<and>
     (if fst (rp_task_enqueue e (rp m) (tx_rp_task h m) (tx_payload m) (tx_payload_size m)
                (tx_radio_params m)) = RP_HOOK_STATUS_OK
      then radio_process_state m' = RADIOSTATE_TXON \<and>
           (if tx_mtype m = CONF_DATA_UP
            then adr_ack_cnt_confirmed_frame m' = adr_ack_cnt_confirmed_frame m + 1 \<and>
                 adr_ack_cnt m' = adr_ack_cnt m
            else adr_ack_cnt m' = adr_ack_cnt m + 1 \<and>
                 adr_ack_cnt_confirmed_frame m' = adr_ack_cnt_confirmed_frame m)
      else radio_process_state m' = radio_process_state m \<and>
           adr_ack_cnt m' = adr_ack_cnt m \<and>
           adr_ack_cnt_confirmed_frame m' = adr_ack_cnt_confirmed_frame m)"
proof -
  obtain st p' where enq:
    "rp_task_enqueue e (rp m) (tx_rp_task h m) (tx_payload m) (tx_payload_size m)
       (tx_radio_params m) = (st, p')"
    by (cases "rp_task_enqueue e (rp m) (tx_rp_task h m) (tx_payload m) (tx_payload_size m)
       (tx_radio_params m)")
  show ?thesis
  proof (cases "st = RP_HOOK_STATUS_OK")
    case True
    then show ?thesis using assms enq
      by (cases "tx_mtype m = CONF_DATA_UP")
         (simp_all add: lr1_stack_mac_tx_radio_start_def Let_def)
  next
    case False
    then show ?thesis using assms enq
      by (simp add: lr1_stack_mac_tx_radio_start_def Let_def)
  qed
qed

lemmas scenario_mac_defs =
  scenario_mac_def lr1_stack_mac_init_def lr1_stack_mac_session_init_def zeroed_mac_def

theorem tx_radio_start_counters_witness:
  "rp_hook_get_id scenario_env (rp scenario_mac) = (RP_HOOK_STATUS_OK, 0) \<and>
   (\<exists>m'. lr1_stack_mac_tx_radio_start scenario_env scenario_mac = Inr m' \<and>
      radio_process_state m' = RADIOSTATE_TXON \<and> adr_ack_cnt m' = 1 \<and>
      adr_ack_cnt_confirmed_frame m' = 0)"
proof -
  have h: "rp_hook_get_id scenario_env (rp scenario_mac) = (RP_HOOK_STATUS_OK, 0)"
    by (simp add: scenario_env_def)
  have enq: "fst (rp_task_enqueue scenario_env (rp scenario_mac) (tx_rp_task 0 scenario_mac)
      (tx_payload scenario_mac) (tx_payload_size scenario_mac) (tx_radio_params scenario_mac))
      = RP_HOOK_STATUS_OK"
    by (simp add: scenario_env_def scenario_mac_defs slot_enqueue_def Let_def)
  have vals: "tx_mtype scenario_mac \<noteq> CONF_DATA_UP" "adr_ack_cnt scenario_mac = 0"
    "adr_ack_cnt_confirmed_frame scenario_mac = 0"
    by (simp_all add: scenario_mac_defs Let_def CONF_DATA_UP_def)
  show ?thesis
    using tx_radio_start_counters [OF h] enq vals h by auto
qed

subsection \<open>ADR fallback\<close>

lemma update_adr_fallback_state:
  assumes c: "real_adr_contract e dmin"
    and L: "L = smtc_real_adr_ack_limit_get e m"
    and D: "D = smtc_real_adr_ack_delay_get e (m\<lparr>adr_ack_limit := L\<rparr>)"
    and D0: "0 \<le> D"
    and ge: "adr_ack_cnt m \<ge> L + D"
    and conf: "adr_ack_cnt_confirmed_frame m < ADR_LIMIT_CONF_UP e"
    and nolost: "adr_ack_cnt m + adr_ack_cnt_confirmed_frame m < NO_RX_PACKET_CNT e"
    and fo: "unat (tx_fopts_length m) + unat (tx_fopts_lengthsticky m) \<le> 15"
  shows "\<exists>m'. lr1_stack_mac_update e t m = Some (Inr m') \<and>
     tx_data_rate_adr m' =
       (if tx_data_rate_adr m > dmin then tx_data_rate_adr m - 1 else tx_data_rate_adr m) \<and>
     adr_ack_cnt m' = (if tx_data_rate_adr m' \<noteq> dmin then L else adr_ack_cnt m)"
proof -
  define m0 where
    "m0 = m\<lparr>adr_ack_limit := L, adr_ack_delay := D, type_of_ans_to_send := NOFRAME_TOSEND\<rparr>"
  define m1 where
    "m1 = (if join_status m0 = NOT_JOINED then update_join_duty_cycle e t m0
           else smtc_real_next_dr_get e m0)"
  define m2 where "m2 = update_adr_ack_req m1"
  define m3 where "m3 = update_adr_fallback e m2"
  define m4 where "m4 = update_conf_fallback e m3"
  have f1: "adr_ack_cnt m1 = adr_ack_cnt m"
    "adr_ack_cnt_confirmed_frame m1 = adr_ack_cnt_confirmed_frame m"
    "adr_ack_limit m1 = L" "adr_ack_delay m1 = D" "tx_data_rate_adr m1 = tx_data_rate_adr m"
    "tx_fopts_length m1 = tx_fopts_length m" "tx_fopts_lengthsticky m1 = tx_fopts_lengthsticky m"
    "type_of_ans_to_send m1 = NOFRAME_TOSEND"
    using c
    by (simp_all add: m1_def m0_def real_adr_contract_def update_join_duty_cycle_def Let_def)
  have f2: "adr_ack_cnt m2 = adr_ack_cnt m"
    "adr_ack_cnt_confirmed_frame m2 = adr_ack_cnt_confirmed_frame m"
    "adr_ack_limit m2 = L" "adr_ack_delay m2 = D" "tx_data_rate_adr m2 = tx_data_rate_adr m"
    "tx_fopts_length m2 = tx_fopts_length m" "tx_fopts_lengthsticky m2 = tx_fopts_lengthsticky m"
    "type_of_ans_to_send m2 = NOFRAME_TOSEND"
    using f1 by (simp_all add: m2_def update_adr_ack_req_def Let_def)
  have f3: "tx_data_rate_adr m3 =
       (if tx_data_rate_adr m > dmin then tx_data_rate_adr m - 1 else tx_data_rate_adr m)"
    "adr_ack_cnt m3 = (if tx_data_rate_adr m3 \<noteq> dmin then L else adr_ack_cnt m)"
    "adr_ack_cnt_confirmed_frame m3 = adr_ack_cnt_confirmed_frame m"
    "tx_fopts_length m3 = tx_fopts_length m" "tx_fopts_lengthsticky m3 = tx_fopts_lengthsticky m"
    "type_of_ans_to_send m3 = NOFRAME_TOSEND"
    using f2 c ge
    by (simp_all add: m3_def update_adr_fallback_def real_adr_contract_def
        spec_dr_decrement_def Let_def)
  have f4: "m4 = m3"
    using f3 conf by (simp add: m4_def update_conf_fallback_def)
  have le: "adr_ack_cnt m3 \<le> adr_ack_cnt m"
    using f3(2) ge D0 by (simp split: if_splits)
  have nl: "\<not> adr_ack_cnt m4 + adr_ack_cnt_confirmed_frame m4 \<ge> NO_RX_PACKET_CNT e"
    using f4 f3 le nolost by simp
  define m5 where "m5 = update_fopts e (update_nb_trans m4)"
  have f5: "type_of_ans_to_send m5 \<noteq> NWKFRAME_TOSEND"
    "tx_data_rate_adr m5 = tx_data_rate_adr m3" "adr_ack_cnt m5 = adr_ack_cnt m3"
    using f4 f3 fo by (simp_all add: m5_def update_fopts_def update_nb_trans_def Let_def)
  have upd: "lr1_stack_mac_update e t m =
     (if adr_ack_cnt m4 + adr_ack_cnt_confirmed_frame m4 \<ge> NO_RX_PACKET_CNT e then
           Some (Inl MCU_HANDLE_LR1MAC_ISSUE)
         else map_option Inr (update_answer e m5))"
    unfolding lr1_stack_mac_update_def m5_def m4_def m3_def m2_def m1_def m0_def L D Let_def
    by simp
  have "update_answer e m5 = Some m5"
    using f5(1) by (cases "type_of_ans_to_send m5") (simp_all add: update_answer_def)
  with upd nl have "lr1_stack_mac_update e t m = Some (Inr m5)" by simp
  then show ?thesis using f5 f3 by simp
qed

lemma scenario_contract: "real_adr_contract scenario_env 0"
  by (simp add: real_adr_contract_def scenario_env_def)

lemma scenario_update:
  assumes inv: "adr_inv m (dr, c)" and c: "c < 2400"
  shows "\<exists>m'. lr1_stack_mac_update scenario_env t m = Some (Inr m') \<and>
      adr_inv m'
        (if c \<ge> 96 then
           (if dr > 0 then dr - 1 else dr, if (if dr > 0 then dr - 1 else dr) \<noteq> 0 then 64 else c)
         else (dr, c))"
proof -
  define e where "e = scenario_env"
  define m0 where
    "m0 = m\<lparr>adr_ack_limit := 64, adr_ack_delay := 32, type_of_ans_to_send := NOFRAME_TOSEND\<rparr>"
  define m1 where "m1 = smtc_real_next_dr_get e m0"
  define m2 where "m2 = update_adr_ack_req m1"
  define m3 where "m3 = update_adr_fallback e m2"
  define m4 where "m4 = update_conf_fallback e m3"
  define m5 where "m5 = update_fopts e (update_nb_trans m4)"
  have g: "smtc_real_adr_ack_limit_get e = (\<lambda>m. 64)" "smtc_real_adr_ack_delay_get e = (\<lambda>m. 32)"
    "smtc_real_next_dr_get e = (\<lambda>m. m\<lparr>tx_data_rate := tx_data_rate_adr m\<rparr>)"
    "smtc_real_dr_decrement e = spec_dr_decrement 0" "smtc_real_min_dr_channel_get e = (\<lambda>m. 0)"
    "ADR_LIMIT_CONF_UP e = 4" "NO_RX_PACKET_CNT e = 2400"
    by (simp_all add: e_def scenario_env_def)
  have i: "tx_data_rate_adr m = dr" "adr_ack_cnt m = c" "adr_ack_cnt_confirmed_frame m = 0"
    "join_status m = JOINED" "tx_mtype m \<noteq> CONF_DATA_UP" "tx_fopts_length m = 0"
    "tx_fopts_lengthsticky m = 0" "rp m = None"
    using inv by (simp_all add: adr_inv_def adr_view_def)
  have f1: "tx_data_rate_adr m1 = dr" "adr_ack_cnt m1 = c" "adr_ack_cnt_confirmed_frame m1 = 0"
    "join_status m1 = JOINED" "tx_mtype m1 \<noteq> CONF_DATA_UP" "tx_fopts_length m1 = 0"
    "tx_fopts_lengthsticky m1 = 0" "rp m1 = None" "adr_ack_limit m1 = 64" "adr_ack_delay m1 = 32"
    "type_of_ans_to_send m1 = NOFRAME_TOSEND"
    using i by (simp_all add: m1_def m0_def g)
  have f2: "tx_data_rate_adr m2 = dr" "adr_ack_cnt m2 = c" "adr_ack_cnt_confirmed_frame m2 = 0"
    "join_status m2 = JOINED" "tx_mtype m2 \<noteq> CONF_DATA_UP" "tx_fopts_length m2 = 0"
    "tx_fopts_lengthsticky m2 = 0" "rp m2 = None" "adr_ack_limit m2 = 64" "adr_ack_delay m2 = 32"
    "type_of_ans_to_send m2 = NOFRAME_TOSEND"
    using f1 by (simp_all add: m2_def update_adr_ack_req_def Let_def)
  have f3: "adr_view m3 = (if c \<ge> 96 then
           (if dr > 0 then dr - 1 else dr, if (if dr > 0 then dr - 1 else dr) \<noteq> 0 then 64 else c)
         else (dr, c))"
    "adr_ack_cnt_confirmed_frame m3 = 0"
    "join_status m3 = JOINED" "tx_mtype m3 \<noteq> CONF_DATA_UP" "tx_fopts_length m3 = 0"
    "tx_fopts_lengthsticky m3 = 0" "rp m3 = None"
    "type_of_ans_to_send m3 = NOFRAME_TOSEND"
    using f2
    by (simp_all add: m3_def update_adr_fallback_def g spec_dr_decrement_def Let_def adr_view_def)
  have f4: "m4 = m3"
    using f3 by (simp add: m4_def update_conf_fallback_def g)
  have le: "adr_ack_cnt m3 \<le> c"
    using f3(1) by (simp add: adr_view_def split: if_splits)
  have f5: "adr_view m5 = adr_view m3"
    "adr_ack_cnt_confirmed_frame m5 = 0"
    "join_status m5 = JOINED" "tx_mtype m5 \<noteq> CONF_DATA_UP" "tx_fopts_length m5 = 0"
    "tx_fopts_lengthsticky m5 = 0" "rp m5 = None"
    "type_of_ans_to_send m5 \<noteq> NWKFRAME_TOSEND"
    using f3(2-) unfolding f4 m5_def
    by (simp_all add: update_fopts_def update_nb_trans_def Let_def adr_view_def)
  have upd: "lr1_stack_mac_update e t m =
     (if adr_ack_cnt m4 + adr_ack_cnt_confirmed_frame m4 \<ge> NO_RX_PACKET_CNT e then
           Some (Inl MCU_HANDLE_LR1MAC_ISSUE)
         else map_option Inr (update_answer e m5))"
    unfolding lr1_stack_mac_update_def m5_def m4_def m3_def m2_def m1_def m0_def Let_def
    using i(4) by (simp add: g)
  have "update_answer e m5 = Some m5"
    using f5(8) by (cases "type_of_ans_to_send m5") (simp_all add: update_answer_def)
  moreover have "\<not> adr_ack_cnt m4 + adr_ack_cnt_confirmed_frame m4 \<ge> NO_RX_PACKET_CNT e"
    using le c f3(2) by (simp add: f4 g)
  ultimately have "lr1_stack_mac_update e t m = Some (Inr m5)"
    using upd by simp
  moreover have "adr_inv m5 (if c \<ge> 96 then
           (if dr > 0 then dr - 1 else dr, if (if dr > 0 then dr - 1 else dr) \<noteq> 0 then 64 else c)
         else (dr, c))"
    unfolding adr_inv_def using f5 f3(1) by simp
  ultimately show ?thesis by (simp add: e_def)
qed

lemma scenario_cycle:
  assumes "adr_inv m (dr, c)" "c + 1 < 2400"
  shows "\<exists>m'. uplink_without_downlink scenario_env t m = Some (Inr m') \<and>
      adr_inv m' (adr_step (dr, c))"
proof -
  have tx: "lr1_stack_mac_tx_radio_start scenario_env m =
      Inr (m\<lparr>send_at_time := False, rp := Some (tx_rp_task 0 m),
             radio_process_state := RADIOSTATE_TXON, adr_ack_cnt := c + 1\<rparr>)"
    using assms
    by (simp add: lr1_stack_mac_tx_radio_start_def scenario_env_def slot_enqueue_def adr_inv_def
        adr_view_def Let_def)
  define m1 where "m1 = m\<lparr>send_at_time := False,
             radio_process_state := RADIOSTATE_TXON, adr_ack_cnt := c + 1, rp := None\<rparr>"
  have up: "uplink_without_downlink scenario_env t m = lr1_stack_mac_update scenario_env t m1"
    using assms(1) by (simp add: uplink_without_downlink_def tx m1_def adr_inv_def)
  have m1: "adr_inv m1 (dr, c + 1)"
    using assms(1) by (simp add: m1_def adr_inv_def adr_view_def)
  have st: "adr_step (dr, c) = (if c + 1 \<ge> 96 then
           (if dr > 0 then dr - 1 else dr,
            if (if dr > 0 then dr - 1 else dr) \<noteq> 0 then 64 else c + 1)
         else (dr, c + 1))"
    by (simp add: adr_step_def Let_def)
  show ?thesis
    unfolding up st using scenario_update [OF m1 assms(2), of t] .
qed

lemma scenario_uplinks:
  "adr_inv m x \<Longrightarrow> (\<forall>k<n. snd ((adr_step ^^ k) x) + 1 < 2400) \<Longrightarrow>
   \<exists>m'. uplinks scenario_env t n m = Some (Inr m') \<and> adr_inv m' ((adr_step ^^ n) x)"
proof (induction n arbitrary: m x)
  case 0
  then show ?case by simp
next
  case (Suc n)
  obtain dr c where x: "x = (dr, c)" by (cases x)
  from Suc.prems(2) have "snd ((adr_step ^^ 0) x) + 1 < 2400" by blast
  then have c: "c + 1 < 2400" by (simp add: x)
  from scenario_cycle [OF Suc.prems(1) [unfolded x] c, of t]
  obtain m1 where m1: "uplink_without_downlink scenario_env t m = Some (Inr m1)"
    and inv1: "adr_inv m1 (adr_step x)" by (auto simp: x)
  have "\<forall>k<n. snd ((adr_step ^^ k) (adr_step x)) + 1 < 2400"
  proof (intro allI impI)
    fix k assume "k < n"
    then have "snd ((adr_step ^^ Suc k) x) + 1 < 2400" using Suc.prems(2) by blast
    then show "snd ((adr_step ^^ k) (adr_step x)) + 1 < 2400"
      by (simp add: funpow_swap1)
  qed
  from Suc.IH [OF inv1 this]
  obtain m' where "uplinks scenario_env t n m1 = Some (Inr m')"
    and "adr_inv m' ((adr_step ^^ n) (adr_step x))" by blast
  then show ?case by (simp add: m1 funpow_swap1)
qed

lemma adr_step_snd: "snd (adr_step (d, c)) \<le> max (c + 1) 64"
  by (simp add: adr_step_def Let_def)

lemma adr_step_cnt_le: "snd ((adr_step ^^ k) (dr, c)) \<le> max c 64 + int k"
proof (induction k)
  case 0
  then show ?case by simp
next
  case (Suc k)
  obtain d' c' where s: "(adr_step ^^ k) (dr, c) = (d', c')"
    by (cases "(adr_step ^^ k) (dr, c)")
  have "snd ((adr_step ^^ Suc k) (dr, c)) = snd (adr_step (d', c'))"
    by (simp add: s)
  also have "\<dots> \<le> max (c' + 1) 64" by (rule adr_step_snd)
  also have "\<dots> \<le> max c 64 + int (Suc k)"
    using Suc s by simp
  finally show ?case .
qed

lemma adr_step_saturated: "95 \<le> c \<Longrightarrow> (adr_step ^^ k) (0, c) = (0, c + int k)"
  by (induction k) (simp_all add: adr_step_def)

lemma adr_step_96: "(adr_step ^^ 96) (5, 0) = (4, 64)"
  by code_simp

lemma adr_step_224: "(adr_step ^^ 224) (5, 0) = (0, 96)"
  by code_simp

lemma joined_mac_inv: "adr_inv (joined_mac dr) (dr, 0)"
  by (simp add: adr_inv_def adr_view_def joined_mac_def scenario_mac_defs Let_def
      UNCONF_DATA_UP_def CONF_DATA_UP_def)

text \<open>
  C4, as the claim states it: \<^verbatim>\<open>adr_ack_cnt\<close> would go back to \<^verbatim>\<open>ADR_ACK_LIMIT\<close>
  whenever the data rate was actually decreased. On the reference platform, at data
  rate 1 with \<^verbatim>\<open>adr_ack_cnt\<close> = 96, the update lowers the data rate to 0 and leaves
  \<^verbatim>\<open>adr_ack_cnt\<close> at 96: the guard compares the new data rate with the minimum.
\<close>

theorem adr_clamp_counterexample:
  "outcome_of adr_view
     (lr1_stack_mac_update scenario_env 0 ((joined_mac 1)\<lparr>adr_ack_cnt := 96\<rparr>)) = Some (0, 96)"
proof -
  have inv: "adr_inv ((joined_mac 1)\<lparr>adr_ack_cnt := 96\<rparr>) (1, 96)"
    using joined_mac_inv [of 1] by (simp add: adr_inv_def adr_view_def)
  have "(96 :: int) < 2400" by simp
  from scenario_update [OF inv this, of 0]
  show ?thesis
    by (auto simp: adr_inv_def outcome_of_def)
qed

text \<open>
  C4, amended. When \<^verbatim>\<open>adr_ack_cnt\<close> has reached \<^verbatim>\<open>ADR_ACK_LIMIT + ADR_ACK_DELAY\<close>
  (and neither the confirmed-frame fallback nor the link-loss limit is reached, and
  the pending MAC answers fit in the FOpts), \<^verbatim>\<open>lr1_stack_mac_update\<close> returns with the
  data rate decremented, not below the minimum, and with \<^verbatim>\<open>adr_ack_cnt\<close> set back to
  \<^verbatim>\<open>ADR_ACK_LIMIT\<close> exactly when the data rate after the decrement is not the
  minimum; otherwise \<^verbatim>\<open>adr_ack_cnt\<close> is kept. With \<^verbatim>\<open>ADR_ACK_LIMIT\<close> = 64,
  \<^verbatim>\<open>ADR_ACK_DELAY\<close> = 32, starting data rate 5 and minimum 0: after 96 unanswered
  unconfirmed uplinks the data rate is 4 and \<^verbatim>\<open>adr_ack_cnt\<close> is 64; after 224 the
  data rate is 0, and from then on \<^verbatim>\<open>adr_ack_cnt\<close> grows by one with every uplink
  (until the link-loss limit, 2400 here).
\<close>

theorem adr_fallback_update:
  assumes "real_adr_contract e dmin"
    and "L = smtc_real_adr_ack_limit_get e m"
    and "D = smtc_real_adr_ack_delay_get e (m\<lparr>adr_ack_limit := L\<rparr>)"
    and "0 \<le> D"
    and "adr_ack_cnt m \<ge> L + D"
    and "adr_ack_cnt_confirmed_frame m < ADR_LIMIT_CONF_UP e"
    and "adr_ack_cnt m + adr_ack_cnt_confirmed_frame m < NO_RX_PACKET_CNT e"
    and "unat (tx_fopts_length m) + unat (tx_fopts_lengthsticky m) \<le> 15"
  shows "(\<exists>m'. lr1_stack_mac_update e t m = Some (Inr m') \<and>
       tx_data_rate_adr m' =
         (if tx_data_rate_adr m > dmin then tx_data_rate_adr m - 1 else tx_data_rate_adr m) \<and>
       adr_ack_cnt m' = (if tx_data_rate_adr m' \<noteq> dmin then L else adr_ack_cnt m))
     \<and> outcome_of adr_view (uplinks scenario_env t 96 (joined_mac 5)) = Some (4, 64)
     \<and> (\<forall>k\<le>2303. outcome_of adr_view (uplinks scenario_env t (224 + k) (joined_mac 5))
            = Some (0, 96 + int k))"
proof (intro conjI allI impI)
  show "\<exists>m'. lr1_stack_mac_update e t m = Some (Inr m') \<and>
       tx_data_rate_adr m' =
         (if tx_data_rate_adr m > dmin then tx_data_rate_adr m - 1 else tx_data_rate_adr m) \<and>
       adr_ack_cnt m' = (if tx_data_rate_adr m' \<noteq> dmin then L else adr_ack_cnt m)"
    using assms by (rule update_adr_fallback_state)
next
  have "\<forall>k<96. snd ((adr_step ^^ k) (5, 0)) + 1 < 2400"
  proof (intro allI impI)
    fix k :: nat assume "k < 96"
    then show "snd ((adr_step ^^ k) (5, 0)) + 1 < 2400"
      using adr_step_cnt_le [of k 5 0] by simp
  qed
  from scenario_uplinks [OF joined_mac_inv this, of t]
  show "outcome_of adr_view (uplinks scenario_env t 96 (joined_mac 5)) = Some (4, 64)"
    by (auto simp: adr_step_96 adr_inv_def outcome_of_def)
next
  fix k :: nat assume k: "k \<le> 2303"
  have val: "(adr_step ^^ j) (5, 0) = (0, 96 + int (j - 224))" if "224 \<le> j" for j
  proof -
    from that have "j = (j - 224) + 224" by simp
    then have "(adr_step ^^ j) (5, 0) = (adr_step ^^ (j - 224)) ((adr_step ^^ 224) (5, 0))"
      by (metis funpow_add o_apply)
    then show ?thesis by (simp add: adr_step_224 adr_step_saturated)
  qed
  have "\<forall>j<224 + k. snd ((adr_step ^^ j) (5, 0)) + 1 < 2400"
  proof (intro allI impI)
    fix j assume j: "j < 224 + k"
    show "snd ((adr_step ^^ j) (5, 0)) + 1 < 2400"
    proof (cases "224 \<le> j")
      case True
      then show ?thesis using val [OF True] j k by simp
    next
      case False
      then show ?thesis using adr_step_cnt_le [of j 5 0] by (simp add: max_def)
    qed
  qed
  from scenario_uplinks [OF joined_mac_inv this, of t]
  show "outcome_of adr_view (uplinks scenario_env t (224 + k) (joined_mac 5))
            = Some (0, 96 + int k)"
    by (auto simp: val adr_inv_def outcome_of_def)
qed

theorem adr_fallback_update_witness:
  "real_adr_contract scenario_env 0 \<and>
   outcome_of adr_view
     (lr1_stack_mac_update scenario_env 0 ((joined_mac 5)\<lparr>adr_ack_cnt := 96\<rparr>)) = Some (4, 64)
   \<and> outcome_of adr_view (uplinks scenario_env 0 (224 + 1000) (joined_mac 5)) = Some (0, 1096)"
proof -
  let ?m = "(joined_mac 5)\<lparr>adr_ack_cnt := 96\<rparr>"
  have L: "64 = smtc_real_adr_ack_limit_get scenario_env ?m"
    and D: "32 = smtc_real_adr_ack_delay_get scenario_env (?m\<lparr>adr_ack_limit := 64\<rparr>)"
    and c: "adr_ack_cnt_confirmed_frame ?m < ADR_LIMIT_CONF_UP scenario_env"
    and n: "adr_ack_cnt ?m + adr_ack_cnt_confirmed_frame ?m < NO_RX_PACKET_CNT scenario_env"
    and f: "unat (tx_fopts_length ?m) + unat (tx_fopts_lengthsticky ?m) \<le> 15"
    and g: "adr_ack_cnt ?m \<ge> 64 + 32"
    and dr: "tx_data_rate_adr ?m = 5"
    by (simp_all add: scenario_env_def joined_mac_def scenario_mac_defs Let_def)
  have z: "(0 :: int) \<le> 32" by simp
  note fb = adr_fallback_update [OF scenario_contract L D z g c n f, of 0]
  from fb obtain m' where
    "lr1_stack_mac_update scenario_env 0 ?m = Some (Inr m')"
    "tx_data_rate_adr m' = 4" "adr_ack_cnt m' = 64"
    by (auto simp: dr)
  then have a: "outcome_of adr_view (lr1_stack_mac_update scenario_env 0 ?m) = Some (4, 64)"
    by (simp add: outcome_of_def adr_view_def)
  from fb have "\<forall>k\<le>2303. outcome_of adr_view
      (uplinks scenario_env 0 (224 + k) (joined_mac 5)) = Some (0, 96 + int k)"
    by blast
  then have "outcome_of adr_view (uplinks scenario_env 0 (224 + 1000) (joined_mac 5))
      = Some (0, 96 + int 1000)"
    by (rule allE [where x = 1000]) simp
  then show ?thesis
    using scenario_contract a by simp
qed

subsection \<open>Unknown MAC commands\<close>

lemma cmd_parse_visits_loop:
  "cmd_parse_visits e m t \<Longrightarrow> cmd_parse_loop e m = cmd_parse_loop e t"
proof (induction rule: cmd_parse_visits.induct)
  case (visits_here m)
  show ?case by simp
next
  case (visits_next m t)
  have "cmd_parse_loop e m = cmd_parse_loop e (cmd_parse_switch e m)"
    using visits_next.hyps(1,2) by (subst cmd_parse_loop.simps) simp
  with visits_next.IH show ?case by simp
qed

lemma cmd_parse_switch_unknown:
  "\<not> recognized_cid (nwk_byte m 0) \<Longrightarrow> cmd_parse_switch e m = m\<lparr>nwk_payload_size := 0\<rparr>"
  by (simp add: cmd_parse_switch_def recognized_cid_def Let_def)

text \<open>
  C10, as the claim states it: for every command stream, an unrecognised byte at a
  command boundary would end the parse with \<^verbatim>\<open>OKLORAWAN\<close> and
  \<^verbatim>\<open>nwk_payload_size\<close> = 0. After 67 \<^verbatim>\<open>DevStatusReq\<close> the answers take 201
  bytes; the loop then stands at the boundary of the byte \<open>0xFF\<close>, finds
  \<^verbatim>\<open>tx_fopts_length\<close> above 200 and returns \<^verbatim>\<open>ERRORLORAWAN\<close> without reading the
  byte, with \<^verbatim>\<open>nwk_payload_size\<close> still 68.
\<close>

theorem cmd_parse_unknown_cid_counterexample:
  "rd (nwk_payload many_status_reqs_mac) 67 = 0xFF \<and> \<not> recognized_cid 0xFF \<and>
   map_option fst (lr1_stack_mac_cmd_parse scenario_env many_status_reqs_mac)
     = Some ERRORLORAWAN \<and>
   map_option (nwk_payload_size \<circ> snd) (lr1_stack_mac_cmd_parse scenario_env many_status_reqs_mac)
     = Some 68 \<and>
   map_option (nwk_payload_index \<circ> snd) (lr1_stack_mac_cmd_parse scenario_env many_status_reqs_mac)
     = Some 67 \<and>
   map_option (tx_fopts_length \<circ> snd) (lr1_stack_mac_cmd_parse scenario_env many_status_reqs_mac)
     = Some 201"
  by code_simp

text \<open>
  C10, amended. Whatever the command stream, when the loop of
  \<^verbatim>\<open>lr1_stack_mac_cmd_parse\<close> comes to a command boundary inside the stream with no
  more than 200 bytes of answers built so far (\<^verbatim>\<open>tx_fopts_length\<close> \<open>\<le>\<close> 200, so that it
  goes on to read the identifier there) and the byte it reads is none of the nine
  identifiers, the function returns \<^verbatim>\<open>OKLORAWAN\<close> with the MAC object as it was at
  that boundary, except that \<^verbatim>\<open>nwk_payload_size\<close> is 0: that byte and the rest of the
  stream are not processed.
\<close>

theorem cmd_parse_unknown_cid:
  assumes "cmd_parse_visits e
      (m\<lparr>nwk_payload_index := 0, nwk_ans_size := 0, tx_fopts_length := 0,
         tx_fopts_lengthsticky := 0\<rparr>) t"
    and "nwk_payload_size t > nwk_payload_index t"
    and "\<not> tx_fopts_length t > 200"
    and "\<not> recognized_cid (nwk_byte t 0)"
  shows "lr1_stack_mac_cmd_parse e m = Some (OKLORAWAN, t\<lparr>nwk_payload_size := 0\<rparr>)"
proof -
  have "lr1_stack_mac_cmd_parse e m = cmd_parse_loop e t"
    unfolding lr1_stack_mac_cmd_parse_def using assms(1) by (rule cmd_parse_visits_loop)
  also have "\<dots> = cmd_parse_loop e (t\<lparr>nwk_payload_size := 0\<rparr>)"
    using assms(2,3) cmd_parse_switch_unknown [OF assms(4), of e]
    by (subst cmd_parse_loop.simps) simp
  also have "\<dots> = Some (OKLORAWAN, t\<lparr>nwk_payload_size := 0\<rparr>)"
    by (subst cmd_parse_loop.simps) simp
  finally show ?thesis .
qed

theorem cmd_parse_unknown_cid_witness:
  "map_option fst (lr1_stack_mac_cmd_parse scenario_env unknown_cid_mac) = Some OKLORAWAN \<and>
   map_option (nwk_payload_size \<circ> snd) (lr1_stack_mac_cmd_parse scenario_env unknown_cid_mac) = Some 0 \<and>
   map_option (nwk_payload_index \<circ> snd) (lr1_stack_mac_cmd_parse scenario_env unknown_cid_mac) = Some 1 \<and>
   map_option (tx_fopts_length \<circ> snd) (lr1_stack_mac_cmd_parse scenario_env unknown_cid_mac) = Some 3"
proof -
  define m0 where "m0 = unknown_cid_mac\<lparr>nwk_payload_index := 0, nwk_ans_size := 0,
      tx_fopts_length := 0, tx_fopts_lengthsticky := 0\<rparr>"
  define t where "t = cmd_parse_switch scenario_env m0"
  have b0: "nwk_byte m0 0 = DEV_STATUS_REQ" "nwk_payload_size m0 = 3" "nwk_payload_index m0 = 0"
    "tx_fopts_length m0 = 0"
    by (simp_all add: m0_def unknown_cid_mac_def nwk_byte_def rd_def DEV_STATUS_REQ_def)
  have t_eq: "t = dev_status_parser scenario_env m0"
    by (simp add: t_def cmd_parse_switch_def b0 DEV_STATUS_REQ_def LINK_CHECK_ANS_def
        LINK_ADR_REQ_def DUTY_CYCLE_REQ_def RXPARRAM_SETUP_REQ_def)
  have tv: "nwk_payload_size t = 3" "nwk_payload_index t = 1" "tx_fopts_length t = 3"
    "nwk_payload t = nwk_payload m0"
    by (simp_all add: t_eq dev_status_parser_def Let_def b0 DEV_STATUS_ANS_SIZE_def
        DEV_STATUS_REQ_SIZE_def)
  have bt: "nwk_byte t 0 = 0xFF"
    by (simp add: nwk_byte_def tv rd_def) (simp add: m0_def unknown_cid_mac_def)
  have v: "cmd_parse_visits scenario_env m0 t"
    unfolding t_def
    by (rule visits_next) (simp_all add: b0 visits_here)
  have h2: "nwk_payload_size t > nwk_payload_index t" and h3: "\<not> tx_fopts_length t > 200"
    by (simp_all add: tv)
  have h4: "\<not> recognized_cid (nwk_byte t 0)"
    by (simp add: bt recognized_cid_def LINK_CHECK_ANS_def LINK_ADR_REQ_def DUTY_CYCLE_REQ_def
        RXPARRAM_SETUP_REQ_def DEV_STATUS_REQ_def NEW_CHANNEL_REQ_def RXTIMING_SETUP_REQ_def
        TXPARAM_SETUP_REQ_def DL_CHANNEL_REQ_def)
  from cmd_parse_unknown_cid [OF v [unfolded m0_def] h2 h3 h4]
  show ?thesis by (simp add: tv)
qed

subsection \<open>MAC answers that do not fit in the FOpts\<close>

lemma update_fopts_current_length:
  "tx_fopts_current_length m \<le> 15 \<Longrightarrow> tx_fopts_current_length (update_fopts e m) \<le> 15"
proof (cases "unat (tx_fopts_length m) + unat (tx_fopts_lengthsticky m) > 15")
  case True
  assume "tx_fopts_current_length m \<le> 15"
  with True show ?thesis by (simp add: update_fopts_def Let_def)
next
  case False
  then have "unat (tx_fopts_lengthsticky m + tx_fopts_length m) \<le> 15"
    by (simp add: unat_word_ariths)
  then have "tx_fopts_lengthsticky m + tx_fopts_length m \<le> 15"
    by (simp add: word_le_nat_alt)
  with False show ?thesis by (simp add: update_fopts_def Let_def)
qed

text \<open>
  C3. More than 15 bytes of pending MAC answers are claimed to go out as the payload
  of a frame on port 0 whose FOptsLen is 0. A device answers a \<^verbatim>\<open>DevStatusReq\<close>: the
  update leaves \<^verbatim>\<open>tx_fopts_current_length\<close> = 3 for the next uplink. The next
  downlink carries eight \<^verbatim>\<open>LinkADRReq\<close> blocks, 16 bytes of answers: the update
  builds a frame on port 0 for them, and the FOptsLen in the FCtrl byte of that frame
  is 3, the length left over from the uplink before. The branch for more than 15
  bytes does not reset \<^verbatim>\<open>tx_fopts_current_length\<close>, which the frame builder uses.
\<close>

theorem nwk_frame_stale_fopts_length:
  "outcome_of frame_view after_dev_status_req = Some (NOFRAME_TOSEND, 0, 0, 0, 3) \<and>
   outcome_of frame_view after_eight_link_adr_req = Some (NWKFRAME_TOSEND, 0, 16, 3, 3)"
  by code_simp

subsection \<open>Frame counter and MIC of a downlink\<close>

lemma rx_valid_frame_fcnt_dwn: "fcnt_dwn (snd (rx_valid_frame e m)) = fcnt_dwn m"
  by (simp add: rx_valid_frame_def Let_def)

lemma rx_fhdr_extract_fcnt_dwn:
  "fcnt_dwn (snd (snd (rx_fhdr_extract m a))) = fcnt_dwn m"
  by (simp add: rx_fhdr_extract_def Let_def)

text \<open>
  What the decoder leaves in \<^verbatim>\<open>fcnt_dwn\<close> for a data frame that passes the size,
  message type and address checks: the counter computed by \<^verbatim>\<open>fcnt_dwn_accept\<close>,
  whatever \<^verbatim>\<open>check_mic\<close> answers afterwards.
\<close>

lemma rx_frame_decode_fcnt_dwn:
  assumes "rx_payload_size_check e m = OKLORAWAN"
    and "rx_mhdr_extract m = (OKLORAWAN, m1)"
    and "rx_mtype m1 \<noteq> JOIN_ACCEPT"
    and "rx_fhdr_extract m1 (dev_addr m1) = (OKLORAWAN, r, m2)"
  shows "fcnt_dwn (snd (lr1_stack_mac_rx_frame_decode e m)) = snd (fcnt_dwn_accept r (fcnt_dwn m))"
proof -
  have f1: "fcnt_dwn m1 = fcnt_dwn m"
    using assms(2) by (auto simp: rx_mhdr_extract_def Let_def)
  have f2: "fcnt_dwn m2 = fcnt_dwn m1"
    using rx_fhdr_extract_fcnt_dwn [of m1 "dev_addr m1"] assms(4) by simp
  obtain st c where acc: "fcnt_dwn_accept r (fcnt_dwn m2) = (st, c)"
    by (cases "fcnt_dwn_accept r (fcnt_dwn m2)")
  show ?thesis
    using assms acc f1 f2
    by (simp add: lr1_stack_mac_rx_frame_decode_def Let_def OKLORAWAN_def
        rx_valid_frame_fcnt_dwn split: prod.splits)
qed

text \<open>
  C2. The stored counter is claimed to change only when the MIC check succeeds. The
  session holds \<^verbatim>\<open>fcnt_dwn\<close> = \<open>0xA0\<close>. A frame with the counter \<open>0x00A1\<close> and a
  wrong MIC is rejected (no packet is made available, \<^verbatim>\<open>adr_ack_cnt\<close> stays 7), yet
  \<^verbatim>\<open>fcnt_dwn\<close> is \<open>0xA1\<close> afterwards; the genuine frame with that counter, which is
  accepted when it comes first, is then rejected as a replay.
\<close>

theorem rx_frame_decode_commits_before_mic:
  "fcnt_dwn session_mac = 0xA0 \<and>
   rx_view (lr1_stack_mac_rx_frame_decode scenario_env (with_rx_frame session_mac forged_frame))
     = (NO_LORA_RXPACKET_AVAILABLE, 0xA1, 7) \<and>
   rx_view (lr1_stack_mac_rx_frame_decode scenario_env (with_rx_frame session_mac genuine_frame))
     = (LORA_RX_PACKET_AVAILABLE, 0xA1, 0) \<and>
   rx_view (lr1_stack_mac_rx_frame_decode scenario_env
      (with_rx_frame
         (snd (lr1_stack_mac_rx_frame_decode scenario_env (with_rx_frame session_mac forged_frame)))
         genuine_frame))
     = (NO_LORA_RXPACKET_AVAILABLE, 0xA1, 7)"
  by code_simp

subsection \<open>Byte buffers\<close>

lemma length_fold_update [simp]:
  "length (fold (\<lambda>i p. p[f i := a i]) xs p) = length (p :: 'a list)"
  by (induction xs arbitrary: p) simp_all

lemma length_fold_update2 [simp]:
  "length (fold (\<lambda>i p. p[f i := a i, g i := d i]) xs p) = length (p :: 'a list)"
  by (induction xs arbitrary: p) simp_all

lemma length_memcpy [simp]: "length (memcpy dst doff src soff n) = length dst"
  by (simp add: memcpy_def)

lemma nth_memcpy:
  "j < length dst \<Longrightarrow>
   memcpy dst doff src soff n ! j =
     (if doff \<le> j \<and> j < doff + n then rd src (soff + (j - doff)) else dst ! j)"
  unfolding memcpy_def
proof (induction n)
  case 0
  then show ?case by auto
next
  case (Suc n)
  then show ?case by (auto simp: nth_list_update less_Suc_eq)
qed

lemma slice_eq_take: "off + n \<le> length b \<Longrightarrow> slice b off n = take n (drop off b)"
  by (rule nth_equalityI) (simp_all add: slice_def rd_def)

lemma take_memcpy: "n \<le> doff \<Longrightarrow> take n (memcpy dst doff src soff k) = take n dst"
  by (rule nth_equalityI) (simp_all add: nth_memcpy)

lemma drop_memcpy:
  "doff + k \<le> length dst \<Longrightarrow> length src = k \<Longrightarrow>
   take k (drop doff (memcpy dst doff src 0 k)) = src"
  by (rule nth_equalityI) (simp_all add: nth_memcpy rd_def)

lemma nth_fold_eui:
  "j < length p \<Longrightarrow> n \<le> 8 \<Longrightarrow>
   fold (\<lambda>i p. p[Suc i := a i, 9 + i := d i]) [0..<n] p ! j =
     (if 9 \<le> j \<and> j < 9 + n then d (j - 9)
      else if 1 \<le> j \<and> j < 1 + n then a (j - 1) else (p :: 'a list) ! j)"
proof (induction n)
  case 0
  then show ?case by auto
next
  case (Suc n)
  have "j = 9 + n \<or> j = Suc n \<or> (j \<noteq> 9 + n \<and> j \<noteq> Suc n)" by blast
  then show ?case using Suc by (elim disjE) (auto simp: less_Suc_eq)
qed

lemma join_eui_copy_length [simp]: "length (join_eui_copy p A D) = length p"
  by (simp add: join_eui_copy_def)

lemma join_eui_copy_nth:
  assumes "j < length p"
  shows "join_eui_copy p A D ! j =
     (if 9 \<le> j \<and> j < 9 + 8 then rd D (7 - (j - 9))
      else if 1 \<le> j \<and> j < 1 + 8 then rd A (7 - (j - 1)) else p ! j)"
proof -
  have "join_eui_copy p A D = fold (\<lambda>i p. p[Suc i := rd A (7 - i), 9 + i := rd D (7 - i)]) [0..<8] p"
    unfolding join_eui_copy_def by (simp only: plus_1_eq_Suc)
  then show ?thesis
    using nth_fold_eui [OF assms, of 8 "\<lambda>i. rd A (7 - i)" "\<lambda>i. rd D (7 - i)"] by simp
qed

lemma eui_frame:
  assumes "19 \<le> length p" "length A = 8" "length D = 8"
  shows "take 19 ((join_eui_copy (p[0 := h]) A D)[17 := lo, 18 := hi])
           = [h] @ rev A @ rev D @ [lo, hi]"
proof (rule nth_equalityI)
  define F where "F = join_eui_copy (p[0 := h]) A D"
  have lenF: "length F = length p"
    by (simp add: F_def)
  show "length (take 19 ((join_eui_copy (p[0 := h]) A D)[17 := lo, 18 := hi]))
      = length ([h] @ rev A @ rev D @ [lo, hi])"
    using assms by simp
  fix i
  assume "i < length (take 19 ((join_eui_copy (p[0 := h]) A D)[17 := lo, 18 := hi]))"
  then have i: "i < 19" by simp
  have ip: "i < length (p[0 := h])" using i assms(1) by simp
  note nF = join_eui_copy_nth [OF ip, of A D, folded F_def]
  have p0: "0 < length p" using assms(1) by linarith
  consider "i = 0" | "1 \<le> i \<and> i < 9" | "9 \<le> i \<and> i < 17" | "i = 17" | "i = 18"
    using i by linarith
  then have "take 19 (F[17 := lo, 18 := hi]) ! i = ([h] @ rev A @ rev D @ [lo, hi]) ! i"
  proof cases
    case 1
    then show ?thesis using lenF nF p0 by simp
  next
    case 2
    have "rev A ! (i - 1) = A ! (length A - Suc (i - 1))"
      by (rule rev_nth) (use 2 assms(2) in linarith)
    moreover have "length A - Suc (i - 1) = 7 - (i - 1)" "7 - (i - 1) < length A"
      using 2 assms(2) by linarith+
    ultimately have "rd A (7 - (i - 1)) = rev A ! (i - 1)"
      by (simp add: rd_def)
    moreover have "i - 1 < 8" "i \<noteq> 0" "\<not> 9 \<le> i" "i \<noteq> 17" "i \<noteq> 18"
      using 2 by linarith+
    ultimately show ?thesis using assms(2,3) i lenF 2
      by (simp add: nF nth_append nth_Cons')
  next
    case 3
    have "rev D ! (i - 9) = D ! (length D - Suc (i - 9))"
      by (rule rev_nth) (use 3 assms(3) in linarith)
    moreover have "length D - Suc (i - 9) = 7 - (i - 9)" "7 - (i - 9) < length D"
      using 3 assms(3) by linarith+
    ultimately have "rd D (7 - (i - 9)) = rev D ! (i - 9)"
      by (simp add: rd_def)
    moreover have "i - 9 < 8" "i \<noteq> 0" "\<not> i - 1 < 8" "i - 1 - 8 = i - 9" "i \<noteq> 17" "i \<noteq> 18"
      using 3 by linarith+
    ultimately show ?thesis using assms(2,3) i lenF 3
      by (simp add: nF nth_append nth_Cons')
  next
    case 4
    then show ?thesis using assms lenF by (simp add: nth_append)
  next
    case 5
    then show ?thesis using assms lenF by (simp add: nth_append)
  qed
  then show "take 19 ((join_eui_copy (p[0 := h]) A D)[17 := lo, 18 := hi]) ! i
      = ([h] @ rev A @ rev D @ [lo, hi]) ! i"
    by (simp add: F_def)
qed

subsection \<open>Join request\<close>

lemma join_request_frame_payload:
  assumes "23 \<le> length (tx_payload m)" "length (app_eui m) = 8" "length (dev_eui m) = 8"
    and "tx_major_bits m AND 0x3 = 0"
    and "F = [0x00] @ rev (app_eui m) @ rev (dev_eui m) @
             [ucast ((dev_nonce m + 1) AND 0x00FF), ucast (drop_bit 8 ((dev_nonce m + 1) AND 0xFF00))]"
  shows "take 19 (tx_payload (join_request_frame e m)) = F"
    and "take 4 (drop 19 (tx_payload (join_request_frame e m)))
           = le32_bytes (join_compute_mic e F (app_key m))"
proof -
  define p2 where "p2 = (join_eui_copy ((tx_payload m)[0 := 0]) (app_eui m) (dev_eui m))
      [17 := ucast ((dev_nonce m + 1) AND 0x00FF),
       18 := ucast (drop_bit 8 ((dev_nonce m + 1) AND 0xFF00))]"
  have len: "length p2 = length (tx_payload m)" by (simp add: p2_def)
  have t19: "take 19 p2 = F"
    unfolding p2_def assms(5)
    by (rule eui_frame) (use assms in simp_all)
  have sl: "slice p2 0 19 = F"
    using slice_eq_take [of 0 19 p2] len assms(1) t19 by simp
  have pl: "tx_payload (join_request_frame e m)
      = memcpy p2 19 (le32_bytes (join_compute_mic e (slice p2 0 19) (app_key m))) 0 4"
    using assms(4)
    by (simp add: join_request_frame_def Let_def mac_header_set_def JOIN_REQUEST_def p2_def)
  show "take 19 (tx_payload (join_request_frame e m)) = F"
    by (simp add: pl take_memcpy t19)
  show "take 4 (drop 19 (tx_payload (join_request_frame e m)))
           = le32_bytes (join_compute_mic e F (app_key m))"
    unfolding pl sl
    by (rule drop_memcpy) (use len assms(1) in \<open>simp_all add: le32_bytes_def\<close>)
qed

lemma nonce_low_byte: "(ucast ((n :: u16) AND 0x00FF) :: u8) = ucast n"
proof -
  have "n AND 0x00FF = take_bit 8 n"
    by (simp add: take_bit_eq_mask mask_eq_exp_minus_1)
  moreover have "(ucast (take_bit 8 n) :: u8) = ucast n"
    by (rule bit_word_eqI) (auto simp: bit_simps)
  ultimately show ?thesis by simp
qed

lemma nonce_high_byte: "(ucast (drop_bit 8 ((n :: u16) AND 0xFF00)) :: u8) = ucast (drop_bit 8 n)"
proof -
  have "drop_bit 8 (0xFF00 :: u16) = 0x00FF"
    by (simp add: drop_bit_eq_div)
  then have "drop_bit 8 (n AND 0xFF00) = drop_bit 8 n AND 0x00FF"
    by (simp only: drop_bit_and)
  then show ?thesis
    by (simp only: nonce_low_byte)
qed

text \<open>
  C8, as the claim states it: the MIC would be computed over 18 bytes. On the reference
  platform the stand-in for \<^verbatim>\<open>join_compute_mic\<close> returns the number of bytes it is
  given: the MIC placed in the frame is 19, and the MIC of either run of 18 bytes (the
  first 18 bytes of the frame, or the 18 bytes after the MHDR) would be 18.
\<close>

theorem join_request_mic_counterexample:
  "le32_at (tx_payload (lr1_stack_mac_join_request_build scenario_env provisioned_mac)) 19 = 19 \<and>
   join_compute_mic scenario_env
     (slice (tx_payload (lr1_stack_mac_join_request_build scenario_env provisioned_mac)) 0 18)
     (app_key provisioned_mac) = 18 \<and>
   join_compute_mic scenario_env
     (slice (tx_payload (lr1_stack_mac_join_request_build scenario_env provisioned_mac)) 1 18)
     (app_key provisioned_mac) = 18"
  by code_simp

text \<open>
  C8, amended. With the major version bits at \<^verbatim>\<open>LORAWANR1\<close> (as
  \<^verbatim>\<open>lr1_stack_mac_init\<close> sets them) and 8-byte identifiers,
  \<^verbatim>\<open>lr1_stack_mac_join_request_build\<close> increments \<^verbatim>\<open>dev_nonce\<close>, leaves a frame of 23
  bytes in \<^verbatim>\<open>tx_payload\<close> that is MHDR \<open>0x00\<close>, AppEUI and DevEUI with their bytes
  reversed, the new DevNonce low byte first, and the four bytes (low byte first) of the
  MIC that \<^verbatim>\<open>join_compute_mic\<close> computes with the AppKey over the preceding 19
  bytes, MHDR included; it then calls \<^verbatim>\<open>smtc_real_memory_save\<close> on the object that
  holds the new DevNonce.
\<close>

theorem join_request_build_frame:
  assumes "23 \<le> length (tx_payload m)" "length (app_eui m) = 8" "length (dev_eui m) = 8"
    and "tx_major_bits m = LORAWANR1"
  shows "lr1_stack_mac_join_request_build e m = smtc_real_memory_save e (join_request_frame e m) \<and>
     dev_nonce (join_request_frame e m) = dev_nonce m + 1 \<and>
     tx_payload_size (join_request_frame e m) = 23 \<and>
     (let F = [0x00] @ rev (app_eui m) @ rev (dev_eui m) @
              [ucast (dev_nonce m + 1), ucast (drop_bit 8 (dev_nonce m + 1))]
      in length F = 19 \<and>
         take 23 (tx_payload (join_request_frame e m))
           = F @ le32_bytes (join_compute_mic e F (app_key m)))"
proof -
  define F where "F = [0x00] @ rev (app_eui m) @ rev (dev_eui m) @
              [ucast (dev_nonce m + 1), ucast (drop_bit 8 (dev_nonce m + 1)) :: u8]"
  have F': "F = [0x00] @ rev (app_eui m) @ rev (dev_eui m) @
             [ucast ((dev_nonce m + 1) AND 0x00FF), ucast (drop_bit 8 ((dev_nonce m + 1) AND 0xFF00))]"
    by (simp only: F_def nonce_low_byte nonce_high_byte)
  have mb: "tx_major_bits m AND 0x3 = 0"
    using assms(4) by (simp add: LORAWANR1_def)
  note pl = join_request_frame_payload [OF assms(1-3) mb F', of e]
  have "take 23 (tx_payload (join_request_frame e m))
      = take 19 (tx_payload (join_request_frame e m))
        @ take 4 (drop 19 (tx_payload (join_request_frame e m)))"
    using take_add [of 19 4 "tx_payload (join_request_frame e m)"] by simp
  then have t23: "take 23 (tx_payload (join_request_frame e m))
      = F @ le32_bytes (join_compute_mic e F (app_key m))"
    by (simp only: pl)
  have lenF: "length F = 19"
    using assms(2,3) by (simp add: F_def)
  have n: "dev_nonce (join_request_frame e m) = dev_nonce m + 1"
    "tx_payload_size (join_request_frame e m) = 23"
    by (simp_all add: join_request_frame_def Let_def mac_header_set_def)
  show ?thesis
    using t23 lenF n
    by (simp add: lr1_stack_mac_join_request_build_def Let_def F_def)
qed

theorem join_request_build_frame_witness:
  "23 \<le> length (tx_payload provisioned_mac) \<and> length (app_eui provisioned_mac) = 8 \<and>
   length (dev_eui provisioned_mac) = 8 \<and> tx_major_bits provisioned_mac = LORAWANR1 \<and>
   dev_nonce (join_request_frame scenario_env provisioned_mac) = 0x0200 \<and>
   take 23 (tx_payload (join_request_frame scenario_env provisioned_mac)) =
     [0x00, 0x34, 0x12, 0x00, 0xD0, 0x7E, 0xD5, 0xB3, 0x70,
      0xCD, 0xAB, 0x00, 0xF0, 0x01, 0xC0, 0x16, 0x00, 0x00, 0x02, 0x13, 0x00, 0x00, 0x00]"
proof -
  have h: "23 \<le> length (tx_payload provisioned_mac)" "length (app_eui provisioned_mac) = 8"
    "length (dev_eui provisioned_mac) = 8" "tx_major_bits provisioned_mac = LORAWANR1"
    by (simp_all add: provisioned_mac_def scenario_mac_defs Let_def)
  have v: "app_eui provisioned_mac = [0x70, 0xB3, 0xD5, 0x7E, 0xD0, 0x00, 0x12, 0x34]"
    "dev_eui provisioned_mac = [0x00, 0x16, 0xC0, 0x01, 0xF0, 0x00, 0xAB, 0xCD]"
    "dev_nonce provisioned_mac = 0x01FF"
    by (simp_all add: provisioned_mac_def)
  have mic: "join_compute_mic scenario_env = (\<lambda>buf key. of_nat (length buf))"
    by (simp add: scenario_env_def)
  from join_request_build_frame [OF h, of scenario_env]
  show ?thesis
    using h by (simp add: Let_def v mic le32_bytes_def)
qed

subsection \<open>Rounding to double precision\<close>

lemma ilog2_bounds:
  "1 \<le> n \<Longrightarrow> 0 \<le> ilog2 n \<and> 2 ^ nat (ilog2 n) \<le> n \<and> n < 2 * 2 ^ nat (ilog2 n)"
proof (induction n rule: ilog2.induct)
  case (1 n)
  show ?case
  proof (cases "n \<le> 1")
    case True
    then have "ilog2 n = 0" by (subst ilog2.simps) simp
    with True 1(2) show ?thesis by simp
  next
    case False
    have eq: "ilog2 n = 1 + ilog2 (n div 2)"
      using False by (subst ilog2.simps) simp
    have "1 \<le> n div 2" using False by simp
    with 1(1) False have IH: "0 \<le> ilog2 (n div 2)" "2 ^ nat (ilog2 (n div 2)) \<le> n div 2"
      "n div 2 < 2 * 2 ^ nat (ilog2 (n div 2))"
      by simp_all
    define K where "K = nat (ilog2 (n div 2))"
    have nK: "nat (ilog2 n) = Suc K"
      unfolding eq K_def using IH(1) by simp
    have a: "2 * (n div 2) \<le> n" "n < 2 * (n div 2) + 2" by simp_all
    show ?thesis
      unfolding nK using IH(2,3) a eq IH(1) unfolding K_def [symmetric] by simp
  qed
qed

lemma binexp_bounds:
  assumes "x \<noteq> 0"
  shows "2 powi (binexp x) \<le> \<bar>x\<bar> \<and> \<bar>x\<bar> < 2 powi (binexp x + 1)"
proof -
  obtain a b where q: "quotient_of \<bar>x\<bar> = (a, b)" by (cases "quotient_of \<bar>x\<bar>")
  have b: "0 < b" using quotient_of_denom_pos [OF q] .
  have xab: "\<bar>x\<bar> = of_int a / of_int b" using quotient_of_div [OF q] .
  have "0 < \<bar>x\<bar>" using assms by simp
  then have a: "0 < a" unfolding xab using b by (simp add: zero_less_divide_iff)
  define A where "A = nat (ilog2 a)"
  define B where "B = nat (ilog2 b)"
  have ba: "0 \<le> ilog2 a" "2 ^ A \<le> a" "a < 2 * 2 ^ A"
    using ilog2_bounds [of a] a unfolding A_def by simp_all
  have bb: "0 \<le> ilog2 b" "2 ^ B \<le> b" "b < 2 * 2 ^ B"
    using ilog2_bounds [of b] b unfolding B_def by simp_all
  have ra: "(2 :: rat) ^ A \<le> of_int a" "(of_int a :: rat) < 2 * 2 ^ A"
    using ba(2,3) by (metis of_int_le_iff of_int_numeral of_int_power, metis of_int_less_iff of_int_numeral of_int_power of_int_mult)
  have rb: "(2 :: rat) ^ B \<le> of_int b" "(of_int b :: rat) < 2 * 2 ^ B"
    using bb(2,3) by (metis of_int_le_iff of_int_numeral of_int_power, metis of_int_less_iff of_int_numeral of_int_power of_int_mult)
  define e0 where "e0 = ilog2 a - ilog2 b"
  have iA: "ilog2 a = int A" "ilog2 b = int B"
    unfolding A_def B_def using ba(1) bb(1) by simp_all
  have e0: "(2 :: rat) powi e0 = 2 ^ A / 2 ^ B"
    unfolding e0_def iA by (simp add: power_int_diff)
  have bx: "binexp x = (if 2 powi e0 \<le> \<bar>x\<bar> then e0 else e0 - 1)"
    unfolding binexp_def q e0_def by (simp add: Let_def)
  have pb: "(0 :: rat) < of_int b" using b by simp
  have p2: "(0 :: rat) < 2 ^ B" "(0 :: rat) < 2 ^ A" by simp_all
  have up: "\<bar>x\<bar> < 2 * 2 powi e0"
  proof -
    have "of_int a / of_int b < (2 * 2 ^ A) / (2 ^ B :: rat)"
      using ra(2) rb(1) pb p2 a by (intro frac_less) simp_all
    then show ?thesis unfolding xab e0 by simp
  qed
  have lo: "2 powi e0 / 2 \<le> \<bar>x\<bar>"
  proof -
    have "(2 ^ A) / (2 * 2 ^ B :: rat) \<le> of_int a / of_int b"
      using ra(1) rb(2) pb p2 a by (intro frac_le) simp_all
    then show ?thesis unfolding xab e0 by simp
  qed
  have s1: "(2 :: rat) powi (e0 + 1) = 2 * 2 powi e0" by (simp add: power_int_add)
  have s2: "(2 :: rat) powi (e0 - 1) = 2 powi e0 / 2" by (simp add: power_int_diff)
  show ?thesis
    unfolding bx using up lo s1 s2 by (auto simp: not_le)
qed

lemma round_even_error: "\<bar>of_int (round_even q) - q\<bar> \<le> 1 / 2"
proof -
  have "of_int \<lfloor>q\<rfloor> \<le> q" "q < of_int \<lfloor>q\<rfloor> + 1" by linarith+
  then show ?thesis
    unfolding round_even_def Let_def by (auto simp: abs_le_iff)
qed

lemma double_round_error: "\<bar>double_round x - x\<bar> \<le> \<bar>x\<bar> / 2 ^ 53"
proof (cases "x = 0")
  case True
  then show ?thesis by (simp add: double_round_def)
next
  case False
  define ulp :: rat where "ulp = 2 powi (binexp x - 52)"
  have up: "0 < ulp" unfolding ulp_def by simp
  have dr: "double_round x = of_int (round_even (x / ulp)) * ulp"
    using False unfolding double_round_def ulp_def Let_def by simp
  have "double_round x - x = (of_int (round_even (x / ulp)) - x / ulp) * ulp"
    unfolding dr using up by (simp add: field_simps)
  then have "\<bar>double_round x - x\<bar> = \<bar>of_int (round_even (x / ulp)) - x / ulp\<bar> * ulp"
    using up by (simp add: abs_mult)
  also have "\<dots> \<le> (1 / 2) * ulp"
    using round_even_error [of "x / ulp"] up by (intro mult_right_mono) simp_all
  also have "\<dots> = 2 powi (binexp x) / 2 ^ 53"
    unfolding ulp_def by (simp add: power_int_diff)
  also have "\<dots> \<le> \<bar>x\<bar> / 2 ^ 53"
    using binexp_bounds [OF False] by (intro divide_right_mono) simp_all
  finally show ?thesis .
qed


lemma double_round_abs: "\<bar>x\<bar> \<le> B \<Longrightarrow> \<bar>double_round x - x\<bar> \<le> B / 9007199254740992"
proof -
  assume "\<bar>x\<bar> \<le> B"
  then have "\<bar>x\<bar> / 2 ^ 53 \<le> B / 2 ^ 53" by (intro divide_right_mono) simp_all
  with double_round_error [of x] show ?thesis by simp
qed

lemma rx_offset_error:
  fixes T n b :: rat
  assumes T: "0 \<le> T" "T \<le> 64" and n: "0 \<le> n" "n \<le> 65535" and b: "0 \<le> b" "b \<le> 255"
    and t: "t = double_round T"
  shows "\<bar>double_sub (double_sub (double_mul 4 t) (double_div (double_mul n t) 2)) b
          - (4 * T - n * T / 2 - b)\<bar> \<le> 1 / 134217728"
proof -
  have "\<bar>T\<bar> \<le> 64" using T by linarith
  then have e1: "\<bar>t - T\<bar> \<le> 64 / 9007199254740992"
    unfolding t by (rule double_round_abs)
  have t65: "\<bar>t\<bar> \<le> 65" using e1 T by linarith
  define A where "A = double_mul 4 t"
  have "\<bar>4 * t\<bar> \<le> 260" using t65 by linarith
  then have eA: "\<bar>A - 4 * t\<bar> \<le> 260 / 9007199254740992"
    unfolding A_def double_mul_def by (rule double_round_abs)
  have "\<bar>n\<bar> * \<bar>t\<bar> \<le> 65535 * 65"
    using n t65 by (intro mult_mono) simp_all
  then have nt: "\<bar>n * t\<bar> \<le> 4259775" by (simp add: abs_mult)
  have ntT: "\<bar>n * t - n * T\<bar> \<le> 4194240 / 9007199254740992"
  proof -
    have "\<bar>n * t - n * T\<bar> = \<bar>n\<bar> * \<bar>t - T\<bar>"
      by (simp add: abs_mult [symmetric] right_diff_distrib)
    also have "\<dots> \<le> 65535 * (64 / 9007199254740992)"
      using n e1 by (intro mult_mono) simp_all
    finally show ?thesis by simp
  qed
  define Bv where "Bv = double_mul n t"
  have eB: "\<bar>Bv - n * t\<bar> \<le> 4259775 / 9007199254740992"
    unfolding Bv_def double_mul_def using nt by (rule double_round_abs)
  define C where "C = double_div Bv 2"
  have bB: "\<bar>Bv / 2\<bar> \<le> 4259776" using eB nt by linarith
  have eC: "\<bar>C - Bv / 2\<bar> \<le> 4259776 / 9007199254740992"
    unfolding C_def double_div_def using bB by (rule double_round_abs)
  define D where "D = double_sub A C"
  have bD: "\<bar>A - C\<bar> \<le> 4260100" using eA eC bB t65 by linarith
  have eD: "\<bar>D - (A - C)\<bar> \<le> 4260100 / 9007199254740992"
    unfolding D_def double_sub_def using bD by (rule double_round_abs)
  define E where "E = double_sub D b"
  have bE: "\<bar>D - b\<bar> \<le> 4260400" using eD bD b by linarith
  have eE: "\<bar>E - (D - b)\<bar> \<le> 4260400 / 9007199254740992"
    unfolding E_def double_sub_def using bE by (rule double_round_abs)
  have h: "n * T / 2 = (n * T) / 2" by simp
  have "\<bar>E - (4 * T - n * T / 2 - b)\<bar> \<le> 1 / 134217728"
    using e1 eA eB ntT eC eD eE by linarith
  then show ?thesis
    unfolding E_def D_def C_def Bv_def A_def .
qed

lemma floor_near_grid:
  fixes X E' :: rat and q :: int
  assumes q: "0 < q" and grid: "X * of_int q = of_int z" and close: "\<bar>E' - X\<bar> < 1 / of_int q"
  shows "\<lfloor>E'\<rfloor> = \<lfloor>X\<rfloor> \<or> (of_int \<lfloor>X\<rfloor> = X \<and> \<lfloor>E'\<rfloor> = \<lfloor>X\<rfloor> - 1)"
proof -
  define f where "f = \<lfloor>X\<rfloor>"
  have fX: "of_int f \<le> X" "X < of_int f + 1" unfolding f_def by linarith+
  have qr: "(0 :: rat) < of_int q" "(1 :: rat) \<le> of_int q" using q by simp_all
  then have q1: "1 / (of_int q :: rat) \<le> 1" by simp
  show ?thesis
  proof (cases "of_int f = X")
    case True
    have "of_int f - 1 < E'" "E' < of_int f + 1"
      using close q1 True by linarith+
    then have "\<lfloor>E'\<rfloor> = f \<or> \<lfloor>E'\<rfloor> = f - 1" by linarith
    with True show ?thesis unfolding f_def by auto
  next
    case False
    then have lt: "of_int f < X" using fX by simp
    have "of_int f * of_int q < X * (of_int q :: rat)"
      using lt qr by (intro mult_strict_right_mono)
    then have "(of_int (f * q) :: rat) < of_int z"
      unfolding grid by (simp only: of_int_mult)
    then have "f * q < z" by (simp only: of_int_less_iff)
    then have z1: "f * q + 1 \<le> z" by linarith
    have "X * (of_int q :: rat) < (of_int f + 1) * of_int q"
      using fX(2) qr by (intro mult_strict_right_mono)
    then have "(of_int z :: rat) < of_int ((f + 1) * q)"
      unfolding grid by (simp only: of_int_mult of_int_add of_int_1)
    then have "z < (f + 1) * q" by (simp only: of_int_less_iff)
    then have z2: "z + 1 \<le> (f + 1) * q" by linarith
    have Xz: "X = of_int z / of_int q" using grid qr by (simp add: field_simps)
    have "(of_int (f * q + 1) :: rat) \<le> of_int z" using z1 by (simp only: of_int_le_iff)
    then have "(of_int (f * q + 1) :: rat) / of_int q \<le> X"
      unfolding Xz using qr by (intro divide_right_mono) simp_all
    then have lo: "of_int f + 1 / of_int q \<le> X"
      using qr by (simp add: field_simps)
    have "(of_int (z + 1) :: rat) \<le> of_int ((f + 1) * q)" using z2 by (simp only: of_int_le_iff)
    then have "(of_int (z + 1) :: rat) / of_int q \<le> of_int ((f + 1) * q) / of_int q"
      using qr by (intro divide_right_mono) simp_all
    moreover have "X + 1 / of_int q = (of_int (z + 1) :: rat) / of_int q"
      unfolding Xz by (simp add: add_divide_distrib)
    moreover have "(of_int ((f + 1) * q) :: rat) / of_int q = of_int f + 1"
      using qr by simp
    ultimately have hi: "X + 1 / of_int q \<le> of_int f + 1"
      by (simp only:)
    have "of_int f < E'" "E' < of_int f + 1"
      using close lo hi by linarith+
    then have "\<lfloor>E'\<rfloor> = f" by linarith
    then show ?thesis unfolding f_def by simp
  qed
qed

subsection \<open>Receive window parameters\<close>

lemma double_mul_window_bounds:
  fixes T n :: rat
  assumes T: "0 \<le> T" "T \<le> 64" and n: "0 \<le> n" "n \<le> 65535" and t: "t = double_round T"
  shows "- 1 < double_mul n t \<and> double_mul n t \<le> 4259776"
proof -
  have "\<bar>T\<bar> \<le> 64" using T by linarith
  then have e1: "\<bar>t - T\<bar> \<le> 64 / 9007199254740992"
    unfolding t by (rule double_round_abs)
  have t65: "\<bar>t\<bar> \<le> 65" using e1 T by linarith
  have "\<bar>n\<bar> * \<bar>t\<bar> \<le> 65535 * 65"
    using n t65 by (intro mult_mono) simp_all
  then have nt: "\<bar>n * t\<bar> \<le> 4259775" by (simp add: abs_mult)
  have ntT: "\<bar>n * t - n * T\<bar> \<le> 4194240 / 9007199254740992"
  proof -
    have "\<bar>n * t - n * T\<bar> = \<bar>n\<bar> * \<bar>t - T\<bar>"
      by (simp add: abs_mult [symmetric] right_diff_distrib)
    also have "\<dots> \<le> 65535 * (64 / 9007199254740992)"
      using n e1 by (intro mult_mono) simp_all
    finally show ?thesis by simp
  qed
  have nT: "0 \<le> n * T" using n T by simp
  have eB: "\<bar>double_mul n t - n * t\<bar> \<le> 4259775 / 9007199254740992"
    unfolding double_mul_def using nt by (rule double_round_abs)
  show ?thesis using eB nt ntT nT by linarith
qed


lemma bw_temp_of_range: "125 \<le> bw_temp_of b \<and> bw_temp_of b \<le> 1600"
  by (cases b) (simp_all add: bw_temp_of_def)

lemma unat_bw_temp_of: "unat (word_of_int (bw_temp_of b) :: u32) = nat (bw_temp_of b)"
  by (cases b) (simp_all add: bw_temp_of_def)

lemma rx_error_ms_of_unat:
  "unat (rx_error_ms_of c d) = (unat c * unat d mod 2 ^ 32) div 1000"
  by (simp add: rx_error_ms_of_def unat_div unat_word_ariths)

lemma unat_ucast_u8_u32: "unat (ucast (s :: u8) :: u32) = unat s"
proof -
  have "unat s < 256" using unsigned_less [of s, where 'a = nat] by simp
  then show ?thesis by (simp add: unsigned_ucast_eq take_bit_nat_eq_self_iff)
qed

lemma unat_window_sum:
  "unat (MAX_u32 ((2 * 6 - 8) + d + 1) 6) = max ((unat d + 5) mod 2 ^ 32) 6"
proof -
  have a: "(2 * 6 - 8 :: u32) + d + 1 = d + 5" by simp
  have five: "unat (5 :: u32) = 5" by simp
  have l: "(2 :: nat) ^ LENGTH(32) = 2 ^ 32" by simp
  have b: "unat (d + 5) = (unat d + 5) mod 2 ^ 32"
    by (simp only: unat_word_ariths(1) five l)
  have six: "unat (6 :: u32) = 6" by simp
  have c: "6 < d + 5 \<longleftrightarrow> 6 < unat (d + 5)"
    unfolding word_less_nat_alt six ..
  have "unat (MAX_u32 (d + 5) 6) = max (unat (d + 5)) 6"
  proof (cases "6 < d + 5")
    case True
    then have "MAX_u32 (d + 5) 6 = d + 5" by (simp only: MAX_u32_def if_True)
    with True c show ?thesis by (simp only: max_def) simp
  next
    case False
    then have "MAX_u32 (d + 5) 6 = 6" by (simp only: MAX_u32_def if_False)
    with False c six show ?thesis by (simp only: max_def) simp
  qed
  then show ?thesis unfolding a b .
qed

lemma unat_double_product:
  "unat (2 * E * (W :: u32)) = (2 * unat E * unat W) mod 2 ^ 32"
proof -
  have "unat (2 * E * W) = (unat (2 * E) * unat W) mod 2 ^ 32"
    by (simp add: unat_word_ariths)
  also have "unat (2 * E) = (2 * unat E) mod 2 ^ 32"
    by (simp add: unat_word_ariths)
  finally show ?thesis by (simp add: mod_mult_left_eq)
qed

lemma unat_drop_bit_div: "unat (drop_bit n (w :: u32)) = unat w div 2 ^ n"
  by (simp only: unat_drop_bit_eq) (simp only: drop_bit_eq_div)

lemma rx_window_symb_of_unat:
  "unat (rx_window_symb_of s b E md) =
     max (((case md of LORA \<Rightarrow> (2 * unat E * nat (bw_temp_of b)) mod 2 ^ 32 div 2 ^ unat s
                     | FSK \<Rightarrow> (2 * unat E * unat s) mod 2 ^ 32 div 2 ^ 3) + 5) mod 2 ^ 32) 6
       mod 2 ^ 16"
proof -
  have uc: "\<And>w :: u32. unat (ucast w :: u16) = unat w mod 2 ^ 16"
    by (simp add: unsigned_ucast_eq take_bit_eq_mod)
  show ?thesis
  proof (cases md)
    case LORA
    then show ?thesis
      unfolding rx_window_symb_of_def Let_def
      by (simp only: modulation_type_t.case uc unat_window_sum unat_drop_bit_div
           unat_double_product unat_bw_temp_of)
  next
    case FSK
    then show ?thesis
      unfolding rx_window_symb_of_def Let_def
      by (simp only: modulation_type_t.case uc unat_window_sum unat_drop_bit_div
           unat_double_product unat_ucast_u8_u32)
  qed
qed


lemma tsymbol_of_round:
  "tsymbol_of s b md =
     double_round (case md of LORA \<Rightarrow> 2 ^ unat s / of_int (bw_temp_of b)
                            | FSK \<Rightarrow> 8 / of_nat (unat s))"
  by (cases md) (simp_all add: tsymbol_of_def double_div_def)

lemma symbol_time_range:
  fixes T :: rat and sn :: nat
  assumes lora: "md = LORA \<Longrightarrow> sn \<le> 12"
    and fsk: "md = FSK \<Longrightarrow> sn \<noteq> 0"
    and T: "T = (case md of LORA \<Rightarrow> 2 ^ sn / of_int (bw_temp_of b) | FSK \<Rightarrow> 8 / of_nat sn)"
  shows "0 \<le> T \<and> T \<le> 64"
proof (cases md)
  case LORA
  have bw: "(125 :: rat) \<le> of_int (bw_temp_of b)"
    using bw_temp_of_range [of b] by (metis of_int_le_iff of_int_numeral)
  have "(2 :: rat) ^ sn \<le> 2 ^ 12"
    using lora [OF LORA] by (intro power_increasing) simp_all
  then have p: "(2 :: rat) ^ sn \<le> 4096" by simp
  have "(2 :: rat) ^ sn / of_int (bw_temp_of b) \<le> 4096 / 125"
    using p bw by (intro frac_le) simp_all
  then have "(2 :: rat) ^ sn / of_int (bw_temp_of b) \<le> 64" by linarith
  moreover have "(0 :: rat) \<le> 2 ^ sn / of_int (bw_temp_of b)"
    using bw by simp
  ultimately show ?thesis unfolding T LORA by (simp only: modulation_type_t.case)
next
  case FSK
  have "sn \<noteq> 0" using fsk [OF FSK] .
  then have "(1 :: rat) \<le> of_nat sn" by simp
  then have "(8 :: rat) / of_nat sn \<le> 8 / 1"
    by (intro frac_le) simp_all
  then have "(8 :: rat) / of_nat sn \<le> 64" by linarith
  moreover have "(0 :: rat) \<le> 8 / of_nat sn" by simp
  ultimately show ?thesis unfolding T FSK by (simp only: modulation_type_t.case)
qed

lemma offset_grid:
  fixes T X :: rat and sn :: nat
  assumes fsk: "md = FSK \<Longrightarrow> sn \<noteq> 0" and sn: "sn < 256"
    and T: "T = (case md of LORA \<Rightarrow> 2 ^ sn / of_int (bw_temp_of b) | FSK \<Rightarrow> 8 / of_nat sn)"
    and X: "X = of_nat N / 2 * T - 4 * T + of_nat bd"
  shows "\<exists>q z. 0 < q \<and> q \<le> 3200 \<and> X * of_int q = of_int z"
proof (cases md)
  case LORA
  define q where "q = 2 * bw_temp_of b"
  define z where "z = int N * 2 ^ sn - 8 * 2 ^ sn + 2 * bw_temp_of b * int bd"
  have q: "0 < q" "q \<le> 3200" using bw_temp_of_range [of b] unfolding q_def by simp_all
  have nz: "(of_int (bw_temp_of b) :: rat) \<noteq> 0" using bw_temp_of_range [of b] by simp
  have "X * of_int q = of_int z"
    unfolding X T LORA q_def z_def using nz by (simp add: field_simps)
  with q show ?thesis by blast
next
  case FSK
  define q where "q = 2 * int sn"
  define z where "z = int N * 8 - 64 + 2 * int sn * int bd"
  have s0: "sn \<noteq> 0" using fsk [OF FSK] .
  then have q: "0 < q" "q \<le> 3200" using sn unfolding q_def by simp_all
  have nz: "(of_nat sn :: rat) \<noteq> 0" using s0 by simp
  have "X * of_int q = of_int z"
    unfolding X T FSK q_def z_def using nz by (simp add: field_simps)
  with q show ?thesis by blast
qed


lemma rx_offset_double_value:
  fixes T X :: rat and w :: u16 and bd :: u8
  assumes T: "0 \<le> T" "T \<le> 64" and t: "t = double_round T"
    and q: "0 < q" "q \<le> 3200" and grid: "X * of_int q = of_int z"
    and X: "X = of_nat (unat w) / 2 * T - 4 * T + of_nat (unat bd)"
  shows "\<exists>k. rx_offset_double t w bd = of_int k \<and>
             (k = \<lfloor>X\<rfloor> \<or> of_int \<lfloor>X\<rfloor> = X \<and> k = \<lfloor>X\<rfloor> - 1) \<and>
             - (2 ^ 31) \<le> k \<and> k < 2 ^ 31"
proof -
  define nn where "nn = unat w"
  have nn: "nn \<le> 65535" using unsigned_less [of w, where 'a = nat] unfolding nn_def by simp
  define n :: rat where "n = of_nat nn"
  have n: "0 \<le> n" "n \<le> 65535" unfolding n_def using nn by simp_all
  define bn where "bn = unat bd"
  have bn: "bn \<le> 255" using unsigned_less [of bd, where 'a = nat] unfolding bn_def by simp
  define br :: rat where "br = of_nat bn"
  have br: "0 \<le> br" "br \<le> 255" unfolding br_def using bn by simp_all
  define E where "E = double_sub (double_sub (double_mul 4 t) (double_div (double_mul n t) 2)) br"
  have off: "rx_offset_double t w bd = of_int (- \<lceil>E\<rceil>)"
    unfolding rx_offset_double_def E_def n_def nn_def br_def bn_def by simp
  have err: "\<bar>E - (4 * T - n * T / 2 - br)\<bar> \<le> 1 / 134217728"
    unfolding E_def using T n br t by (rule rx_offset_error)
  have Xn: "X = n / 2 * T - 4 * T + br"
    unfolding X n_def nn_def br_def bn_def ..
  have Xe: "X = - (4 * T - n * T / 2 - br)" unfolding Xn by simp
  have qr: "(0 :: rat) < of_int q" "(of_int q :: rat) \<le> 3200"
    using q by simp_all
  have "1 / 3200 \<le> 1 / (of_int q :: rat)"
    using qr by (intro divide_left_mono) simp_all
  then have close: "\<bar>- E - X\<bar> < 1 / of_int q"
    using err unfolding Xe by linarith
  have fl: "\<lfloor>- E\<rfloor> = \<lfloor>X\<rfloor> \<or> (of_int \<lfloor>X\<rfloor> = X \<and> \<lfloor>- E\<rfloor> = \<lfloor>X\<rfloor> - 1)"
    using q(1) grid close by (rule floor_near_grid)
  have ce: "- \<lceil>E\<rceil> = \<lfloor>- E\<rfloor>" by (simp add: ceiling_def)
  have "0 \<le> n * T" using n T by simp
  moreover have "n * T \<le> 65535 * 64" using n T by (intro mult_mono) simp_all
  ultimately have Xb: "- 256 \<le> X" "X \<le> 2097375"
    unfolding Xn using T br by linarith+
  have Eb: "- 257 \<le> - E" "- E \<le> 2097376"
    using err Xb unfolding Xe by linarith+
  have "- 257 \<le> \<lfloor>- E\<rfloor>" "\<lfloor>- E\<rfloor> \<le> 2097376"
    using Eb by linarith+
  then have rng: "- (2 ^ 31) \<le> \<lfloor>- E\<rfloor>" "\<lfloor>- E\<rfloor> < 2 ^ 31" by simp_all
  show ?thesis
    using off fl rng unfolding ce by blast
qed

lemma rx_timeout_double_value:
  fixes T :: rat and w :: u16
  assumes T: "0 \<le> T" "T \<le> 64" and t: "t = double_round T"
  shows "\<exists>k. rx_timeout_double t w = of_int k \<and> 0 \<le> k \<and> k < 2 ^ 32"
proof -
  define nn where "nn = unat w"
  have nn: "nn \<le> 65535" using unsigned_less [of w, where 'a = nat] unfolding nn_def by simp
  define n :: rat where "n = of_nat nn"
  have n: "0 \<le> n" "n \<le> 65535" unfolding n_def using nn by simp_all
  have b: "- 1 < double_mul n t \<and> double_mul n t \<le> 4259776"
    using T n t by (rule double_mul_window_bounds)
  have to: "rx_timeout_double t w = of_int \<lceil>double_mul n t\<rceil>"
    unfolding rx_timeout_double_def n_def nn_def ..
  have "0 \<le> \<lceil>double_mul n t\<rceil>" "\<lceil>double_mul n t\<rceil> \<le> 4259776"
    using b by linarith+
  then have "0 \<le> \<lceil>double_mul n t\<rceil>" "\<lceil>double_mul n t\<rceil> < 2 ^ 32" by simp_all
  with to show ?thesis by blast
qed


text \<open>
  C5, as the claim states it: the width would be
  \<open>N = max(6, 2*6 - 8 + ceil(2*err_ms*BW_kHz / 2^SF) + 1)\<close> and the offset
  \<open>ceil((N/2)*Tsym - 4*Tsym + board_delay_ms)\<close>. For SF7 at 125 kHz, a clock
  accuracy of 10, a delay of 1000 ms and a board delay of 7 ms, \<open>err_ms\<close> is 10 and
  the claim gives \<open>N\<close> = 25 and an offset of 16 (for \<open>N\<close> = 24 as well). The code
  shifts \<open>2*err_ms*BW_kHz\<close> right by \<open>SF\<close>, which rounds 2500/128 down, so
  \<open>N\<close> = 24; and it negates the ceiling of \<open>4*Tsym - N*Tsym/2 - board_delay_ms\<close>,
  which rounds 15.192 down to 15.
\<close>

theorem compute_rx_window_parameters_ceiling_counterexample:
  "rx_window_view (compute_rx_window_parameters rx1_window_mac 7 BW125 10 1000 7 LORA) =
     Some (24, 15) \<and>
   (10 * 1000 :: int) div 1000 = 10 \<and>
   max 6 (2 * 6 - 8 + \<lceil>(2 * 10 * 125 :: rat) / 2 ^ 7\<rceil> + 1) = 25 \<and>
   \<lceil>(25 / 2) * (2 ^ 7 / 125) - 4 * (2 ^ 7 / 125) + (7 :: rat)\<rceil> = 16 \<and>
   \<lceil>(24 / 2) * (2 ^ 7 / 125) - 4 * (2 ^ 7 / 125) + (7 :: rat)\<rceil> = 16"
  by code_simp

text \<open>
  C5, amended. For LoRa with a spreading factor up to 12, and for GFSK with a bit rate
  other than 0, \<^verbatim>\<open>compute_rx_window_parameters\<close> returns with the width
  \<open>N = max(6, 2*6 - 8 + floor(2*err_ms*BW_kHz / 2^SF) + 1)\<close>, where
  \<open>err_ms = floor(clock_accuracy * delay_ms / 1000)\<close>, \<open>BW_kHz\<close> is 125 for a
  bandwidth other than 125, 250, 500, 800 and 1600 kHz, GFSK uses
  \<open>floor(2*err_ms*bitrate / 8)\<close>, the products and the sum are taken modulo \<open>2^32\<close>
  and the result modulo \<open>2^16\<close>. With \<open>Tsym = 2^SF / BW_kHz\<close> (GFSK:
  \<open>8 / bitrate\<close>) and \<open>X = (N/2)*Tsym - 4*Tsym + board_delay_ms\<close> as exact
  numbers, the offset is \<open>floor(X)\<close>; only where \<open>X\<close> is a whole number the
  rounding of the double arithmetic may give \<open>X - 1\<close> instead.
\<close>

theorem compute_rx_window_parameters_values:
  fixes m :: "('r, 'p) mac" and T X :: rat
  assumes lora: "md = LORA \<Longrightarrow> unat s \<le> 12"
    and fsk: "md = FSK \<Longrightarrow> s \<noteq> 0"
    and err: "err = (unat clock * unat delay mod 2 ^ 32) div 1000"
    and k: "k = (case md of LORA \<Rightarrow> (2 * err * nat (bw_temp_of b)) mod 2 ^ 32 div 2 ^ unat s
                          | FSK \<Rightarrow> (2 * err * unat s) mod 2 ^ 32 div 2 ^ 3)"
    and N: "N = max ((2 * 6 - 8 + k + 1) mod 2 ^ 32) 6 mod 2 ^ 16"
    and T: "T = (case md of LORA \<Rightarrow> 2 ^ unat s / of_int (bw_temp_of b)
                          | FSK \<Rightarrow> 8 / of_nat (unat s))"
    and X: "X = of_nat N / 2 * T - 4 * T + of_nat (unat board)"
  shows "\<exists>m'. compute_rx_window_parameters m s b clock delay board md = Inr m' \<and>
           unat (rx_window_symb m') = N \<and>
           (sint (rx_offset_ms m') = \<lfloor>X\<rfloor> \<or>
            of_int \<lfloor>X\<rfloor> = X \<and> sint (rx_offset_ms m') = \<lfloor>X\<rfloor> - 1)"
proof -
  define w where "w = rx_window_symb_of s b (rx_error_ms_of clock delay) md"
  define t where "t = tsymbol_of s b md"
  have k5: "2 * 6 - 8 + k + 1 = k + 5" by simp
  have wN: "unat w = N"
    unfolding w_def rx_window_symb_of_unat rx_error_ms_of_unat N k5
    unfolding k err ..
  have tT: "t = double_round T"
    unfolding t_def T by (rule tsymbol_of_round)
  have s0: "md = FSK \<Longrightarrow> unat s \<noteq> 0"
    using fsk by (simp add: unat_eq_0)
  have Tr: "0 \<le> T" "T \<le> 64"
    using symbol_time_range [OF lora s0 T] by simp_all
  have s256: "unat s < 256" using unsigned_less [of s, where 'a = nat] by simp
  have Xw: "X = of_nat (unat w) / 2 * T - 4 * T + of_nat (unat board)"
    unfolding X wN ..
  obtain q z where q: "0 < q" "q \<le> 3200" and grid: "X * of_int q = of_int z"
    using offset_grid [OF s0 s256 T X] by blast
  obtain ko where ko: "rx_offset_double t w board = of_int ko"
      "ko = \<lfloor>X\<rfloor> \<or> of_int \<lfloor>X\<rfloor> = X \<and> ko = \<lfloor>X\<rfloor> - 1"
      "- (2 ^ 31) \<le> ko" "ko < 2 ^ 31"
    using rx_offset_double_value [OF Tr tT q grid Xw] by blast
  obtain kt where kt: "rx_timeout_double t w = of_int kt" "0 \<le> kt" "kt < 2 ^ 32"
    using rx_timeout_double_value [OF Tr tT] by blast
  have def: "\<not> ((md = LORA \<and> unat s > 30) \<or> (md = FSK \<and> s = 0))"
    using lora fsk by auto
  have rng: "- (2 ^ 31) \<le> (of_int ko :: rat) \<and> (of_int ko :: rat) < 2 ^ 31 \<and>
             0 \<le> (of_int kt :: rat) \<and> (of_int kt :: rat) < 2 ^ 32"
    using ko(3,4) kt(2,3) by (simp add: of_int_less_iff [symmetric] of_int_le_iff [symmetric]
        del: of_int_less_iff of_int_le_iff)
  have c: "compute_rx_window_parameters m s b clock delay board md =
      Inr (m\<lparr>rx_offset_ms := word_of_int ko, rx_window_symb := w,
              rx_timeout_ms := word_of_int kt\<rparr>)"
    unfolding compute_rx_window_parameters_def Let_def w_def [symmetric] t_def [symmetric]
      ko(1) kt(1)
    using def rng by (simp only: if_False if_True floor_of_int simp_thms)
  have so: "sint (word_of_int ko :: u32) = ko"
    using ko(3,4) by (simp add: sint_sbintrunc' signed_take_bit_int_eq_self)
  show ?thesis
    unfolding c using wN ko(2) so by simp
qed


theorem compute_rx_window_parameters_values_witness:
  "(\<exists>m'. compute_rx_window_parameters rx1_window_mac 7 BW125 10 1000 7 LORA = Inr m' \<and>
         unat (rx_window_symb m') = 24 \<and> sint (rx_offset_ms m') = 15) \<and>
   (\<exists>m'. compute_rx_window_parameters rx1_window_mac 50 BW125 10 1000 7 FSK = Inr m' \<and>
         unat (rx_window_symb m') = 130 \<and> sint (rx_offset_ms m') = 16)"
proof -
  have l: "\<exists>m'. compute_rx_window_parameters rx1_window_mac 7 BW125 10 1000 7 LORA = Inr m' \<and>
         unat (rx_window_symb m') = 24 \<and>
         (sint (rx_offset_ms m') = \<lfloor>1899 / 125 :: rat\<rfloor> \<or>
          of_int \<lfloor>1899 / 125 :: rat\<rfloor> = (1899 / 125 :: rat) \<and>
          sint (rx_offset_ms m') = \<lfloor>1899 / 125 :: rat\<rfloor> - 1)"
    by (rule compute_rx_window_parameters_values
          [where md = LORA and s = 7 and clock = 10 and delay = 1000 and err = 10 and k = 19
             and b = BW125 and N = 24 and T = "128 / 125" and X = "1899 / 125" and board = 7])
       (simp_all add: bw_temp_of_def)
  have f: "\<exists>m'. compute_rx_window_parameters rx1_window_mac 50 BW125 10 1000 7 FSK = Inr m' \<and>
         unat (rx_window_symb m') = 130 \<and>
         (sint (rx_offset_ms m') = \<lfloor>419 / 25 :: rat\<rfloor> \<or>
          of_int \<lfloor>419 / 25 :: rat\<rfloor> = (419 / 25 :: rat) \<and>
          sint (rx_offset_ms m') = \<lfloor>419 / 25 :: rat\<rfloor> - 1)"
    by (rule compute_rx_window_parameters_values
          [where md = FSK and s = 50 and clock = 10 and delay = 1000 and err = 10 and k = 125
             and b = BW125 and N = 130 and T = "4 / 25" and X = "419 / 25" and board = 7])
       (simp_all add: bw_temp_of_def)
  have fl: "\<lfloor>1899 / 125 :: rat\<rfloor> = 15" "\<lfloor>419 / 25 :: rat\<rfloor> = 16" by code_simp+
  show ?thesis
    using l f unfolding fl by simp
qed

subsection \<open>Opening the receive windows\<close>

lemma compute_rx_window_parameters_frame:
  assumes "compute_rx_window_parameters m s b c d bd md = Inr m2"
  shows "isr_radio_timestamp m2 = isr_radio_timestamp m \<and> rp m2 = rp m \<and>
         radio_process_state m2 = radio_process_state m"
  using assms unfolding compute_rx_window_parameters_def Let_def
  by (auto split: if_splits)

lemma rx_delay_ms_unat:
  "unat (rx_delay_ms m ty) =
     (case ty of RX1 \<Rightarrow> unat (rx1_delay_s m) * 1000 | RX2 \<Rightarrow> unat (rx1_delay_s m) * 1000 + 1000)"
proof -
  have lt: "unat (rx1_delay_s m) < 256"
    using unsigned_less [of "rx1_delay_s m", where 'a = nat] by simp
  have u: "unat (ucast (rx1_delay_s m) :: u32) = unat (rx1_delay_s m)"
    by (simp add: unsigned_ucast_eq take_bit_nat_eq_self_iff) (use lt in simp)
  show ?thesis
    using lt by (cases ty) (simp_all add: rx_delay_ms_def unat_word_ariths u)
qed

text \<open>
  C6, as the claim states it: when the start time \<open>t0 + delay_ms - offset_ms\<close> is not
  later than the current time, no task would be armed and the state would advance.
  With \<open>t0\<close> = 5000, a delay of 1000 ms and an offset of 15 ms the start time is
  5985; at the current time 5985 the difference is zero, yet the code hands an RX task
  starting at 5985 to the planner and leaves the state at \<^verbatim>\<open>RADIOSTATE_TXFINISHED\<close>.
\<close>

theorem rx_timer_configure_zero_margin_counterexample:
  "rp rx1_window_mac = None \<and>
   isr_radio_timestamp rx1_window_mac + rx_delay_ms rx1_window_mac RX1 - 15 - 5985 = 0 \<and>
   window_view (lr1_stack_mac_rx_timer_configure scenario_env 5985 5985 rx1_window_mac RX1) =
     Some (RADIOSTATE_TXFINISHED, 15,
           Some \<lparr>hook_id = 0, task_type = RP_TASK_TYPE_RX_LORA,
                 task_state = RP_TASK_STATE_SCHEDULE, start_time_ms = 5985,
                 duration_time_ms = 25\<rparr>)"
  by code_simp

text \<open>
  C6, amended. Let \<open>t0\<close> be \<^verbatim>\<open>isr_radio_timestamp\<close>, \<open>delay_ms\<close> be
  \<^verbatim>\<open>rx1_delay_s\<close> times 1000 for RX1 and that plus 1000 for RX2, and let
  \<open>margin\<close> be \<open>t0 + delay_ms - offset_ms\<close> minus the clock value read on entry, as a
  signed 32-bit number. Where the window parameters are defined and the planner hook
  is found: if \<open>margin\<close> is negative, the planner is left untouched and the state
  becomes \<^verbatim>\<open>RADIOSTATE_RX1FINISHED\<close> for RX1 and \<^verbatim>\<open>RADIOSTATE_IDLE\<close> for RX2; if
  \<open>margin\<close> is zero or positive, a scheduled RX task is enqueued whose start time is
  \<open>t0 + delay_ms - offset_ms\<close> plus the time the clock has advanced between its two
  readings, and the state is the one the regional layer left.
\<close>

theorem rx_timer_configure_schedule:
  fixes e :: "('r, 'p) env" and m :: "('r, 'p) mac"
  assumes m1: "m1 = smtc_real_rx_config_set e m ty"
    and m2: "compute_rx_window_parameters m1
               (case ty of RX1 \<Rightarrow> rx1_sf m1 | RX2 \<Rightarrow> rx2_sf m1)
               (case ty of RX1 \<Rightarrow> rx1_bw m1 | RX2 \<Rightarrow> rx2_bw m1)
               (BSP_CRYSTAL_ERROR e) (rx_delay_ms m1 ty) (BSP_BOARD_DELAY_RX_SETTING_MS e)
               (case ty of RX1 \<Rightarrow> rx1_modulation_type m1 | RX2 \<Rightarrow> rx2_modulation_type m1) = Inr m2"
    and m3: "m3 = smtc_real_rx_config_set e m2 ty"
    and hook: "rp_hook_get_id e (rp m3) = (RP_HOOK_STATUS_OK, h)"
    and margin: "margin = sint (isr_radio_timestamp m1 + rx_delay_ms m1 ty - rx_offset_ms m2 - now1)"
    and start: "start = isr_radio_timestamp m1 + rx_delay_ms m1 ty - rx_offset_ms m3 + (now2 - now1)"
  shows "unat (rx_delay_ms m1 ty) =
           (case ty of RX1 \<Rightarrow> unat (rx1_delay_s m1) * 1000
                     | RX2 \<Rightarrow> unat (rx1_delay_s m1) * 1000 + 1000) \<and>
         (margin < 0 \<longrightarrow>
            lr1_stack_mac_rx_timer_configure e now1 now2 m ty =
              Inr (m2\<lparr>radio_process_state :=
                        (case ty of RX1 \<Rightarrow> RADIOSTATE_RX1FINISHED | RX2 \<Rightarrow> RADIOSTATE_IDLE)\<rparr>) \<and>
            rp m2 = rp m1) \<and>
         (0 \<le> margin \<longrightarrow>
            lr1_stack_mac_rx_timer_configure e now1 now2 m ty =
              Inr (m3\<lparr>rp := snd (rp_task_enqueue e (rp m3) (rx_rp_task h m3 ty start)
                                   (rx_payload m3) 255 (rx_radio_params m3 ty))\<rparr>) \<and>
            task_state (rx_rp_task h m3 ty start) = RP_TASK_STATE_SCHEDULE \<and>
            start_time_ms (rx_rp_task h m3 ty start) = start)"
proof -
  have fr: "isr_radio_timestamp m2 = isr_radio_timestamp m1" "rp m2 = rp m1"
    using compute_rx_window_parameters_frame [OF m2] by simp_all
  have mg: "margin = sint (rx_delay_ms m1 ty + isr_radio_timestamp m2 - now1 - rx_offset_ms m2)"
    unfolding margin fr by (simp add: algebra_simps)
  have st: "start = now2 + (rx_delay_ms m1 ty + isr_radio_timestamp m2 - now1) - rx_offset_ms m3"
    unfolding start fr by (simp add: algebra_simps)
  have late: "margin < 0 \<Longrightarrow>
      lr1_stack_mac_rx_timer_configure e now1 now2 m ty =
        Inr (m2\<lparr>radio_process_state :=
                  (case ty of RX1 \<Rightarrow> RADIOSTATE_RX1FINISHED | RX2 \<Rightarrow> RADIOSTATE_IDLE)\<rparr>)"
    unfolding lr1_stack_mac_rx_timer_configure_def Let_def m1 [symmetric] m2 mg
    by simp
  have armed: "0 \<le> margin \<Longrightarrow>
      lr1_stack_mac_rx_timer_configure e now1 now2 m ty =
        Inr (m3\<lparr>rp := snd (rp_task_enqueue e (rp m3) (rx_rp_task h m3 ty start)
                             (rx_payload m3) 255 (rx_radio_params m3 ty))\<rparr>)"
    unfolding lr1_stack_mac_rx_timer_configure_def Let_def m1 [symmetric] m2 mg
    by (simp add: m3 [symmetric] st [symmetric] lr1_stack_mac_rx_radio_start_def hook
          split: prod.splits)
  show ?thesis
    using late armed fr rx_delay_ms_unat [of m1 ty] by (simp add: rx_rp_task_def)
qed


theorem rx_timer_configure_schedule_witness:
  "compute_rx_window_parameters rx1_window_mac 7 BW125 10 1000 7 LORA = Inr rx1_window_computed \<and>
   rp_hook_get_id scenario_env (rp rx1_window_computed) = (RP_HOOK_STATUS_OK, 0) \<and>
   unat (rx_delay_ms rx1_window_mac RX1) = 1000 \<and>
   lr1_stack_mac_rx_timer_configure scenario_env 5900 5902 rx1_window_mac RX1 =
     Inr (rx1_window_computed\<lparr>rp :=
            Some \<lparr>hook_id = 0, task_type = RP_TASK_TYPE_RX_LORA,
                  task_state = RP_TASK_STATE_SCHEDULE, start_time_ms = 5987,
                  duration_time_ms = 25\<rparr>\<rparr>) \<and>
   lr1_stack_mac_rx_timer_configure scenario_env 5990 5990 rx1_window_mac RX1 =
     Inr (rx1_window_computed\<lparr>radio_process_state := RADIOSTATE_RX1FINISHED\<rparr>)"
proof -
  have m1: "rx1_window_mac = smtc_real_rx_config_set scenario_env rx1_window_mac RX1"
    by (simp add: scenario_env_def)
  have m3: "rx1_window_computed = smtc_real_rx_config_set scenario_env rx1_window_computed RX1"
    by (simp add: scenario_env_def)
  have c: "compute_rx_window_parameters rx1_window_mac 7 BW125 10 1000 7 LORA = Inr rx1_window_computed"
    by code_simp
  have args: "rx1_sf rx1_window_mac = 7" "rx1_bw rx1_window_mac = BW125"
    "BSP_CRYSTAL_ERROR scenario_env = 10" "rx_delay_ms rx1_window_mac RX1 = 1000"
    "BSP_BOARD_DELAY_RX_SETTING_MS scenario_env = 7" "rx1_modulation_type rx1_window_mac = LORA"
    by code_simp+
  have m2: "compute_rx_window_parameters rx1_window_mac
               (case RX1 of RX1 \<Rightarrow> rx1_sf rx1_window_mac | RX2 \<Rightarrow> rx2_sf rx1_window_mac)
               (case RX1 of RX1 \<Rightarrow> rx1_bw rx1_window_mac | RX2 \<Rightarrow> rx2_bw rx1_window_mac)
               (BSP_CRYSTAL_ERROR scenario_env) (rx_delay_ms rx1_window_mac RX1)
               (BSP_BOARD_DELAY_RX_SETTING_MS scenario_env)
               (case RX1 of RX1 \<Rightarrow> rx1_modulation_type rx1_window_mac
                          | RX2 \<Rightarrow> rx2_modulation_type rx1_window_mac) = Inr rx1_window_computed"
    using c by (simp add: args)
  have hook: "rp_hook_get_id scenario_env (rp rx1_window_computed) = (RP_HOOK_STATUS_OK, 0)"
    by (simp add: scenario_env_def)
  have fields: "isr_radio_timestamp rx1_window_mac = 5000" "rx_offset_ms rx1_window_computed = 15"
    by code_simp+
  have mg1: "(85 :: int) =
      sint (isr_radio_timestamp rx1_window_mac + rx_delay_ms rx1_window_mac RX1 -
            rx_offset_ms rx1_window_computed - 5900)"
    unfolding fields args by simp
  have st1: "(5987 :: u32) =
      isr_radio_timestamp rx1_window_mac + rx_delay_ms rx1_window_mac RX1 -
        rx_offset_ms rx1_window_computed + (5902 - 5900)"
    unfolding fields args by simp
  have mg2: "(- 5 :: int) =
      sint (isr_radio_timestamp rx1_window_mac + rx_delay_ms rx1_window_mac RX1 -
            rx_offset_ms rx1_window_computed - 5990)"
    unfolding fields args by simp
  have st2: "(5985 :: u32) =
      isr_radio_timestamp rx1_window_mac + rx_delay_ms rx1_window_mac RX1 -
        rx_offset_ms rx1_window_computed + (5990 - 5990)"
    unfolding fields args by simp
  have enq: "snd (rp_task_enqueue scenario_env (rp rx1_window_computed)
                    (rx_rp_task 0 rx1_window_computed RX1 5987) (rx_payload rx1_window_computed) 255
                    (rx_radio_params rx1_window_computed RX1)) =
             Some \<lparr>hook_id = 0, task_type = RP_TASK_TYPE_RX_LORA,
                  task_state = RP_TASK_STATE_SCHEDULE, start_time_ms = 5987,
                  duration_time_ms = 25\<rparr>"
    by code_simp
  note armed = rx_timer_configure_schedule [OF m1 m2 m3 hook mg1 st1]
  note late = rx_timer_configure_schedule [OF m1 m2 m3 hook mg2 st2]
  have a1: "lr1_stack_mac_rx_timer_configure scenario_env 5900 5902 rx1_window_mac RX1 =
      Inr (rx1_window_computed\<lparr>rp :=
             snd (rp_task_enqueue scenario_env (rp rx1_window_computed)
                    (rx_rp_task 0 rx1_window_computed RX1 5987) (rx_payload rx1_window_computed) 255
                    (rx_radio_params rx1_window_computed RX1))\<rparr>)"
    using armed by simp
  have l1: "lr1_stack_mac_rx_timer_configure scenario_env 5990 5990 rx1_window_mac RX1 =
      Inr (rx1_window_computed\<lparr>radio_process_state := RADIOSTATE_RX1FINISHED\<rparr>)"
    using late by simp
  have d: "unat (rx_delay_ms rx1_window_mac RX1) = 1000"
    unfolding args by simp
  show ?thesis
    using a1 [unfolded enq] l1 c hook d by simp
qed

end
